theory Spec2Isabelle
  imports Main
begin

section \<open>JavaScript values and the numeric check of the route parameters\<close>

text \<open>
  The handlers of \<^verbatim>\<open>routes/chats.js\<close> read \<^verbatim>\<open>request.params.chatId\<close>,
  \<^verbatim>\<open>request.params.email\<close> and \<^verbatim>\<open>request.decoded.memberid\<close>. A route parameter is
  a string or \<^verbatim>\<open>undefined\<close>; the remove-by-email route overwrites
  \<^verbatim>\<open>request.params.email\<close> with a member id, a number. Strings are lists of
  characters with codes below 256.
\<close>

datatype jsval = Undefined | Str string | Num int

text \<open>\<^verbatim>\<open>!v\<close>: \<^verbatim>\<open>undefined\<close>, the empty string and \<^verbatim>\<open>0\<close> are falsy.\<close>

definition falsy :: "jsval \<Rightarrow> bool" where
  "falsy v = (case v of Undefined \<Rightarrow> True | Str s \<Rightarrow> s = [] | Num n \<Rightarrow> n = 0)"

text \<open>
  \<^verbatim>\<open>isNaN(v)\<close> converts its argument with \<^verbatim>\<open>Number\<close> first. On a string that is
  the StringNumericLiteral grammar of ECMAScript: white space is trimmed, the empty
  string is \<^verbatim>\<open>0\<close>, and what remains must be a signed decimal literal (with an
  optional fraction and exponent, or \<^verbatim>\<open>Infinity\<close>) or an unsigned hexadecimal, octal
  or binary integer literal.
\<close>

definition is_digit :: "char \<Rightarrow> bool" where
  "is_digit c = (c \<in> set ''0123456789'')"

definition is_hex_digit :: "char \<Rightarrow> bool" where
  "is_hex_digit c = (c \<in> set ''0123456789abcdefABCDEF'')"

definition is_oct_digit :: "char \<Rightarrow> bool" where
  "is_oct_digit c = (c \<in> set ''01234567'')"

definition is_bin_digit :: "char \<Rightarrow> bool" where
  "is_bin_digit c = (c \<in> set ''01'')"

definition is_space :: "char \<Rightarrow> bool" where
  "is_space c = (c \<in> set [CHR '' '', CHR 0x09, CHR 0x0A, CHR 0x0B, CHR 0x0C, CHR 0x0D])"

definition js_space :: "char \<Rightarrow> bool" where
  "js_space c = (is_space c \<or> c = CHR 0xA0)"

definition trim :: "(char \<Rightarrow> bool) \<Rightarrow> string \<Rightarrow> string" where
  "trim ws s = rev (dropWhile ws (rev (dropWhile ws s)))"

definition all_digits :: "string \<Rightarrow> bool" where
  "all_digits s = (s \<noteq> [] \<and> list_all is_digit s)"

definition exponent_opt :: "string \<Rightarrow> bool" where
  "exponent_opt s =
     (case s of
        [] \<Rightarrow> True
      | c # r \<Rightarrow> (c = CHR ''e'' \<or> c = CHR ''E'') \<and>
          (case r of
             [] \<Rightarrow> False
           | d # r' \<Rightarrow> if d = CHR ''+'' \<or> d = CHR ''-'' then all_digits r' else all_digits r))"

definition unsigned_decimal :: "string \<Rightarrow> bool" where
  "unsigned_decimal s =
     (s = ''Infinity'' \<or>
      (let ip = takeWhile is_digit s; r = dropWhile is_digit s in
       case r of
         [] \<Rightarrow> ip \<noteq> []
       | c # r' \<Rightarrow>
           if c = CHR ''.''
           then (let fp = takeWhile is_digit r'; r'' = dropWhile is_digit r'
                 in (ip \<noteq> [] \<or> fp \<noteq> []) \<and> exponent_opt r'')
           else ip \<noteq> [] \<and> exponent_opt r))"

definition str_decimal :: "string \<Rightarrow> bool" where
  "str_decimal s =
     (case s of
        [] \<Rightarrow> False
      | c # r \<Rightarrow> if c = CHR ''+'' \<or> c = CHR ''-'' then unsigned_decimal r
                 else unsigned_decimal s)"

definition non_decimal :: "string \<Rightarrow> bool" where
  "non_decimal s =
     (case s of
        z # x # r \<Rightarrow> z = CHR ''0'' \<and> r \<noteq> [] \<and>
          ((x = CHR ''x'' \<or> x = CHR ''X'') \<and> list_all is_hex_digit r \<or>
           (x = CHR ''o'' \<or> x = CHR ''O'') \<and> list_all is_oct_digit r \<or>
           (x = CHR ''b'' \<or> x = CHR ''B'') \<and> list_all is_bin_digit r)
      | _ \<Rightarrow> False)"

definition js_numeric :: "string \<Rightarrow> bool" where
  "js_numeric s = (let t = trim js_space s in t = [] \<or> str_decimal t \<or> non_decimal t)"

definition isNaN :: "jsval \<Rightarrow> bool" where
  "isNaN v = (case v of Undefined \<Rightarrow> True | Str s \<Rightarrow> \<not> js_numeric s | Num n \<Rightarrow> False)"

section \<open>The relational store\<close>

text \<open>
  Modelled from the spec: the schema of the database, which is not among the sources.
  The tables are those the spec lists and the statements of \<^verbatim>\<open>routes/chats.js\<close>
  name: \<^verbatim>\<open>Chats(ChatId, Name)\<close>, \<^verbatim>\<open>Members(MemberId, Email, Username)\<close>,
  \<^verbatim>\<open>ChatMembers(ChatId, MemberId)\<close> and \<^verbatim>\<open>Push_Token(MemberId, Token)\<close>, each a list
  of rows, with the sequence that generates \<^verbatim>\<open>ChatId\<close>. The ids are integers, the
  other columns text. No uniqueness or foreign-key constraint is built into the
  tables: the handlers check before they write, and a property that needs one states it.
\<close>

record store =
  Chats :: "(int \<times> string) list"
  ChatSeq :: int
  Members :: "(int \<times> string \<times> string) list"
  ChatMembers :: "(int \<times> int) list"
  Push_Token :: "(int \<times> string) list"

datatype dberror = DriverFault | InvalidInteger string | NotNull

text \<open>
  A parameter bound to an integer column travels as text and the store reads it as a
  decimal integer: white space, an optional sign, digits, white space. Anything else is
  an error of the query; \<^verbatim>\<open>undefined\<close> is sent as \<^verbatim>\<open>NULL\<close>. The integers of the
  model are unbounded.
\<close>

definition digit_val :: "char \<Rightarrow> nat" where
  "digit_val c = of_char c - 48"

definition digits_val :: "string \<Rightarrow> nat" where
  "digits_val s = foldl (\<lambda>a c. 10 * a + digit_val c) 0 s"

definition int_of_text :: "string \<Rightarrow> int option" where
  "int_of_text s =
     (let t = trim is_space s in
      case t of
        [] \<Rightarrow> None
      | c # r \<Rightarrow>
          if c = CHR ''-'' then (if all_digits r then Some (- int (digits_val r)) else None)
          else if c = CHR ''+'' then (if all_digits r then Some (int (digits_val r)) else None)
          else if all_digits t then Some (int (digits_val t)) else None)"

definition sql_int :: "jsval \<Rightarrow> dberror + int option" where
  "sql_int v =
     (case v of
        Undefined \<Rightarrow> Inr None
      | Num n \<Rightarrow> Inr (Some n)
      | Str s \<Rightarrow> (case int_of_text s of None \<Rightarrow> Inl (InvalidInteger s) | Some n \<Rightarrow> Inr (Some n)))"


text \<open>
  The condition \<^verbatim>\<open>column = $k\<close> for an integer column: a comparison with
  \<^verbatim>\<open>NULL\<close> holds for no row.
\<close>

definition where_int :: "jsval \<Rightarrow> dberror + (int \<Rightarrow> bool)" where
  "where_int v =
     (case sql_int v of
        Inl e \<Rightarrow> Inl e
      | Inr None \<Rightarrow> Inr (\<lambda>x. False)
      | Inr (Some n) \<Rightarrow> Inr (\<lambda>x. x = n))"

text \<open>A number bound to a text column is sent as its decimal text.\<close>

definition digit_char :: "nat \<Rightarrow> char" where
  "digit_char d = ''0123456789'' ! d"

fun show_nat :: "nat \<Rightarrow> string" where
  "show_nat n = (if n < 10 then [digit_char n] else show_nat (n div 10) @ [digit_char (n mod 10)])"

declare show_nat.simps [simp del]

definition show_int :: "int \<Rightarrow> string" where
  "show_int i = (if i < 0 then CHR ''-'' # show_nat (nat (- i)) else show_nat (nat i))"

definition sql_text :: "jsval \<Rightarrow> string option" where
  "sql_text v = (case v of Undefined \<Rightarrow> None | Str s \<Rightarrow> Some s | Num n \<Rightarrow> Some (show_int n))"

subsection \<open>The statements of \<^verbatim>\<open>routes/chats.js\<close>\<close>

text \<open>\<^verbatim>\<open>INSERT INTO Chats(Name) VALUES ($1) RETURNING ChatId\<close>; the name of a chat is not null.\<close>

definition insert_chat :: "jsval \<Rightarrow> store \<Rightarrow> dberror + int \<times> store" where
  "insert_chat nm s =
     (case sql_text nm of
        None \<Rightarrow> Inl NotNull
      | Some n \<Rightarrow> Inr (ChatSeq s, s\<lparr>Chats := Chats s @ [(ChatSeq s, n)], ChatSeq := ChatSeq s + 1\<rparr>))"

text \<open>
  \<^verbatim>\<open>SELECT Chats.ChatID as "id", Chats.Name AS "name" FROM Chats JOIN ChatMembers
  ON ChatMembers.ChatID = Chats.ChatID WHERE ChatMembers.MemberID = $1\<close>
\<close>

definition select_chats_of_member :: "jsval \<Rightarrow> store \<Rightarrow> dberror + (int \<times> string) list" where
  "select_chats_of_member mid s =
     (case where_int mid of
        Inl e \<Rightarrow> Inl e
      | Inr p \<Rightarrow> Inr (concat (map (\<lambda>ch. map (\<lambda>cm. ch)
                         (filter (\<lambda>cm. fst cm = fst ch \<and> p (snd cm)) (ChatMembers s))) (Chats s))))"

text \<open>\<^verbatim>\<open>SELECT * FROM CHATS WHERE ChatId=$1\<close>\<close>

definition select_chat :: "jsval \<Rightarrow> store \<Rightarrow> dberror + (int \<times> string) list" where
  "select_chat cid s =
     (case where_int cid of
        Inl e \<Rightarrow> Inl e
      | Inr p \<Rightarrow> Inr (filter (\<lambda>ch. p (fst ch)) (Chats s)))"

text \<open>\<^verbatim>\<open>DELETE FROM ChatMembers WHERE ChatId=$1 AND MemberId=$2\<close>\<close>

definition delete_chat_member :: "jsval \<Rightarrow> jsval \<Rightarrow> store \<Rightarrow> dberror + unit \<times> store" where
  "delete_chat_member cid mid s =
     (case where_int cid of
        Inl e \<Rightarrow> Inl e
      | Inr p \<Rightarrow>
          (case where_int mid of
             Inl e \<Rightarrow> Inl e
           | Inr q \<Rightarrow> Inr ((), s\<lparr>ChatMembers :=
                 filter (\<lambda>cm. \<not> (p (fst cm) \<and> q (snd cm))) (ChatMembers s)\<rparr>)))"

text \<open>\<^verbatim>\<open>SELECT COUNT( * ) AS memberCount FROM ChatMembers WHERE ChatId=$1\<close>\<close>

definition count_chat_members :: "jsval \<Rightarrow> store \<Rightarrow> dberror + nat" where
  "count_chat_members cid s =
     (case where_int cid of
        Inl e \<Rightarrow> Inl e
      | Inr p \<Rightarrow> Inr (length (filter (\<lambda>cm. p (fst cm)) (ChatMembers s))))"

text \<open>\<^verbatim>\<open>DELETE FROM Chats WHERE ChatID=$1\<close>\<close>

definition delete_chat :: "jsval \<Rightarrow> store \<Rightarrow> dberror + unit \<times> store" where
  "delete_chat cid s =
     (case where_int cid of
        Inl e \<Rightarrow> Inl e
      | Inr p \<Rightarrow> Inr ((), s\<lparr>Chats := filter (\<lambda>ch. \<not> p (fst ch)) (Chats s)\<rparr>))"

text \<open>\<^verbatim>\<open>SELECT * FROM Members WHERE MemberId=$1\<close>\<close>

definition select_member_by_id :: "jsval \<Rightarrow> store \<Rightarrow> dberror + (int \<times> string \<times> string) list" where
  "select_member_by_id mid s =
     (case where_int mid of
        Inl e \<Rightarrow> Inl e
      | Inr p \<Rightarrow> Inr (filter (\<lambda>m. p (fst m)) (Members s)))"

text \<open>\<^verbatim>\<open>SELECT * FROM Members WHERE Email=$1\<close>\<close>

definition select_member_by_email :: "jsval \<Rightarrow> store \<Rightarrow> dberror + (int \<times> string \<times> string) list" where
  "select_member_by_email em s =
     (case sql_text em of
        None \<Rightarrow> Inr []
      | Some e \<Rightarrow> Inr (filter (\<lambda>m. fst (snd m) = e) (Members s)))"

text \<open>\<^verbatim>\<open>SELECT * FROM ChatMembers WHERE ChatId=$1 AND MemberId=$2\<close>\<close>

definition select_chat_member :: "jsval \<Rightarrow> jsval \<Rightarrow> store \<Rightarrow> dberror + (int \<times> int) list" where
  "select_chat_member cid mid s =
     (case where_int cid of
        Inl e \<Rightarrow> Inl e
      | Inr p \<Rightarrow>
          (case where_int mid of
             Inl e \<Rightarrow> Inl e
           | Inr q \<Rightarrow> Inr (filter (\<lambda>cm. p (fst cm) \<and> q (snd cm)) (ChatMembers s))))"

text \<open>\<^verbatim>\<open>INSERT INTO ChatMembers(ChatId, MemberId) VALUES ($1, $2)\<close>; both columns are not null.\<close>

definition insert_chat_member :: "jsval \<Rightarrow> jsval \<Rightarrow> store \<Rightarrow> dberror + unit \<times> store" where
  "insert_chat_member cid mid s =
     (case sql_int cid of
        Inl e \<Rightarrow> Inl e
      | Inr None \<Rightarrow> Inl NotNull
      | Inr (Some c) \<Rightarrow>
          (case sql_int mid of
             Inl e \<Rightarrow> Inl e
           | Inr None \<Rightarrow> Inl NotNull
           | Inr (Some m) \<Rightarrow> Inr ((), s\<lparr>ChatMembers := ChatMembers s @ [(c, m)]\<rparr>)))"

text \<open>\<^verbatim>\<open>SELECT token FROM Push_Token WHERE Push_token.memberid=$1\<close>\<close>

definition select_push_tokens :: "jsval \<Rightarrow> store \<Rightarrow> dberror + string list" where
  "select_push_tokens mid s =
     (case where_int mid of
        Inl e \<Rightarrow> Inl e
      | Inr p \<Rightarrow> Inr (map snd (filter (\<lambda>t. p (fst t)) (Push_Token s))))"

text \<open>
  \<^verbatim>\<open>SELECT Members.Email, Members.Username FROM ChatMembers INNER JOIN Members
  ON ChatMembers.MemberId=Members.MemberId WHERE ChatId=$1\<close>
\<close>

definition select_members_of_chat :: "jsval \<Rightarrow> store \<Rightarrow> dberror + (string \<times> string) list" where
  "select_members_of_chat cid s =
     (case where_int cid of
        Inl e \<Rightarrow> Inl e
      | Inr p \<Rightarrow> Inr (concat (map (\<lambda>cm. map snd (filter (\<lambda>m. fst m = snd cm) (Members s)))
                         (filter (\<lambda>cm. p (fst cm)) (ChatMembers s)))))"

section \<open>Requests, responses and the middleware chain\<close>

datatype sql =
    InsertChat jsval
  | SelectChatsOfMember jsval
  | SelectChat jsval
  | DeleteChatMember jsval jsval
  | CountChatMembers jsval
  | DeleteChat jsval
  | SelectMemberById jsval
  | SelectMemberByEmail jsval
  | SelectChatMember jsval jsval
  | InsertChatMember jsval jsval
  | SelectPushTokens jsval
  | SelectMembersOfChat jsval

text \<open>
  The bodies the handlers send: \<^verbatim>\<open>{message}\<close>, \<^verbatim>\<open>{message, error}\<close>,
  \<^verbatim>\<open>{success: true}\<close>, \<^verbatim>\<open>{success: true, chatID}\<close>, \<^verbatim>\<open>{rowCount, chatRooms}\<close> and
  \<^verbatim>\<open>{rowCount, rows}\<close>.
\<close>

datatype body =
    Message string
  | SqlError string dberror
  | Success
  | Created int
  | ChatRooms nat "(int \<times> string) list"
  | MemberRows nat "(string \<times> string) list"

text \<open>
  What a request does to the outside, in the order it happens: a query handed to the
  pool, a call of \<^verbatim>\<open>pushy.sendChatAction(token, action, chatId, name)\<close>, a response
  sent with its status.
\<close>

datatype event =
    Query sql
  | Notify string string jsval jsval
  | Send nat body

fun queries :: "event list \<Rightarrow> sql list" where
  "queries [] = []"
| "queries (Query q # evs) = q # queries evs"
| "queries (Notify t a c n # evs) = queries evs"
| "queries (Send st b # evs) = queries evs"

fun sent :: "event list \<Rightarrow> (nat \<times> body) list" where
  "sent [] = []"
| "sent (Send st b # evs) = (st, b) # sent evs"
| "sent (Query q # evs) = sent evs"
| "sent (Notify t a c n # evs) = sent evs"

fun notified :: "event list \<Rightarrow> (string \<times> string \<times> jsval \<times> jsval) list" where
  "notified [] = []"
| "notified (Notify t a c n # evs) = (t, a, c, n) # notified evs"
| "notified (Query q # evs) = notified evs"
| "notified (Send st b # evs) = notified evs"

text \<open>
  The world of one request: the store, the queries the driver rejects (by their
  position among the queries of this request) and the events so far.
\<close>

record world =
  db :: store
  faults :: "nat \<Rightarrow> bool"
  trace :: "event list"

definition init :: "store \<Rightarrow> (nat \<Rightarrow> bool) \<Rightarrow> world" where
  "init s f = \<lparr>db = s, faults = f, trace = []\<rparr>"

definition send :: "nat \<Rightarrow> body \<Rightarrow> world \<Rightarrow> world" where
  "send st b w = w\<lparr>trace := trace w @ [Send st b]\<rparr>"

text \<open>
  Modelled from the spec: \<^verbatim>\<open>pushy.sendChatAction\<close> of
  \<^verbatim>\<open>utilities/pushy_utilities.js\<close>, which is not among the sources. The spec's
  dispatcher \<^verbatim>\<open>sendChatAction(token, actionName, chatId, chatName)\<close> is asynchronous
  and best-effort and returns nothing the caller uses: a call is an event of the trace
  and changes nothing else.
\<close>

definition sendChatAction :: "string \<Rightarrow> string \<Rightarrow> jsval \<Rightarrow> jsval \<Rightarrow> world \<Rightarrow> world" where
  "sendChatAction t a c n w = w\<lparr>trace := trace w @ [Notify t a c n]\<rparr>"

definition reading :: "(store \<Rightarrow> dberror + 'r) \<Rightarrow> store \<Rightarrow> dberror + 'r \<times> store" where
  "reading sel s = (case sel s of Inl e \<Rightarrow> Inl e | Inr r \<Rightarrow> Inr (r, s))"

text \<open>
  \<^verbatim>\<open>pool.query(text, values)\<close>: the promise is rejected when the driver fails or
  the store refuses the statement, and resolved with the result otherwise.
\<close>

definition pool_query ::
  "sql \<Rightarrow> (store \<Rightarrow> dberror + 'r \<times> store) \<Rightarrow> world \<Rightarrow> (dberror + 'r) \<times> world" where
  "pool_query q run w =
     (let w1 = w\<lparr>trace := trace w @ [Query q]\<rparr> in
      if faults w (length (queries (trace w))) then (Inl DriverFault, w1)
      else (case run (db w) of
              Inl e \<Rightarrow> (Inl e, w1)
            | Inr (r, s') \<Rightarrow> (Inr r, w1\<lparr>db := s'\<rparr>)))"

record request =
  chatId :: jsval
  email :: jsval
  body_name :: jsval
  decoded_memberid :: int
  req_name :: jsval
  req_memberid :: jsval

text \<open>
  A middleware either calls \<^verbatim>\<open>next()\<close>, handing the request on, or ends the chain
  by sending a response.
\<close>

datatype flow = Next request world | Done world

type_synonym middleware = "request \<Rightarrow> world \<Rightarrow> flow"

fun run_chain :: "middleware list \<Rightarrow> request \<Rightarrow> world \<Rightarrow> world" where
  "run_chain [] rq w = w"
| "run_chain (m # ms) rq w =
     (case m rq w of Next rq' w' \<Rightarrow> run_chain ms rq' w' | Done w' \<Rightarrow> w')"


section \<open>The handlers of \<^verbatim>\<open>routes/chats.js\<close>\<close>

text \<open>
  Modelled from the spec: \<^verbatim>\<open>validation.isStringProvided\<close> of
  \<^verbatim>\<open>utilities/validationUtils.js\<close>, which is not among the sources. The spec
  requires a non-empty \<^verbatim>\<open>name\<close> and reports a missing one.
\<close>

definition isStringProvided :: "jsval \<Rightarrow> bool" where
  "isStringProvided v = (case v of Str s \<Rightarrow> s \<noteq> [] | _ \<Rightarrow> False)"

definition sql_error :: "dberror \<Rightarrow> world \<Rightarrow> flow" where
  "sql_error err w = Done (send 400 (SqlError ''SQL Error'' err) w)"

subsection \<open>\<^verbatim>\<open>router.post("/")\<close>: create a chat\<close>

definition post_chats_1 :: middleware where
  "post_chats_1 rq w =
     (if \<not> isStringProvided (body_name rq)
      then Done (send 400 (Message ''Missing required information'') w)
      else Next rq w)"

definition post_chats_2 :: middleware where
  "post_chats_2 rq w =
     (case pool_query (InsertChat (body_name rq)) (insert_chat (body_name rq)) w of
        (Inr chatid, w') \<Rightarrow> Done (send 201 (Created chatid) w')
      | (Inl err, w') \<Rightarrow> sql_error err w')"

definition post_chats :: "request \<Rightarrow> world \<Rightarrow> world" where
  "post_chats = run_chain [post_chats_1, post_chats_2]"

subsection \<open>\<^verbatim>\<open>router.get("/")\<close>: the chats of the caller\<close>

definition get_chats_1 :: middleware where
  "get_chats_1 rq w =
     (case pool_query (SelectChatsOfMember (Num (decoded_memberid rq)))
             (reading (select_chats_of_member (Num (decoded_memberid rq)))) w of
        (Inr rows, w') \<Rightarrow> Done (send 200 (ChatRooms (length rows) rows) w')
      | (Inl err, w') \<Rightarrow> sql_error err w')"

definition get_chats :: "request \<Rightarrow> world \<Rightarrow> world" where
  "get_chats = run_chain [get_chats_1]"

subsection \<open>The checks the chat-scoped routes share\<close>

text \<open>
  The first middleware of \<^verbatim>\<open>delete("/:chatId?")\<close>, \<^verbatim>\<open>put("/:chatId/")\<close> and
  \<^verbatim>\<open>get("/:chatId")\<close>, the same code in the three.
\<close>

definition check_chatId :: middleware where
  "check_chatId rq w =
     (if falsy (chatId rq)
      then Done (send 400 (Message ''Missing required information'') w)
      else if isNaN (chatId rq)
      then Done (send 400 (Message ''Malformed parameter. chatId must be a number'') w)
      else Next rq w)"

text \<open>
  The first middleware of \<^verbatim>\<open>put("/:chatId/:email")\<close> and
  \<^verbatim>\<open>delete("/:chatId/:email")\<close>.
\<close>

definition check_chatId_email :: middleware where
  "check_chatId_email rq w =
     (if falsy (chatId rq) \<or> falsy (email rq)
      then Done (send 400 (Message ''Missing required information'') w)
      else if isNaN (chatId rq)
      then Done (send 400 (Message ''Malformed parameter. chatId must be a number'') w)
      else Next rq w)"

text \<open>
  ``validate chat id exists'', the second middleware of \<^verbatim>\<open>delete("/:chatId?")\<close>,
  \<^verbatim>\<open>put("/:chatId/")\<close>, \<^verbatim>\<open>get("/:chatId")\<close> and \<^verbatim>\<open>delete("/:chatId/:email")\<close>.
\<close>

definition chat_exists :: middleware where
  "chat_exists rq w =
     (case pool_query (SelectChat (chatId rq)) (reading (select_chat (chatId rq))) w of
        (Inr rows, w') \<Rightarrow>
          (if length rows = 0 then Done (send 404 (Message ''Chat ID not found'') w')
           else Next rq w')
      | (Inl err, w') \<Rightarrow> sql_error err w')"

text \<open>``validate email does not already exist in the chat'', for the member id \<open>mid\<close>.\<close>

definition not_joined :: "(request \<Rightarrow> jsval) \<Rightarrow> middleware" where
  "not_joined mid rq w =
     (case pool_query (SelectChatMember (chatId rq) (mid rq))
             (reading (select_chat_member (chatId rq) (mid rq))) w of
        (Inr rows, w') \<Rightarrow>
          (if length rows > 0 then Done (send 400 (Message ''user already joined'') w')
           else Next rq w')
      | (Inl err, w') \<Rightarrow> sql_error err w')"

subsection \<open>\<^verbatim>\<open>router.delete("/:chatId?")\<close>: leave a chat, and delete it when empty\<close>

definition delete_chatId_3 :: middleware where
  "delete_chatId_3 rq w =
     (case pool_query (DeleteChatMember (chatId rq) (Num (decoded_memberid rq)))
             (delete_chat_member (chatId rq) (Num (decoded_memberid rq))) w of
        (Inr u, w') \<Rightarrow> Next rq w'
      | (Inl err, w') \<Rightarrow> sql_error err w')"

definition delete_chatId_4 :: middleware where
  "delete_chatId_4 rq w =
     (case pool_query (CountChatMembers (chatId rq))
             (reading (count_chat_members (chatId rq))) w of
        (Inr memberCount, w') \<Rightarrow>
          (if memberCount > 0 then Done (send 200 Success w') else Next rq w')
      | (Inl err, w') \<Rightarrow> sql_error err w')"

definition delete_chatId_5 :: middleware where
  "delete_chatId_5 rq w =
     (case pool_query (DeleteChat (chatId rq)) (delete_chat (chatId rq)) w of
        (Inr u, w') \<Rightarrow> Done (send 200 Success w')
      | (Inl err, w') \<Rightarrow> sql_error err w')"

definition delete_chatId :: "request \<Rightarrow> world \<Rightarrow> world" where
  "delete_chatId =
     run_chain [check_chatId, chat_exists, delete_chatId_3, delete_chatId_4, delete_chatId_5]"

subsection \<open>\<^verbatim>\<open>router.put("/:chatId/")\<close>: the caller joins a chat\<close>

definition put_chatId_3 :: middleware where
  "put_chatId_3 rq w =
     (case pool_query (SelectMemberById (Num (decoded_memberid rq)))
             (reading (select_member_by_id (Num (decoded_memberid rq)))) w of
        (Inr rows, w') \<Rightarrow>
          (if length rows = 0 then Done (send 404 (Message ''email not found'') w')
           else Next rq w')
      | (Inl err, w') \<Rightarrow> sql_error err w')"

definition put_chatId_5 :: middleware where
  "put_chatId_5 rq w =
     (case pool_query (InsertChatMember (chatId rq) (Num (decoded_memberid rq)))
             (insert_chat_member (chatId rq) (Num (decoded_memberid rq))) w of
        (Inr u, w') \<Rightarrow> Done (send 200 Success w')
      | (Inl err, w') \<Rightarrow> sql_error err w')"

definition put_chatId :: "request \<Rightarrow> world \<Rightarrow> world" where
  "put_chatId =
     run_chain [check_chatId, chat_exists, put_chatId_3,
                not_joined (\<lambda>rq. Num (decoded_memberid rq)), put_chatId_5]"

subsection \<open>\<^verbatim>\<open>router.put("/:chatId/:email")\<close>: add a member by email\<close>

definition put_chatId_email_2 :: middleware where
  "put_chatId_email_2 rq w =
     (case pool_query (SelectChat (chatId rq)) (reading (select_chat (chatId rq))) w of
        (Inr rows, w') \<Rightarrow>
          (case rows of
             [] \<Rightarrow> Done (send 404 (Message ''Chat ID not found'') w')
           | r # rs \<Rightarrow> Next (rq\<lparr>req_name := Str (snd r)\<rparr>) w')
      | (Inl err, w') \<Rightarrow> sql_error err w')"

definition put_chatId_email_3 :: middleware where
  "put_chatId_email_3 rq w =
     (case pool_query (SelectMemberByEmail (email rq))
             (reading (select_member_by_email (email rq))) w of
        (Inr rows, w') \<Rightarrow>
          (case rows of
             [] \<Rightarrow> Done (send 404 (Message ''User not found'') w')
           | r # rs \<Rightarrow> Next (rq\<lparr>req_memberid := Num (fst r)\<rparr>) w')
      | (Inl err, w') \<Rightarrow> sql_error err w')"

definition put_chatId_email_5 :: middleware where
  "put_chatId_email_5 rq w =
     (case pool_query (InsertChatMember (chatId rq) (req_memberid rq))
             (insert_chat_member (chatId rq) (req_memberid rq)) w of
        (Inr u, w') \<Rightarrow> Next rq w'
      | (Inl err, w') \<Rightarrow> sql_error err w')"

definition put_chatId_email_6 :: middleware where
  "put_chatId_email_6 rq w =
     (case pool_query (SelectPushTokens (req_memberid rq))
             (reading (select_push_tokens (req_memberid rq))) w of
        (Inr rows, w') \<Rightarrow>
          Done (send 200 Success
            (foldl (\<lambda>w token. sendChatAction token ''newRoom'' (chatId rq) (req_name rq) w)
               w' rows))
      | (Inl err, w') \<Rightarrow>
          Done (send 400 (SqlError ''SQL Error on select from push token'' err) w'))"

definition put_chatId_email :: "request \<Rightarrow> world \<Rightarrow> world" where
  "put_chatId_email =
     run_chain [check_chatId_email, put_chatId_email_2, put_chatId_email_3,
                not_joined req_memberid, put_chatId_email_5, put_chatId_email_6]"

subsection \<open>\<^verbatim>\<open>router.get("/:chatId")\<close>: the members of a chat\<close>

definition get_chatId_3 :: middleware where
  "get_chatId_3 rq w =
     (case pool_query (SelectMembersOfChat (chatId rq))
             (reading (select_members_of_chat (chatId rq))) w of
        (Inr rows, w') \<Rightarrow> Done (send 200 (MemberRows (length rows) rows) w')
      | (Inl err, w') \<Rightarrow> sql_error err w')"

definition get_chatId :: "request \<Rightarrow> world \<Rightarrow> world" where
  "get_chatId = run_chain [check_chatId, chat_exists, get_chatId_3]"

subsection \<open>\<^verbatim>\<open>router.delete("/:chatId/:email")\<close>: remove a named member\<close>

definition delete_chatId_email_3 :: middleware where
  "delete_chatId_email_3 rq w =
     (case pool_query (SelectMemberByEmail (email rq))
             (reading (select_member_by_email (email rq))) w of
        (Inr rows, w') \<Rightarrow>
          (case rows of
             [] \<Rightarrow> Done (send 404 (Message ''email not found'') w')
           | r # rs \<Rightarrow> Next (rq\<lparr>email := Num (fst r)\<rparr>) w')
      | (Inl err, w') \<Rightarrow> sql_error err w')"

definition delete_chatId_email_4 :: middleware where
  "delete_chatId_email_4 rq w =
     (case pool_query (SelectChatMember (chatId rq) (email rq))
             (reading (select_chat_member (chatId rq) (email rq))) w of
        (Inr rows, w') \<Rightarrow>
          (if length rows > 0 then Next rq w'
           else Done (send 400 (Message ''user not in chat'') w'))
      | (Inl err, w') \<Rightarrow> sql_error err w')"

definition delete_chatId_email_5 :: middleware where
  "delete_chatId_email_5 rq w =
     (case pool_query (DeleteChatMember (chatId rq) (email rq))
             (delete_chat_member (chatId rq) (email rq)) w of
        (Inr u, w') \<Rightarrow> Done (send 200 Success w')
      | (Inl err, w') \<Rightarrow> sql_error err w')"

definition delete_chatId_email :: "request \<Rightarrow> world \<Rightarrow> world" where
  "delete_chatId_email =
     run_chain [check_chatId_email, chat_exists, delete_chatId_email_3,
                delete_chatId_email_4, delete_chatId_email_5]"

text \<open>A request as the router hands it to a chain, and the response a world holds.\<close>

definition req :: "jsval \<Rightarrow> jsval \<Rightarrow> jsval \<Rightarrow> int \<Rightarrow> request" where
  "req c e n m =
     \<lparr>chatId = c, email = e, body_name = n, decoded_memberid = m,
      req_name = Undefined, req_memberid = Undefined\<rparr>"

definition response :: "world \<Rightarrow> (nat \<times> body) list" where
  "response w = sent (trace w)"

section \<open>A small store for concrete runs\<close>

text \<open>
  Two chats, two members: both are in chat 1, only member 10 is in chat 2; member 11
  has two device tokens. \<open>no_faults\<close> is a driver that rejects no query.
\<close>

definition demo_store :: store where
  "demo_store =
     \<lparr>Chats = [(1, ''General''), (2, ''Team'')], ChatSeq = 3,
      Members = [(10, ''a@x.org'', ''alice''), (11, ''b@x.org'', ''bob'')],
      ChatMembers = [(1, 10), (1, 11), (2, 10)],
      Push_Token = [(11, ''tok1''), (11, ''tok2'')]\<rparr>"

definition no_faults :: "nat \<Rightarrow> bool" where
  "no_faults k = False"

definition fault_at :: "nat \<Rightarrow> nat \<Rightarrow> bool" where
  "fault_at j k = (k = j)"

text \<open>
  What claims about the order of events need: a request is answered when its trace is
  not empty, ends with a response and holds exactly one; \<open>after_response\<close> is what
  follows the first response of a trace.
\<close>

definition is_send :: "event \<Rightarrow> bool" where
  "is_send ev = (case ev of Send st b \<Rightarrow> True | _ \<Rightarrow> False)"

definition responds_last :: "event list \<Rightarrow> bool" where
  "responds_last evs = (evs \<noteq> [] \<and> is_send (last evs) \<and> length (sent evs) = 1)"

definition after_response :: "event list \<Rightarrow> event list" where
  "after_response evs = tl (dropWhile (\<lambda>ev. \<not> is_send ev) evs)"

text \<open>
  The two ways a middleware may behave, seen from the trace of the world \<open>w\<close> it
  started in: \<open>passes\<close> when it either calls \<^verbatim>\<open>next()\<close> having sent nothing, or stops
  with a response as its last event; \<open>final\<close> when it always does the latter.
\<close>

definition passes :: "world \<Rightarrow> flow \<Rightarrow> bool" where
  "passes w fl =
     (case fl of
        Next rq' w' \<Rightarrow> length (sent (trace w')) = length (sent (trace w))
      | Done w' \<Rightarrow> trace w' \<noteq> [] \<and> is_send (last (trace w')) \<and>
                   length (sent (trace w')) = Suc (length (sent (trace w))))"

definition final :: "world \<Rightarrow> flow \<Rightarrow> bool" where
  "final w fl =
     (case fl of
        Next rq' w' \<Rightarrow> False
      | Done w' \<Rightarrow> trace w' \<noteq> [] \<and> is_send (last (trace w')) \<and>
                   length (sent (trace w')) = Suc (length (sent (trace w))))"

text \<open>
  The invariant of the generated ids: every \<^verbatim>\<open>ChatId\<close> in \<^verbatim>\<open>Chats\<close> and in
  \<^verbatim>\<open>ChatMembers\<close> was handed out by the sequence, so it is below the next value.
  In such a store a new chat gets an id that no row mentions yet.
\<close>

definition seq_ahead :: "store \<Rightarrow> bool" where
  "seq_ahead s =
     (list_all (\<lambda>ch. fst ch < ChatSeq s) (Chats s) \<and>
      list_all (\<lambda>cm. fst cm < ChatSeq s) (ChatMembers s))"

text \<open>
  A chain as far as a list of its first middlewares: \<open>Next\<close> with the request and the
  world handed on when each of them called \<^verbatim>\<open>next()\<close>, \<open>Done\<close> as soon as one
  responded.
\<close>

fun run_steps :: "middleware list \<Rightarrow> request \<Rightarrow> world \<Rightarrow> flow" where
  "run_steps [] rq w = Next rq w"
| "run_steps (m # ms) rq w =
     (case m rq w of Next rq' w' \<Rightarrow> run_steps ms rq' w' | Done w' \<Rightarrow> Done w')"

section \<open>Auxiliary facts\<close>

lemma sent_append: "sent (xs @ ys) = sent xs @ sent ys"
  by (induction xs rule: sent.induct) simp_all

lemma notified_append: "notified (xs @ ys) = notified xs @ notified ys"
  by (induction xs rule: notified.induct) simp_all

lemma trim_decompose:
  "\<exists>a b. s = a @ trim P s @ b \<and> (\<forall>x\<in>set a. P x) \<and> (\<forall>x\<in>set b. P x)"
proof -
  let ?d = "dropWhile P s"
  have 1: "s = takeWhile P s @ ?d" by simp
  have "rev ?d = takeWhile P (rev ?d) @ dropWhile P (rev ?d)" by simp
  then have 2: "?d = trim P s @ rev (takeWhile P (rev ?d))"
    unfolding trim_def by (metis rev_append rev_rev_ident)
  have "s = takeWhile P s @ trim P s @ rev (takeWhile P (rev ?d))"
    using 1 2 by (metis)
  moreover have "\<forall>x\<in>set (takeWhile P s). P x" by (auto dest: set_takeWhileD)
  moreover have "\<forall>x\<in>set (rev (takeWhile P (rev ?d))). P x" by (auto dest: set_takeWhileD)
  ultimately show ?thesis by blast
qed

lemma trim_unique:
  assumes "\<forall>x\<in>set a. P x" "\<forall>x\<in>set b. P x" "t \<noteq> []" "\<not> P (hd t)" "\<not> P (last t)"
  shows "trim P (a @ t @ b) = t"
proof -
  obtain c r where t: "t = c # r" using assms(3) by (cases t) auto
  have "dropWhile P (a @ t @ b) = t @ b"
  proof -
    have "dropWhile P (a @ t @ b) = dropWhile P (t @ b)"
      by (rule dropWhile_append2) (use assms(1) in auto)
    then show ?thesis using assms(4) t by simp
  qed
  moreover have "dropWhile P (rev (t @ b)) = rev t"
  proof -
    have "rev (t @ b) = rev b @ rev t" by simp
    moreover have "dropWhile P (rev b @ rev t) = dropWhile P (rev t)"
      by (rule dropWhile_append2) (use assms(2) in auto)
    moreover have "dropWhile P (rev t) = rev t"
      using assms(3,5) by (cases "rev t") (auto simp: last_rev hd_rev)
    ultimately show ?thesis by simp
  qed
  ultimately show ?thesis by (simp add: trim_def)
qed

lemma digit_not_space: "is_digit c \<Longrightarrow> \<not> js_space c"
  by (auto simp: is_digit_def js_space_def is_space_def)

lemma space_js_space: "is_space c \<Longrightarrow> js_space c"
  by (simp add: js_space_def)

lemma all_digits_span:
  "all_digits r \<Longrightarrow> takeWhile is_digit r = r \<and> dropWhile is_digit r = [] \<and> r \<noteq> []"
  by (auto simp: all_digits_def list_all_iff takeWhile_eq_all_conv dropWhile_eq_Nil_conv)

lemma all_digits_unsigned: "all_digits r \<Longrightarrow> unsigned_decimal r"
  by (simp add: unsigned_decimal_def Let_def all_digits_span)

lemma all_digits_ends: "all_digits r \<Longrightarrow> is_digit (hd r) \<and> is_digit (last r)"
  by (cases r) (auto simp: all_digits_def list_all_iff)

lemma int_of_text_shape:
  assumes "int_of_text s = Some n"
  shows "\<exists>t. trim is_space s = t \<and> t \<noteq> [] \<and> \<not> js_space (hd t) \<and> \<not> js_space (last t) \<and> str_decimal t"
proof (cases "trim is_space s")
  case Nil
  with assms show ?thesis by (simp add: int_of_text_def)
next
  case (Cons c r)
  show ?thesis
  proof (cases "c = CHR ''-'' \<or> c = CHR ''+''")
    case True
    with assms Cons have r: "all_digits r"
      by (auto simp: int_of_text_def Let_def split: if_splits)
    then have "r \<noteq> []" "is_digit (last r)" using all_digits_ends [of r] all_digits_span [of r] by auto
    then have "\<not> js_space (last (c # r))" by (simp add: digit_not_space)
    moreover have "\<not> js_space c" using True by (auto simp: js_space_def is_space_def)
    moreover have "str_decimal (c # r)"
      using True r by (auto simp: str_decimal_def all_digits_unsigned)
    ultimately show ?thesis using Cons by simp
  next
    case False
    with assms Cons have t: "all_digits (c # r)"
      by (auto simp: int_of_text_def Let_def split: if_splits)
    then have "is_digit c" "is_digit (last (c # r))" using all_digits_ends [of "c # r"] by auto
    moreover have "str_decimal (c # r)"
      using False t by (simp add: str_decimal_def all_digits_unsigned)
    ultimately show ?thesis using Cons by (simp add: digit_not_space)
  qed
qed

lemma int_of_text_numeric:
  assumes "int_of_text s = Some n"
  shows "js_numeric s" and "s \<noteq> []"
proof -
  obtain t where t: "trim is_space s = t" "t \<noteq> []" "\<not> js_space (hd t)" "\<not> js_space (last t)"
      "str_decimal t"
    using int_of_text_shape [OF assms] by blast
  obtain a b where ab: "s = a @ t @ b" "\<forall>x\<in>set a. is_space x" "\<forall>x\<in>set b. is_space x"
    using trim_decompose [of s is_space] t(1) by auto
  have "trim js_space (a @ t @ b) = t"
    by (rule trim_unique) (use ab t in \<open>auto simp: space_js_space\<close>)
  then show "js_numeric s" using ab(1) t by (simp add: js_numeric_def)
  show "s \<noteq> []" using ab(1) t(2) by auto
qed

lemma chatId_passes:
  "int_of_text s = Some n \<Longrightarrow> \<not> falsy (Str s) \<and> \<not> isNaN (Str s)"
  using int_of_text_numeric [of s n] by (simp add: falsy_def isNaN_def)

lemma where_int_Str: "int_of_text s = Some c \<Longrightarrow> where_int (Str s) = Inr (\<lambda>x. x = c)"
  by (simp add: where_int_def sql_int_def)

lemma where_int_Num: "where_int (Num n) = Inr (\<lambda>x. x = n)"
  by (simp add: where_int_def sql_int_def)

lemma pool_query_world:
  "pool_query q run \<lparr>db = s, faults = f, trace = evs\<rparr> =
     (if f (length (queries evs)) then (Inl DriverFault, \<lparr>db = s, faults = f, trace = evs @ [Query q]\<rparr>)
      else (case run s of
              Inl e \<Rightarrow> (Inl e, \<lparr>db = s, faults = f, trace = evs @ [Query q]\<rparr>)
            | Inr (r, s') \<Rightarrow> (Inr r, \<lparr>db = s', faults = f, trace = evs @ [Query q]\<rparr>)))"
  by (simp add: pool_query_def Let_def split: sum.splits)

lemma send_world:
  "send st b \<lparr>db = s, faults = f, trace = evs\<rparr> = \<lparr>db = s, faults = f, trace = evs @ [Send st b]\<rparr>"
  by (simp add: send_def)

lemmas chain_defs =
  check_chatId_def check_chatId_email_def chat_exists_def not_joined_def sql_error_def
  pool_query_world reading_def send_world init_def req_def

lemma filter_chat_nonempty:
  "c \<in> fst ` set xs \<Longrightarrow> filter (\<lambda>ch. fst ch = c) xs \<noteq> []"
  by (auto simp: filter_empty_conv)

lemma delete_chatId_last:
  assumes cid: "int_of_text cid = Some c"
    and chat: "filter (\<lambda>ch. fst ch = c) (Chats s) \<noteq> []"
    and rest: "filter (\<lambda>cm. fst cm = c) (filter (\<lambda>cm. \<not> (fst cm = c \<and> snd cm = m)) (ChatMembers s)) = []"
    and f: "\<And>k. k < 4 \<Longrightarrow> \<not> f k"
  shows "delete_chatId (req (Str cid) e n m) (init s f) =
     \<lparr>db = s\<lparr>ChatMembers := filter (\<lambda>cm. \<not> (fst cm = c \<and> snd cm = m)) (ChatMembers s),
              Chats := filter (\<lambda>ch. \<not> fst ch = c) (Chats s)\<rparr>,
      faults = f,
      trace = [Query (SelectChat (Str cid)), Query (DeleteChatMember (Str cid) (Num m)),
               Query (CountChatMembers (Str cid)), Query (DeleteChat (Str cid)),
               Send 200 Success]\<rparr>"
  using chat rest chatId_passes [OF cid]
  by (simp add: delete_chatId_def chain_defs delete_chatId_3_def
        delete_chatId_4_def delete_chatId_5_def select_chat_def delete_chat_member_def
        count_chat_members_def delete_chat_def where_int_Str [OF cid] where_int_Num f)

lemma get_chatId_missing:
  assumes cid: "int_of_text cid = Some c"
    and chat: "filter (\<lambda>ch. fst ch = c) (Chats s) = []"
    and g: "\<not> g 0"
  shows "get_chatId (req (Str cid) e n m) (init s g) =
     \<lparr>db = s, faults = g,
      trace = [Query (SelectChat (Str cid)), Send 404 (Message ''Chat ID not found'')]\<rparr>"
  using chat g chatId_passes [OF cid]
  by (simp add: get_chatId_def chain_defs select_chat_def where_int_Str [OF cid])

lemma trim_digit: "is_digit c \<Longrightarrow> trim is_space [c] = [c]"
  by (auto simp: trim_def is_space_def is_digit_def)

lemma int_of_text_1: "int_of_text ''1'' = Some 1"
  by (simp add: int_of_text_def trim_digit all_digits_def is_digit_def digits_val_def digit_val_def)

lemma int_of_text_2: "int_of_text ''2'' = Some 2"
  by (simp add: int_of_text_def trim_digit all_digits_def is_digit_def digits_val_def digit_val_def)

section \<open>The last member leaves a chat\<close>

text \<open>
  Claim C1. A chat \<open>c\<close> exists and all its membership rows are the caller's (the
  chat has exactly one member, \<open>m\<close>). When \<open>m\<close> sends \<^verbatim>\<open>DELETE /chats/:chatId\<close> and
  the driver rejects none of the four queries, the response is \<^verbatim>\<open>200 {success: true}\<close>,
  no membership row of \<open>c\<close> and no chat row \<open>c\<close> is left in the store, and a following
  \<^verbatim>\<open>GET /chats/:chatId\<close> by anyone answers \<^verbatim>\<open>404 "Chat ID not found"\<close>.
\<close>

theorem C1_last_member_leaves:
  assumes cid: "int_of_text cid = Some c"
    and chat: "c \<in> fst ` set (Chats s)"
    and only: "set (filter (\<lambda>cm. fst cm = c) (ChatMembers s)) = {(c, m)}"
    and f: "\<forall>k<4. \<not> f k"
    and g: "\<not> g 0"
  shows "let w = delete_chatId (req (Str cid) Undefined Undefined m) (init s f) in
           response w = [(200, Success)] \<and>
           filter (\<lambda>cm. fst cm = c) (ChatMembers (db w)) = [] \<and>
           filter (\<lambda>ch. fst ch = c) (Chats (db w)) = [] \<and>
           response (get_chatId (req (Str cid) e n m') (init (db w) g)) =
             [(404, Message ''Chat ID not found'')]"
proof -
  let ?s' = "s\<lparr>ChatMembers := filter (\<lambda>cm. \<not> (fst cm = c \<and> snd cm = m)) (ChatMembers s),
              Chats := filter (\<lambda>ch. \<not> fst ch = c) (Chats s)\<rparr>"
  have rest: "filter (\<lambda>cm. fst cm = c)
      (filter (\<lambda>cm. \<not> (fst cm = c \<and> snd cm = m)) (ChatMembers s)) = []"
  proof -
    have "x = (c, m)" if "x \<in> set (ChatMembers s)" "fst x = c" for x
    proof -
      have "x \<in> set (filter (\<lambda>cm. fst cm = c) (ChatMembers s))" using that by simp
      then show ?thesis unfolding only by simp
    qed
    then show ?thesis by (fastforce simp: filter_empty_conv)
  qed
  have gone: "filter (\<lambda>ch. fst ch = c) (Chats ?s') = []"
    by (simp add: filter_empty_conv)
  have w: "delete_chatId (req (Str cid) Undefined Undefined m) (init s f) =
     \<lparr>db = ?s', faults = f,
      trace = [Query (SelectChat (Str cid)), Query (DeleteChatMember (Str cid) (Num m)),
               Query (CountChatMembers (Str cid)), Query (DeleteChat (Str cid)),
               Send 200 Success]\<rparr>"
    by (rule delete_chatId_last [OF cid filter_chat_nonempty [OF chat] rest]) (use f in simp)
  have r2: "filter (\<lambda>cm. fst cm = c) (ChatMembers ?s') = []"
    using rest by simp
  have r3: "response (get_chatId (req (Str cid) e n m') (init ?s' g)) =
             [(404, Message ''Chat ID not found'')]"
    using get_chatId_missing [of cid c "?s'" g e n m'] cid gone g by (simp add: response_def)
  show ?thesis
    unfolding Let_def w using r2 gone r3 by (simp add: response_def)
qed

theorem C1_witness:
  "response (delete_chatId (req (Str ''2'') Undefined Undefined 10) (init demo_store no_faults)) =
     [(200, Success)] \<and>
   Chats (db (delete_chatId (req (Str ''2'') Undefined Undefined 10) (init demo_store no_faults))) =
     [(1, ''General'')] \<and>
   ChatMembers (db (delete_chatId (req (Str ''2'') Undefined Undefined 10) (init demo_store no_faults))) =
     [(1, 10), (1, 11)] \<and>
   response (get_chatId (req (Str ''2'') Undefined Undefined 11)
      (init (db (delete_chatId (req (Str ''2'') Undefined Undefined 10) (init demo_store no_faults)))
         no_faults)) = [(404, Message ''Chat ID not found'')]"
proof -
  have h: "2 \<in> fst ` set (Chats demo_store)"
      "set (filter (\<lambda>cm. fst cm = 2) (ChatMembers demo_store)) = {(2, 10)}"
      "\<forall>k<4. \<not> no_faults k" "\<not> no_faults 0"
    by (simp_all add: demo_store_def no_faults_def)
  have w: "delete_chatId (req (Str ''2'') Undefined Undefined 10) (init demo_store no_faults) =
     \<lparr>db = demo_store\<lparr>ChatMembers := [(1, 10), (1, 11)], Chats := [(1, ''General'')]\<rparr>,
      faults = no_faults,
      trace = [Query (SelectChat (Str ''2'')), Query (DeleteChatMember (Str ''2'') (Num 10)),
               Query (CountChatMembers (Str ''2'')), Query (DeleteChat (Str ''2'')),
               Send 200 Success]\<rparr>"
    using delete_chatId_last [OF int_of_text_2, of demo_store 10 no_faults Undefined Undefined]
    by (simp add: demo_store_def no_faults_def)
  show ?thesis
    using C1_last_member_leaves [of "''2''" 2 demo_store 10 no_faults no_faults Undefined Undefined 11]
      int_of_text_2 h
    by (simp add: Let_def w response_def)
qed

section \<open>A member leaves a chat that has other members\<close>

lemma filter_member_nonempty:
  "(c, m') \<in> set xs \<Longrightarrow> m' \<noteq> m \<Longrightarrow>
   filter (\<lambda>cm. fst cm = c) (filter (\<lambda>cm. \<not> (fst cm = c \<and> snd cm = m)) xs) \<noteq> []"
  by (force simp: filter_empty_conv)

lemma filter_not_pair: "filter (\<lambda>cm. \<not> (fst cm = c \<and> snd cm = m)) xs = filter (\<lambda>cm. cm \<noteq> (c, m)) xs"
  by (rule filter_cong) auto

lemma delete_chatId_others:
  assumes cid: "int_of_text cid = Some c"
    and chat: "filter (\<lambda>ch. fst ch = c) (Chats s) \<noteq> []"
    and rest: "filter (\<lambda>cm. fst cm = c) (filter (\<lambda>cm. \<not> (fst cm = c \<and> snd cm = m)) (ChatMembers s)) \<noteq> []"
    and f: "\<And>k. k < 3 \<Longrightarrow> \<not> f k"
  shows "delete_chatId (req (Str cid) e n m) (init s f) =
     \<lparr>db = s\<lparr>ChatMembers := filter (\<lambda>cm. \<not> (fst cm = c \<and> snd cm = m)) (ChatMembers s)\<rparr>,
      faults = f,
      trace = [Query (SelectChat (Str cid)), Query (DeleteChatMember (Str cid) (Num m)),
               Query (CountChatMembers (Str cid)), Send 200 Success]\<rparr>"
  using chat rest chatId_passes [OF cid]
  by (simp add: delete_chatId_def chain_defs delete_chatId_3_def
        delete_chatId_4_def delete_chatId_5_def select_chat_def delete_chat_member_def
        count_chat_members_def delete_chat_def where_int_Str [OF cid] where_int_Num f)

lemma delete_chatId_keeps_chats:
  assumes cid: "int_of_text cid = Some c"
    and rest: "filter (\<lambda>cm. fst cm = c) (filter (\<lambda>cm. \<not> (fst cm = c \<and> snd cm = m)) (ChatMembers s)) \<noteq> []"
  shows "Chats (db (delete_chatId (req (Str cid) e n m) (init s f))) = Chats s"
  using rest chatId_passes [OF cid]
  by (simp add: delete_chatId_def chain_defs delete_chatId_3_def
        delete_chatId_4_def delete_chatId_5_def select_chat_def delete_chat_member_def
        count_chat_members_def delete_chat_def where_int_Str [OF cid] where_int_Num)

text \<open>
  Claim C2. A chat \<open>c\<close> exists and some member \<open>m'\<close> other than the caller \<open>m\<close> is in
  it, so a membership row of \<open>c\<close> is left once the caller's are removed. When \<open>m\<close> sends
  \<^verbatim>\<open>DELETE /chats/:chatId\<close> and the driver rejects none of the three queries, the
  response is \<^verbatim>\<open>200 {success: true}\<close>, the queries are the existence check, the
  removal of the caller's row and the count (no \<^verbatim>\<open>DELETE FROM Chats\<close>), the
  \<^verbatim>\<open>Chats\<close> table is as before, \<^verbatim>\<open>ChatMembers\<close> has lost the rows \<open>(c, m)\<close> and only
  them, and the other tables are untouched. Whatever queries the driver rejects
  (\<open>g\<close>), the \<^verbatim>\<open>Chats\<close> table stays as it was.
\<close>

theorem C2_chat_with_members_stays:
  assumes cid: "int_of_text cid = Some c"
    and chat: "c \<in> fst ` set (Chats s)"
    and other: "(c, m') \<in> set (ChatMembers s)" "m' \<noteq> m"
    and f: "\<forall>k<3. \<not> f k"
  shows "let w = delete_chatId (req (Str cid) Undefined Undefined m) (init s f) in
           response w = [(200, Success)] \<and>
           queries (trace w) = [SelectChat (Str cid), DeleteChatMember (Str cid) (Num m),
                                CountChatMembers (Str cid)] \<and>
           Chats (db w) = Chats s \<and>
           ChatMembers (db w) = filter (\<lambda>cm. cm \<noteq> (c, m)) (ChatMembers s) \<and>
           Members (db w) = Members s \<and> Push_Token (db w) = Push_Token s \<and>
           ChatSeq (db w) = ChatSeq s \<and>
           Chats (db (delete_chatId (req (Str cid) Undefined Undefined m) (init s g))) = Chats s"
proof -
  note rest = filter_member_nonempty [OF other]
  have w: "delete_chatId (req (Str cid) Undefined Undefined m) (init s f) =
     \<lparr>db = s\<lparr>ChatMembers := filter (\<lambda>cm. \<not> (fst cm = c \<and> snd cm = m)) (ChatMembers s)\<rparr>,
      faults = f,
      trace = [Query (SelectChat (Str cid)), Query (DeleteChatMember (Str cid) (Num m)),
               Query (CountChatMembers (Str cid)), Send 200 Success]\<rparr>"
    by (rule delete_chatId_others [OF cid filter_chat_nonempty [OF chat] rest]) (use f in simp)
  show ?thesis
    unfolding Let_def w filter_not_pair
    by (simp add: response_def delete_chatId_keeps_chats [OF cid rest])
qed

theorem C2_witness:
  "response (delete_chatId (req (Str ''1'') Undefined Undefined 10) (init demo_store no_faults)) =
     [(200, Success)] \<and>
   Chats (db (delete_chatId (req (Str ''1'') Undefined Undefined 10) (init demo_store no_faults))) =
     [(1, ''General''), (2, ''Team'')] \<and>
   ChatMembers (db (delete_chatId (req (Str ''1'') Undefined Undefined 10) (init demo_store no_faults))) =
     [(1, 11), (2, 10)]"
proof -
  have h: "1 \<in> fst ` set (Chats demo_store)" "(1, 11) \<in> set (ChatMembers demo_store)"
      "(11::int) \<noteq> 10" "\<forall>k<3. \<not> no_faults k"
    by (simp_all add: demo_store_def no_faults_def)
  show ?thesis
    using C2_chat_with_members_stays [of "''1''" 1 demo_store 11 10 no_faults no_faults]
      int_of_text_1 h
    by (simp add: Let_def demo_store_def)
qed

section \<open>Joining a chat twice\<close>

lemma put_chatId_joined:
  assumes cid: "int_of_text cid = Some c"
    and chat: "filter (\<lambda>ch. fst ch = c) (Chats s) \<noteq> []"
    and member: "filter (\<lambda>r. fst r = m) (Members s) \<noteq> []"
    and joined: "filter (\<lambda>cm. fst cm = c \<and> snd cm = m) (ChatMembers s) \<noteq> []"
    and f: "\<And>k. k < 3 \<Longrightarrow> \<not> f k"
  shows "put_chatId (req (Str cid) e n m) (init s f) =
     \<lparr>db = s, faults = f,
      trace = [Query (SelectChat (Str cid)), Query (SelectMemberById (Num m)),
               Query (SelectChatMember (Str cid) (Num m)),
               Send 400 (Message ''user already joined'')]\<rparr>"
  using chat member joined chatId_passes [OF cid]
  by (simp add: put_chatId_def chain_defs put_chatId_3_def put_chatId_5_def
        select_chat_def select_member_by_id_def select_chat_member_def insert_chat_member_def
        where_int_Str [OF cid] where_int_Num f)

lemma put_chatId_joins:
  assumes cid: "int_of_text cid = Some c"
    and chat: "filter (\<lambda>ch. fst ch = c) (Chats s) \<noteq> []"
    and member: "filter (\<lambda>r. fst r = m) (Members s) \<noteq> []"
    and joined: "filter (\<lambda>cm. fst cm = c \<and> snd cm = m) (ChatMembers s) = []"
    and f: "\<And>k. k < 4 \<Longrightarrow> \<not> f k"
  shows "put_chatId (req (Str cid) e n m) (init s f) =
     \<lparr>db = s\<lparr>ChatMembers := ChatMembers s @ [(c, m)]\<rparr>, faults = f,
      trace = [Query (SelectChat (Str cid)), Query (SelectMemberById (Num m)),
               Query (SelectChatMember (Str cid) (Num m)),
               Query (InsertChatMember (Str cid) (Num m)),
               Send 200 Success]\<rparr>"
  using chat member joined chatId_passes [OF cid] cid
  by (simp add: put_chatId_def chain_defs put_chatId_3_def put_chatId_5_def
        select_chat_def select_member_by_id_def select_chat_member_def insert_chat_member_def
        where_int_Str [OF cid] where_int_Num sql_int_def f)

lemma filter_pair_nonempty:
  "(c, m) \<in> set xs \<Longrightarrow> filter (\<lambda>cm. fst cm = c \<and> snd cm = m) xs \<noteq> []"
  by (force simp: filter_empty_conv)

lemma filter_pair_empty:
  "(c, m) \<notin> set xs \<Longrightarrow> filter (\<lambda>cm. fst cm = c \<and> snd cm = m) xs = []"
  by (auto simp: filter_empty_conv)

text \<open>
  Claim C3. The chat \<open>c\<close> and the member \<open>m\<close> exist and \<open>m\<close> is already in \<open>c\<close>. When
  \<open>m\<close> sends \<^verbatim>\<open>PUT /chats/:chatId\<close> again and the driver rejects none of the three
  checks, the response is \<^verbatim>\<open>400 "user already joined"\<close> and the store is unchanged:
  the number of rows \<open>(c, m)\<close> is what it was, one after a first join.
\<close>

theorem C3_second_join_rejected:
  assumes cid: "int_of_text cid = Some c"
    and chat: "c \<in> fst ` set (Chats s)"
    and member: "m \<in> fst ` set (Members s)"
    and joined: "(c, m) \<in> set (ChatMembers s)"
    and f: "\<forall>k<3. \<not> f k"
  shows "let w = put_chatId (req (Str cid) Undefined Undefined m) (init s f) in
           response w = [(400, Message ''user already joined'')] \<and>
           db w = s \<and>
           count_list (ChatMembers (db w)) (c, m) = count_list (ChatMembers s) (c, m)"
proof -
  have w: "put_chatId (req (Str cid) Undefined Undefined m) (init s f) =
     \<lparr>db = s, faults = f,
      trace = [Query (SelectChat (Str cid)), Query (SelectMemberById (Num m)),
               Query (SelectChatMember (Str cid) (Num m)),
               Send 400 (Message ''user already joined'')]\<rparr>"
    by (rule put_chatId_joined [OF cid filter_chat_nonempty [OF chat]
          filter_chat_nonempty [OF member] filter_pair_nonempty [OF joined]]) (use f in simp)
  show ?thesis unfolding Let_def w by (simp add: response_def)
qed

theorem C3_witness:
  "response (put_chatId (req (Str ''2'') Undefined Undefined 11) (init demo_store no_faults)) =
     [(200, Success)] \<and>
   response (put_chatId (req (Str ''2'') Undefined Undefined 11)
      (init (db (put_chatId (req (Str ''2'') Undefined Undefined 11) (init demo_store no_faults)))
         no_faults)) = [(400, Message ''user already joined'')] \<and>
   count_list (ChatMembers (db (put_chatId (req (Str ''2'') Undefined Undefined 11)
      (init (db (put_chatId (req (Str ''2'') Undefined Undefined 11) (init demo_store no_faults)))
         no_faults)))) (2, 11) = 1"
proof -
  let ?s1 = "demo_store\<lparr>ChatMembers := ChatMembers demo_store @ [(2, 11)]\<rparr>"
  have w1: "put_chatId (req (Str ''2'') Undefined Undefined 11) (init demo_store no_faults) =
     \<lparr>db = ?s1, faults = no_faults,
      trace = [Query (SelectChat (Str ''2'')), Query (SelectMemberById (Num 11)),
               Query (SelectChatMember (Str ''2'') (Num 11)),
               Query (InsertChatMember (Str ''2'') (Num 11)),
               Send 200 Success]\<rparr>"
    by (rule put_chatId_joins [OF int_of_text_2]) (simp_all add: demo_store_def no_faults_def)
  have h: "2 \<in> fst ` set (Chats ?s1)" "11 \<in> fst ` set (Members ?s1)"
      "(2, 11) \<in> set (ChatMembers ?s1)" "\<forall>k<3. \<not> no_faults k"
    by (simp_all add: demo_store_def no_faults_def)
  have "response (put_chatId (req (Str ''2'') Undefined Undefined 11) (init ?s1 no_faults)) =
      [(400, Message ''user already joined'')] \<and>
    count_list (ChatMembers (db (put_chatId (req (Str ''2'') Undefined Undefined 11)
      (init ?s1 no_faults)))) (2, 11) = 1"
    using C3_second_join_rejected [of "''2''" 2 ?s1 11 no_faults] int_of_text_2 h
    by (simp add: Let_def demo_store_def)
  then show ?thesis unfolding w1 by (simp add: response_def)
qed

section \<open>Removing a member who is not in the chat\<close>

lemma delete_chatId_email_absent:
  assumes cid: "int_of_text cid = Some c"
    and chat: "filter (\<lambda>ch. fst ch = c) (Chats s) \<noteq> []"
    and member: "filter (\<lambda>r. fst (snd r) = em) (Members s) = (m, em', u) # rs"
    and em: "em \<noteq> []"
    and absent: "filter (\<lambda>cm. fst cm = c \<and> snd cm = m) (ChatMembers s) = []"
    and f: "\<And>k. k < 3 \<Longrightarrow> \<not> f k"
  shows "delete_chatId_email (req (Str cid) (Str em) n caller) (init s f) =
     \<lparr>db = s, faults = f,
      trace = [Query (SelectChat (Str cid)), Query (SelectMemberByEmail (Str em)),
               Query (SelectChatMember (Str cid) (Num m)),
               Send 400 (Message ''user not in chat'')]\<rparr>"
  using chat member em absent chatId_passes [OF cid]
  by (simp add: delete_chatId_email_def chain_defs delete_chatId_email_3_def
        delete_chatId_email_4_def delete_chatId_email_5_def falsy_def
        select_chat_def select_member_by_email_def select_chat_member_def sql_text_def
        where_int_Str [OF cid] where_int_Num f)

text \<open>
  Claim C6. The chat \<open>c\<close> exists, the email \<open>em\<close> is not empty and resolves to the member
  \<open>m\<close> (the first row of \<^verbatim>\<open>Members\<close> with that email), and \<open>m\<close> has no membership row
  in \<open>c\<close>. When the driver rejects none of the three checks,
  \<^verbatim>\<open>DELETE /chats/:chatId/:email\<close> answers \<^verbatim>\<open>400 "user not in chat"\<close> and the store is
  unchanged.
\<close>

theorem C6_remove_non_member:
  assumes cid: "int_of_text cid = Some c"
    and chat: "c \<in> fst ` set (Chats s)"
    and member: "filter (\<lambda>r. fst (snd r) = em) (Members s) = (m, em, u) # rs"
    and em: "em \<noteq> []"
    and absent: "(c, m) \<notin> set (ChatMembers s)"
    and f: "\<forall>k<3. \<not> f k"
  shows "let w = delete_chatId_email (req (Str cid) (Str em) Undefined caller) (init s f) in
           response w = [(400, Message ''user not in chat'')] \<and> db w = s"
proof -
  have w: "delete_chatId_email (req (Str cid) (Str em) Undefined caller) (init s f) =
     \<lparr>db = s, faults = f,
      trace = [Query (SelectChat (Str cid)), Query (SelectMemberByEmail (Str em)),
               Query (SelectChatMember (Str cid) (Num m)),
               Send 400 (Message ''user not in chat'')]\<rparr>"
    by (rule delete_chatId_email_absent [OF cid filter_chat_nonempty [OF chat] member em
          filter_pair_empty [OF absent]]) (use f in simp)
  show ?thesis unfolding Let_def w by (simp add: response_def)
qed

theorem C6_witness:
  "response (delete_chatId_email (req (Str ''2'') (Str ''b@x.org'') Undefined 10)
      (init demo_store no_faults)) = [(400, Message ''user not in chat'')] \<and>
   db (delete_chatId_email (req (Str ''2'') (Str ''b@x.org'') Undefined 10)
      (init demo_store no_faults)) = demo_store"
proof -
  have h: "2 \<in> fst ` set (Chats demo_store)"
      "filter (\<lambda>r. fst (snd r) = ''b@x.org'') (Members demo_store) = (11, ''b@x.org'', ''bob'') # []"
      "''b@x.org'' \<noteq> []"
      "(2, 11) \<notin> set (ChatMembers demo_store)" "\<forall>k<3. \<not> no_faults k"
    by (simp_all add: demo_store_def no_faults_def)
  show ?thesis
    using C6_remove_non_member [of "''2''" 2 demo_store "''b@x.org''" 11 "''bob''" "[]" no_faults 10]
      int_of_text_2 h
    by (simp add: Let_def)
qed

section \<open>Leaving a chat one is not in\<close>

lemma filter_not_pair_absent:
  "(c, m) \<notin> set xs \<Longrightarrow> filter (\<lambda>cm. \<not> (fst cm = c \<and> snd cm = m)) xs = xs"
  by (induction xs) auto

text \<open>
  Claim C7. The chat \<open>c\<close> exists and the caller \<open>m\<close> has no membership row in it. The
  third middleware of \<^verbatim>\<open>DELETE /chats/:chatId\<close>, run after the existence check,
  deletes no row (the store is unchanged), sends no response and calls \<^verbatim>\<open>next()\<close>;
  in the whole chain the third query is the count of the remaining members, and
  \<^verbatim>\<open>ChatMembers\<close> is as before at the end.
\<close>

theorem C7_leave_without_membership:
  assumes cid: "int_of_text cid = Some c"
    and chat: "c \<in> fst ` set (Chats s)"
    and absent: "(c, m) \<notin> set (ChatMembers s)"
    and f: "\<forall>k<2. \<not> f k"
  shows "delete_chatId_3 (req (Str cid) Undefined Undefined m)
            \<lparr>db = s, faults = f, trace = [Query (SelectChat (Str cid))]\<rparr> =
           Next (req (Str cid) Undefined Undefined m)
            \<lparr>db = s, faults = f,
             trace = [Query (SelectChat (Str cid)), Query (DeleteChatMember (Str cid) (Num m))]\<rparr> \<and>
         take 3 (queries (trace (delete_chatId (req (Str cid) Undefined Undefined m) (init s f)))) =
           [SelectChat (Str cid), DeleteChatMember (Str cid) (Num m), CountChatMembers (Str cid)] \<and>
         ChatMembers (db (delete_chatId (req (Str cid) Undefined Undefined m) (init s f))) =
           ChatMembers s"
proof -
  have f': "\<not> f 0" "\<not> f (Suc 0)" using f by auto
  note ne = filter_chat_nonempty [OF chat]
  note same = filter_not_pair_absent [OF absent]
  have a: "delete_chatId_3 (req (Str cid) Undefined Undefined m)
            \<lparr>db = s, faults = f, trace = [Query (SelectChat (Str cid))]\<rparr> =
           Next (req (Str cid) Undefined Undefined m)
            \<lparr>db = s, faults = f,
             trace = [Query (SelectChat (Str cid)), Query (DeleteChatMember (Str cid) (Num m))]\<rparr>"
    using f' same
    by (simp add: delete_chatId_3_def chain_defs delete_chat_member_def
        where_int_Str [OF cid] where_int_Num)
  have b: "take 3 (queries (trace (delete_chatId (req (Str cid) Undefined Undefined m) (init s f)))) =
           [SelectChat (Str cid), DeleteChatMember (Str cid) (Num m), CountChatMembers (Str cid)] \<and>
         ChatMembers (db (delete_chatId (req (Str cid) Undefined Undefined m) (init s f))) =
           ChatMembers s"
    using f' ne same chatId_passes [OF cid]
    by (simp add: delete_chatId_def chain_defs delete_chatId_3_def
        delete_chatId_4_def delete_chatId_5_def select_chat_def delete_chat_member_def
        count_chat_members_def delete_chat_def where_int_Str [OF cid] where_int_Num)
  show ?thesis using a b by simp
qed

theorem C7_witness:
  "take 3 (queries (trace (delete_chatId (req (Str ''2'') Undefined Undefined 11)
      (init demo_store no_faults)))) =
     [SelectChat (Str ''2''), DeleteChatMember (Str ''2'') (Num 11), CountChatMembers (Str ''2'')] \<and>
   ChatMembers (db (delete_chatId (req (Str ''2'') Undefined Undefined 11)
      (init demo_store no_faults))) = [(1, 10), (1, 11), (2, 10)]"
proof -
  have h: "2 \<in> fst ` set (Chats demo_store)"
      "(2, 11) \<notin> set (ChatMembers demo_store)" "\<forall>k<2. \<not> no_faults k"
    by (simp_all add: demo_store_def no_faults_def)
  show ?thesis
    using C7_leave_without_membership [of "''2''" 2 demo_store 11 no_faults] int_of_text_2 h
    by (simp add: demo_store_def)
qed

section \<open>Adding a member by email and the notifications\<close>

lemma notify_all_world:
  "foldl (\<lambda>w token. sendChatAction token a c n w) \<lparr>db = s, faults = f, trace = evs\<rparr> ts =
     \<lparr>db = s, faults = f, trace = evs @ map (\<lambda>t. Notify t a c n) ts\<rparr>"
  by (induction ts arbitrary: evs) (simp_all add: sendChatAction_def)

lemma notified_Notify:
  "notified (map (\<lambda>t. Notify (g t) a c n) ts) = map (\<lambda>t. (g t, a, c, n)) ts"
  by (induction ts) simp_all

lemma sent_Notify: "sent (map (\<lambda>t. Notify (g t) a c n) ts) = []"
  by (induction ts) simp_all

lemma put_chatId_email_run:
  assumes cid: "int_of_text cid = Some c"
    and chat: "filter (\<lambda>ch. fst ch = c) (Chats s) = (c', nm) # chs"
    and member: "filter (\<lambda>r. fst (snd r) = em) (Members s) = (m, em', u) # rs"
    and em: "em \<noteq> []"
    and absent: "filter (\<lambda>cm. fst cm = c \<and> snd cm = m) (ChatMembers s) = []"
    and f: "\<And>k. k < 4 \<Longrightarrow> \<not> f k"
  shows "put_chatId_email (req (Str cid) (Str em) n caller) (init s f) =
     \<lparr>db = s\<lparr>ChatMembers := ChatMembers s @ [(c, m)]\<rparr>, faults = f,
      trace = [Query (SelectChat (Str cid)), Query (SelectMemberByEmail (Str em)),
               Query (SelectChatMember (Str cid) (Num m)),
               Query (InsertChatMember (Str cid) (Num m)),
               Query (SelectPushTokens (Num m))] @
              (if f 4
               then [Send 400 (SqlError ''SQL Error on select from push token'' DriverFault)]
               else map (\<lambda>t. Notify t ''newRoom'' (Str cid) (Str nm))
                      (map snd (filter (\<lambda>t. fst t = m) (Push_Token s))) @
                    [Send 200 Success])\<rparr>"
proof -
  have four: "Suc (Suc (Suc (Suc 0))) = 4" by simp
  show ?thesis
  using chat member em absent chatId_passes [OF cid] cid
  by (simp add: put_chatId_email_def chain_defs put_chatId_email_2_def put_chatId_email_3_def
        put_chatId_email_5_def put_chatId_email_6_def falsy_def notify_all_world
        select_chat_def select_member_by_email_def select_chat_member_def sql_text_def
        insert_chat_member_def select_push_tokens_def sql_int_def
        where_int_Str [OF cid] where_int_Num f four)
qed

text \<open>
  Claim C5. The chat \<open>c\<close> exists with name \<open>nm\<close>, the email \<open>em\<close> is not empty and
  resolves to the member \<open>m\<close>, \<open>m\<close> is not in \<open>c\<close>, and the driver rejects none of the
  first four queries of \<^verbatim>\<open>PUT /chats/:chatId/:email\<close>. Then the membership row
  \<open>(c, m)\<close> is inserted, and it is there at the end whatever the token lookup does. When
  the lookup succeeds, \<^verbatim>\<open>sendChatAction(token, "newRoom", chatId, name)\<close> is called once
  for each \<^verbatim>\<open>Push_Token\<close> row of \<open>m\<close>, in order (none when \<open>m\<close> has no row), and the
  response is \<^verbatim>\<open>200 {success: true}\<close>. When the lookup is rejected, nothing is
  dispatched and the response is \<^verbatim>\<open>400 "SQL Error on select from push token"\<close> with
  the driver's error.
\<close>

theorem C5_add_by_email_notifies:
  assumes cid: "int_of_text cid = Some c"
    and chat: "filter (\<lambda>ch. fst ch = c) (Chats s) = (c, nm) # chs"
    and member: "filter (\<lambda>r. fst (snd r) = em) (Members s) = (m, em, u) # rs"
    and em: "em \<noteq> []"
    and absent: "(c, m) \<notin> set (ChatMembers s)"
    and f: "\<forall>k<4. \<not> f k"
  shows "let w = put_chatId_email (req (Str cid) (Str em) Undefined caller) (init s f) in
           ChatMembers (db w) = ChatMembers s @ [(c, m)] \<and>
           (if f 4
            then response w = [(400, SqlError ''SQL Error on select from push token'' DriverFault)] \<and>
                 notified (trace w) = []
            else response w = [(200, Success)] \<and>
                 notified (trace w) =
                   map (\<lambda>t. (snd t, ''newRoom'', Str cid, Str nm))
                     (filter (\<lambda>t. fst t = m) (Push_Token s)))"
proof -
  have w: "put_chatId_email (req (Str cid) (Str em) Undefined caller) (init s f) =
     \<lparr>db = s\<lparr>ChatMembers := ChatMembers s @ [(c, m)]\<rparr>, faults = f,
      trace = [Query (SelectChat (Str cid)), Query (SelectMemberByEmail (Str em)),
               Query (SelectChatMember (Str cid) (Num m)),
               Query (InsertChatMember (Str cid) (Num m)),
               Query (SelectPushTokens (Num m))] @
              (if f 4
               then [Send 400 (SqlError ''SQL Error on select from push token'' DriverFault)]
               else map (\<lambda>t. Notify t ''newRoom'' (Str cid) (Str nm))
                      (map snd (filter (\<lambda>t. fst t = m) (Push_Token s))) @
                    [Send 200 Success])\<rparr>"
    by (rule put_chatId_email_run [OF cid chat member em filter_pair_empty [OF absent]])
      (use f in simp)
  show ?thesis
    unfolding Let_def w
    by (simp add: response_def sent_append notified_append sent_Notify notified_Notify comp_def)
qed

theorem C5_witness:
  "ChatMembers (db (put_chatId_email (req (Str ''2'') (Str ''b@x.org'') Undefined 10)
      (init demo_store no_faults))) = [(1, 10), (1, 11), (2, 10), (2, 11)] \<and>
   response (put_chatId_email (req (Str ''2'') (Str ''b@x.org'') Undefined 10)
      (init demo_store no_faults)) = [(200, Success)] \<and>
   notified (trace (put_chatId_email (req (Str ''2'') (Str ''b@x.org'') Undefined 10)
      (init demo_store no_faults))) =
     [(''tok1'', ''newRoom'', Str ''2'', Str ''Team''), (''tok2'', ''newRoom'', Str ''2'', Str ''Team'')] \<and>
   ChatMembers (db (put_chatId_email (req (Str ''2'') (Str ''b@x.org'') Undefined 10)
      (init demo_store (fault_at 4)))) = [(1, 10), (1, 11), (2, 10), (2, 11)] \<and>
   response (put_chatId_email (req (Str ''2'') (Str ''b@x.org'') Undefined 10)
      (init demo_store (fault_at 4))) =
     [(400, SqlError ''SQL Error on select from push token'' DriverFault)]"
proof -
  have h: "filter (\<lambda>ch. fst ch = 2) (Chats demo_store) = (2, ''Team'') # []"
      "filter (\<lambda>r. fst (snd r) = ''b@x.org'') (Members demo_store) = (11, ''b@x.org'', ''bob'') # []"
      "''b@x.org'' \<noteq> []"
      "(2, 11) \<notin> set (ChatMembers demo_store)" "\<forall>k<4. \<not> no_faults k" "\<not> no_faults 4"
      "\<forall>k<4. \<not> fault_at 4 k" "fault_at 4 4"
    by (simp_all add: demo_store_def no_faults_def fault_at_def)
  show ?thesis
    using C5_add_by_email_notifies [of "''2''" 2 demo_store "''Team''" "[]" "''b@x.org''" 11
        "''bob''" "[]" no_faults 10]
      C5_add_by_email_notifies [of "''2''" 2 demo_store "''Team''" "[]" "''b@x.org''" 11
        "''bob''" "[]" "fault_at 4" 10] int_of_text_2 h
    by (simp add: Let_def demo_store_def)
qed

section \<open>The check of chatId\<close>

lemma isNaN_not_falsy: "isNaN (Str cid) \<Longrightarrow> \<not> falsy (Str cid)"
  by (auto simp: isNaN_def falsy_def js_numeric_def trim_def)

lemma malformed_chatId:
  assumes "isNaN (Str cid)"
  shows "check_chatId (req (Str cid) e n m) \<lparr>db = s, faults = f, trace = []\<rparr> =
     Done \<lparr>db = s, faults = f,
           trace = [Send 400 (Message ''Malformed parameter. chatId must be a number'')]\<rparr>"
  using assms isNaN_not_falsy [OF assms] by (simp add: check_chatId_def req_def send_world)

lemma malformed_chatId_email:
  assumes "isNaN (Str cid)" "\<not> falsy em"
  shows "check_chatId_email (req (Str cid) em n m) \<lparr>db = s, faults = f, trace = []\<rparr> =
     Done \<lparr>db = s, faults = f,
           trace = [Send 400 (Message ''Malformed parameter. chatId must be a number'')]\<rparr>"
  using assms isNaN_not_falsy [OF assms(1)] by (simp add: check_chatId_email_def req_def send_world)

text \<open>
  Claim C4, as amended. For a \<^verbatim>\<open>chatId\<close> on which \<^verbatim>\<open>isNaN\<close> holds (and, on the two
  routes with an email, an email that is not empty), each of the five chat-scoped
  routes sends \<^verbatim>\<open>400 "Malformed parameter. chatId must be a number"\<close> as its only
  event: no query is handed to the pool and the store is unchanged.

  The check is \<^verbatim>\<open>isNaN\<close>, not ``a positive integer'': the counterexample below runs
  the five routes on \<^verbatim>\<open>"-5"\<close>, which \<^verbatim>\<open>isNaN\<close> lets through; each route queries the
  store and answers \<^verbatim>\<open>404 "Chat ID not found"\<close>.
\<close>

theorem C4_non_numeric_chatId:
  assumes nan: "isNaN (Str cid)" and em: "\<not> falsy em"
  shows "get_chatId (req (Str cid) e n m) (init s f) =
           \<lparr>db = s, faults = f,
            trace = [Send 400 (Message ''Malformed parameter. chatId must be a number'')]\<rparr> \<and>
         put_chatId (req (Str cid) e n m) (init s f) =
           \<lparr>db = s, faults = f,
            trace = [Send 400 (Message ''Malformed parameter. chatId must be a number'')]\<rparr> \<and>
         put_chatId_email (req (Str cid) em n m) (init s f) =
           \<lparr>db = s, faults = f,
            trace = [Send 400 (Message ''Malformed parameter. chatId must be a number'')]\<rparr> \<and>
         delete_chatId (req (Str cid) e n m) (init s f) =
           \<lparr>db = s, faults = f,
            trace = [Send 400 (Message ''Malformed parameter. chatId must be a number'')]\<rparr> \<and>
         delete_chatId_email (req (Str cid) em n m) (init s f) =
           \<lparr>db = s, faults = f,
            trace = [Send 400 (Message ''Malformed parameter. chatId must be a number'')]\<rparr>"
  by (simp add: get_chatId_def put_chatId_def put_chatId_email_def delete_chatId_def
      delete_chatId_email_def init_def malformed_chatId [OF nan]
      malformed_chatId_email [OF nan em])

lemma isNaN_abc: "isNaN (Str ''abc'')"
  by (simp add: isNaN_def js_numeric_def trim_def js_space_def is_space_def str_decimal_def
      unsigned_decimal_def non_decimal_def is_digit_def)

theorem C4_witness:
  "get_chatId (req (Str ''abc'') Undefined Undefined 10) (init demo_store no_faults) =
     \<lparr>db = demo_store, faults = no_faults,
      trace = [Send 400 (Message ''Malformed parameter. chatId must be a number'')]\<rparr> \<and>
   delete_chatId_email (req (Str ''abc'') (Str ''b@x.org'') Undefined 10) (init demo_store no_faults) =
     \<lparr>db = demo_store, faults = no_faults,
      trace = [Send 400 (Message ''Malformed parameter. chatId must be a number'')]\<rparr>"
proof -
  have h: "\<not> falsy (Str ''b@x.org'')" by (simp add: falsy_def)
  show ?thesis
    using C4_non_numeric_chatId [OF isNaN_abc h, of Undefined Undefined 10 demo_store no_faults]
    by simp
qed

lemma int_of_text_minus_5: "int_of_text ''-5'' = Some (- 5)"
proof -
  have "trim is_space ''-5'' = ''-5''" by (simp add: trim_def is_space_def)
  then show ?thesis
    by (simp add: int_of_text_def all_digits_def is_digit_def digits_val_def digit_val_def)
qed

lemma put_chatId_missing:
  assumes cid: "int_of_text cid = Some c"
    and chat: "filter (\<lambda>ch. fst ch = c) (Chats s) = []"
    and g: "\<not> g 0"
  shows "put_chatId (req (Str cid) e n m) (init s g) =
     \<lparr>db = s, faults = g,
      trace = [Query (SelectChat (Str cid)), Send 404 (Message ''Chat ID not found'')]\<rparr>"
  using chat g chatId_passes [OF cid]
  by (simp add: put_chatId_def chain_defs select_chat_def where_int_Str [OF cid])

lemma delete_chatId_missing:
  assumes cid: "int_of_text cid = Some c"
    and chat: "filter (\<lambda>ch. fst ch = c) (Chats s) = []"
    and g: "\<not> g 0"
  shows "delete_chatId (req (Str cid) e n m) (init s g) =
     \<lparr>db = s, faults = g,
      trace = [Query (SelectChat (Str cid)), Send 404 (Message ''Chat ID not found'')]\<rparr>"
  using chat g chatId_passes [OF cid]
  by (simp add: delete_chatId_def chain_defs select_chat_def where_int_Str [OF cid])

lemma put_chatId_email_missing:
  assumes cid: "int_of_text cid = Some c"
    and chat: "filter (\<lambda>ch. fst ch = c) (Chats s) = []"
    and em: "\<not> falsy em"
    and g: "\<not> g 0"
  shows "put_chatId_email (req (Str cid) em n m) (init s g) =
     \<lparr>db = s, faults = g,
      trace = [Query (SelectChat (Str cid)), Send 404 (Message ''Chat ID not found'')]\<rparr>"
  using chat g em chatId_passes [OF cid]
  by (simp add: put_chatId_email_def put_chatId_email_2_def chain_defs select_chat_def
      where_int_Str [OF cid])

lemma delete_chatId_email_missing:
  assumes cid: "int_of_text cid = Some c"
    and chat: "filter (\<lambda>ch. fst ch = c) (Chats s) = []"
    and em: "\<not> falsy em"
    and g: "\<not> g 0"
  shows "delete_chatId_email (req (Str cid) em n m) (init s g) =
     \<lparr>db = s, faults = g,
      trace = [Query (SelectChat (Str cid)), Send 404 (Message ''Chat ID not found'')]\<rparr>"
  using chat g em chatId_passes [OF cid]
  by (simp add: delete_chatId_email_def chain_defs select_chat_def where_int_Str [OF cid])

theorem C4_counterexample:
  "int_of_text ''-5'' = Some (- 5) \<and>
   trace (get_chatId (req (Str ''-5'') Undefined Undefined 10) (init demo_store no_faults)) =
     [Query (SelectChat (Str ''-5'')), Send 404 (Message ''Chat ID not found'')] \<and>
   trace (put_chatId (req (Str ''-5'') Undefined Undefined 10) (init demo_store no_faults)) =
     [Query (SelectChat (Str ''-5'')), Send 404 (Message ''Chat ID not found'')] \<and>
   trace (put_chatId_email (req (Str ''-5'') (Str ''b@x.org'') Undefined 10)
      (init demo_store no_faults)) =
     [Query (SelectChat (Str ''-5'')), Send 404 (Message ''Chat ID not found'')] \<and>
   trace (delete_chatId (req (Str ''-5'') Undefined Undefined 10) (init demo_store no_faults)) =
     [Query (SelectChat (Str ''-5'')), Send 404 (Message ''Chat ID not found'')] \<and>
   trace (delete_chatId_email (req (Str ''-5'') (Str ''b@x.org'') Undefined 10)
      (init demo_store no_faults)) =
     [Query (SelectChat (Str ''-5'')), Send 404 (Message ''Chat ID not found'')]"
proof -
  have h: "filter (\<lambda>ch. fst ch = - 5) (Chats demo_store) = []" "\<not> no_faults 0"
      "\<not> falsy (Str ''b@x.org'')"
    by (simp_all add: demo_store_def no_faults_def falsy_def)
  note c = int_of_text_minus_5
  show ?thesis
    by (simp add: c h get_chatId_missing [OF c h(1)] put_chatId_missing [OF c h(1)]
        delete_chatId_missing [OF c h(1)] put_chatId_email_missing [OF c h(1) h(3)]
        delete_chatId_email_missing [OF c h(1) h(3)])
qed

section \<open>A response ends the request\<close>

lemma pool_query_sent: "pool_query q run w = (r, w') \<Longrightarrow> sent (trace w') = sent (trace w)"
  by (auto simp: pool_query_def Let_def sent_append split: sum.splits prod.splits if_splits)

lemma notify_all_sent:
  "sent (trace (foldl (\<lambda>w token. sendChatAction token a c n w) w ts)) = sent (trace w)"
  by (induction ts arbitrary: w) (simp_all add: sendChatAction_def sent_append)

lemmas step_defs = passes_def final_def sql_error_def send_def is_send_def sent_append

lemma passes_check_chatId: "passes w (check_chatId rq w)"
  by (simp add: check_chatId_def step_defs)

lemma passes_check_chatId_email: "passes w (check_chatId_email rq w)"
  by (simp add: check_chatId_email_def step_defs)

lemma passes_post_chats_1: "passes w (post_chats_1 rq w)"
  by (simp add: post_chats_1_def step_defs)

lemma passes_chat_exists: "passes w (chat_exists rq w)"
  by (auto simp: chat_exists_def step_defs dest!: pool_query_sent split: prod.splits sum.splits)

lemma passes_not_joined: "passes w (not_joined mid rq w)"
  by (auto simp: not_joined_def step_defs dest!: pool_query_sent split: prod.splits sum.splits)

lemma final_post_chats_2: "final w (post_chats_2 rq w)"
  by (auto simp: post_chats_2_def step_defs dest!: pool_query_sent split: prod.splits sum.splits)

lemma final_get_chats_1: "final w (get_chats_1 rq w)"
  by (auto simp: get_chats_1_def step_defs dest!: pool_query_sent split: prod.splits sum.splits)

lemma passes_delete_chatId_3: "passes w (delete_chatId_3 rq w)"
  by (auto simp: delete_chatId_3_def step_defs dest!: pool_query_sent split: prod.splits sum.splits)

lemma passes_delete_chatId_4: "passes w (delete_chatId_4 rq w)"
  by (auto simp: delete_chatId_4_def step_defs dest!: pool_query_sent split: prod.splits sum.splits)

lemma final_delete_chatId_5: "final w (delete_chatId_5 rq w)"
  by (auto simp: delete_chatId_5_def step_defs dest!: pool_query_sent split: prod.splits sum.splits)

lemma passes_put_chatId_3: "passes w (put_chatId_3 rq w)"
  by (auto simp: put_chatId_3_def step_defs dest!: pool_query_sent split: prod.splits sum.splits)

lemma final_put_chatId_5: "final w (put_chatId_5 rq w)"
  by (auto simp: put_chatId_5_def step_defs dest!: pool_query_sent split: prod.splits sum.splits)

lemma passes_put_chatId_email_2: "passes w (put_chatId_email_2 rq w)"
  by (auto simp: put_chatId_email_2_def step_defs dest!: pool_query_sent
      split: prod.splits sum.splits list.splits)

lemma passes_put_chatId_email_3: "passes w (put_chatId_email_3 rq w)"
  by (auto simp: put_chatId_email_3_def step_defs dest!: pool_query_sent
      split: prod.splits sum.splits list.splits)

lemma passes_put_chatId_email_5: "passes w (put_chatId_email_5 rq w)"
  by (auto simp: put_chatId_email_5_def step_defs dest!: pool_query_sent split: prod.splits sum.splits)

lemma final_put_chatId_email_6: "final w (put_chatId_email_6 rq w)"
  by (auto simp: put_chatId_email_6_def step_defs notify_all_sent dest!: pool_query_sent
      split: prod.splits sum.splits)

lemma final_get_chatId_3: "final w (get_chatId_3 rq w)"
  by (auto simp: get_chatId_3_def step_defs dest!: pool_query_sent split: prod.splits sum.splits)

lemma passes_delete_chatId_email_3: "passes w (delete_chatId_email_3 rq w)"
  by (auto simp: delete_chatId_email_3_def step_defs dest!: pool_query_sent
      split: prod.splits sum.splits list.splits)

lemma passes_delete_chatId_email_4: "passes w (delete_chatId_email_4 rq w)"
  by (auto simp: delete_chatId_email_4_def step_defs dest!: pool_query_sent split: prod.splits sum.splits)

lemma final_delete_chatId_email_5: "final w (delete_chatId_email_5 rq w)"
  by (auto simp: delete_chatId_email_5_def step_defs dest!: pool_query_sent split: prod.splits sum.splits)

text \<open>
  A chain responds exactly once, as its last event, when each middleware but the last
  either passes the request on without responding or responds and stops, and the last
  one always responds.
\<close>

lemma run_chain_responds:
  assumes "\<And>m rq w. m \<in> set ms \<Longrightarrow> passes w (m rq w)"
    and "\<And>rq w. final w (l rq w)"
    and "sent (trace w) = []"
  shows "responds_last (trace (run_chain (ms @ [l]) rq w))"
  using assms
proof (induction ms arbitrary: rq w)
  case Nil
  from Nil(2) [of w rq] Nil(3) show ?case
    by (cases "l rq w") (simp_all add: final_def responds_last_def)
next
  case (Cons m ms)
  have p: "passes w (m rq w)" using Cons.prems(1) by simp
  show ?case
  proof (cases "m rq w")
    case (Next rq' w')
    with p Cons.prems(3) have "sent (trace w') = []" by (simp add: passes_def)
    then have "responds_last (trace (run_chain (ms @ [l]) rq' w'))"
      using Cons.IH [of w' rq'] Cons.prems(1,2) by simp
    with Next show ?thesis by simp
  next
    case (Done w')
    with p Cons.prems(3) show ?thesis by (simp add: passes_def responds_last_def)
  qed
qed

lemma sent_Nil_no_send: "sent evs = [] \<Longrightarrow> \<forall>ev\<in>set evs. \<not> is_send ev"
  by (induction evs rule: sent.induct) (simp_all add: is_send_def)

lemma responds_last_after:
  assumes "responds_last evs"
  shows "after_response evs = []"
proof -
  from assms obtain pre x where evs: "evs = pre @ [x]" and x: "is_send x"
    and one: "length (sent evs) = 1"
    by (cases evs rule: rev_cases) (auto simp: responds_last_def)
  from x obtain st b where "x = Send st b" by (cases x) (simp_all add: is_send_def)
  with evs one have "sent pre = []" by (simp add: sent_append)
  then have "dropWhile (\<lambda>ev. \<not> is_send ev) (pre @ [x]) = [x]"
    using x sent_Nil_no_send [of pre] by (simp add: dropWhile_append2)
  then show ?thesis by (simp add: after_response_def evs)
qed

lemma responds_post_chats: "responds_last (trace (post_chats rq (init s f)))"
proof -
  have "responds_last (trace (run_chain ([post_chats_1] @ [post_chats_2]) rq (init s f)))"
  proof (rule run_chain_responds)
    fix m rq w
    assume "m \<in> set [post_chats_1]"
    then show "passes w (m rq w)"
      by (auto simp: passes_post_chats_1)
  next
    fix rq w
    show "final w (post_chats_2 rq w)" by (rule final_post_chats_2)
  next
    show "sent (trace (init s f)) = []" by (simp add: init_def)
  qed
  then show ?thesis unfolding post_chats_def by simp
qed

lemma responds_get_chats: "responds_last (trace (get_chats rq (init s f)))"
proof -
  have "responds_last (trace (run_chain ([] @ [get_chats_1]) rq (init s f)))"
  proof (rule run_chain_responds)
    fix m :: middleware and rq w
    assume "m \<in> set []"
    then show "passes w (m rq w)" by simp
  next
    fix rq w
    show "final w (get_chats_1 rq w)" by (rule final_get_chats_1)
  next
    show "sent (trace (init s f)) = []" by (simp add: init_def)
  qed
  then show ?thesis unfolding get_chats_def by simp
qed

lemma responds_delete_chatId: "responds_last (trace (delete_chatId rq (init s f)))"
proof -
  have "responds_last (trace (run_chain ([check_chatId, chat_exists, delete_chatId_3, delete_chatId_4] @ [delete_chatId_5]) rq (init s f)))"
  proof (rule run_chain_responds)
    fix m rq w
    assume "m \<in> set [check_chatId, chat_exists, delete_chatId_3, delete_chatId_4]"
    then show "passes w (m rq w)"
      by (auto simp: passes_check_chatId passes_chat_exists passes_delete_chatId_3 passes_delete_chatId_4)
  next
    fix rq w
    show "final w (delete_chatId_5 rq w)" by (rule final_delete_chatId_5)
  next
    show "sent (trace (init s f)) = []" by (simp add: init_def)
  qed
  then show ?thesis unfolding delete_chatId_def by simp
qed

lemma responds_put_chatId: "responds_last (trace (put_chatId rq (init s f)))"
proof -
  have "responds_last (trace (run_chain ([check_chatId, chat_exists, put_chatId_3, not_joined (\<lambda>rq. Num (decoded_memberid rq))] @ [put_chatId_5]) rq (init s f)))"
  proof (rule run_chain_responds)
    fix m rq w
    assume "m \<in> set [check_chatId, chat_exists, put_chatId_3, not_joined (\<lambda>rq. Num (decoded_memberid rq))]"
    then show "passes w (m rq w)"
      by (auto simp: passes_check_chatId passes_chat_exists passes_put_chatId_3 passes_not_joined)
  next
    fix rq w
    show "final w (put_chatId_5 rq w)" by (rule final_put_chatId_5)
  next
    show "sent (trace (init s f)) = []" by (simp add: init_def)
  qed
  then show ?thesis unfolding put_chatId_def by simp
qed

lemma responds_put_chatId_email: "responds_last (trace (put_chatId_email rq (init s f)))"
proof -
  have "responds_last (trace (run_chain ([check_chatId_email, put_chatId_email_2, put_chatId_email_3, not_joined req_memberid, put_chatId_email_5] @ [put_chatId_email_6]) rq (init s f)))"
  proof (rule run_chain_responds)
    fix m rq w
    assume "m \<in> set [check_chatId_email, put_chatId_email_2, put_chatId_email_3, not_joined req_memberid, put_chatId_email_5]"
    then show "passes w (m rq w)"
      by (auto simp: passes_check_chatId_email passes_put_chatId_email_2 passes_put_chatId_email_3 passes_not_joined passes_put_chatId_email_5)
  next
    fix rq w
    show "final w (put_chatId_email_6 rq w)" by (rule final_put_chatId_email_6)
  next
    show "sent (trace (init s f)) = []" by (simp add: init_def)
  qed
  then show ?thesis unfolding put_chatId_email_def by simp
qed

lemma responds_get_chatId: "responds_last (trace (get_chatId rq (init s f)))"
proof -
  have "responds_last (trace (run_chain ([check_chatId, chat_exists] @ [get_chatId_3]) rq (init s f)))"
  proof (rule run_chain_responds)
    fix m rq w
    assume "m \<in> set [check_chatId, chat_exists]"
    then show "passes w (m rq w)"
      by (auto simp: passes_check_chatId passes_chat_exists)
  next
    fix rq w
    show "final w (get_chatId_3 rq w)" by (rule final_get_chatId_3)
  next
    show "sent (trace (init s f)) = []" by (simp add: init_def)
  qed
  then show ?thesis unfolding get_chatId_def by simp
qed

lemma responds_delete_chatId_email: "responds_last (trace (delete_chatId_email rq (init s f)))"
proof -
  have "responds_last (trace (run_chain ([check_chatId_email, chat_exists, delete_chatId_email_3, delete_chatId_email_4] @ [delete_chatId_email_5]) rq (init s f)))"
  proof (rule run_chain_responds)
    fix m rq w
    assume "m \<in> set [check_chatId_email, chat_exists, delete_chatId_email_3, delete_chatId_email_4]"
    then show "passes w (m rq w)"
      by (auto simp: passes_check_chatId_email passes_chat_exists passes_delete_chatId_email_3 passes_delete_chatId_email_4)
  next
    fix rq w
    show "final w (delete_chatId_email_5 rq w)" by (rule final_delete_chatId_email_5)
  next
    show "sent (trace (init s f)) = []" by (simp add: init_def)
  qed
  then show ?thesis unfolding delete_chatId_email_def by simp
qed

text \<open>
  What each check of each route does when it is the first to fail. The hypothesis
  \<open>run_steps pre rq (init s f) = Next rq' w'\<close> says that the middlewares before it
  all called \<^verbatim>\<open>next()\<close>, leaving the request \<open>rq'\<close> and the world \<open>w'\<close>; the
  hypothesis on the first component of \<open>pool_query\<close> is the answer that fails the check (the query
  rejected, or a row set the check refuses). The route then ends in \<open>w'\<close> with two more
  events, the query of the check and its error response: the store is the one the
  check found and nothing of the rest of the chain has run.
\<close>

lemma run_chain_stops:
  "run_steps pre rq w = Next rq' w' \<Longrightarrow> m rq' w' = Done w'' \<Longrightarrow>
   run_chain (pre @ m # post) rq w = w''"
  by (induction pre arbitrary: rq w) (auto split: flow.splits)

lemma pool_query_rejected:
  "fst (pool_query q run w) = Inl e \<Longrightarrow>
   pool_query q run w = (Inl e, w\<lparr>trace := trace w @ [Query q]\<rparr>)"
  by (auto simp: pool_query_def Let_def split: if_splits sum.splits prod.splits)

lemma pool_query_read:
  "fst (pool_query q (reading sel) w) = Inr r \<Longrightarrow>
   pool_query q (reading sel) w = (Inr r, w\<lparr>trace := trace w @ [Query q]\<rparr>)"
  by (auto simp: pool_query_def reading_def Let_def split: if_splits sum.splits prod.splits)

lemma stop_post_chats_1a:
  assumes "\<not> isStringProvided (body_name rq)"
  shows "post_chats rq (init s f) =
       \<lparr>db = s, faults = f, trace = [Send 400 (Message ''Missing required information'')]\<rparr>"
  using assms by (simp add: post_chats_def post_chats_1_def init_def send_def)

lemma stop_post_chats_2a:
  assumes "run_steps [post_chats_1] rq (init s f) = Next rq' w'"
    and "fst (pool_query (InsertChat (body_name rq'))
            (insert_chat (body_name rq')) w') = Inl e"
  shows "post_chats rq (init s f) =
       w'\<lparr>trace := trace w' @ [Query (InsertChat (body_name rq')), Send 400 (SqlError ''SQL Error'' e)]\<rparr>"
proof -
  have "(post_chats_2) rq' w' =
      Done (w'\<lparr>trace := trace w' @ [Query (InsertChat (body_name rq')), Send 400 (SqlError ''SQL Error'' e)]\<rparr>)"
    using pool_query_rejected [OF assms(2)]
    by (simp add: post_chats_2_def sql_error_def send_def)
  from run_chain_stops [where m = "post_chats_2" and post = "[]", OF assms(1) this]
  show ?thesis
    by (simp add: post_chats_def del: run_chain.simps run_steps.simps)
qed

lemma stop_get_chats_1a:
  assumes "fst (pool_query (SelectChatsOfMember (Num (decoded_memberid rq))) (reading (select_chats_of_member (Num (decoded_memberid rq)))) (init s f)) = Inl e"
  shows "get_chats rq (init s f) =
       \<lparr>db = s, faults = f, trace = [Query (SelectChatsOfMember (Num (decoded_memberid rq))), Send 400 (SqlError ''SQL Error'' e)]\<rparr>"
  using pool_query_rejected [OF assms]
  by (simp add: get_chats_def get_chats_1_def sql_error_def send_def init_def)

lemma stop_delete_chatId_1a:
  assumes "falsy (chatId rq)"
  shows "delete_chatId rq (init s f) =
       \<lparr>db = s, faults = f, trace = [Send 400 (Message ''Missing required information'')]\<rparr>"
  using assms by (simp add: delete_chatId_def check_chatId_def init_def send_def)

lemma stop_delete_chatId_1b:
  assumes "\<not> falsy (chatId rq) \<and> isNaN (chatId rq)"
  shows "delete_chatId rq (init s f) =
       \<lparr>db = s, faults = f, trace = [Send 400 (Message ''Malformed parameter. chatId must be a number'')]\<rparr>"
  using assms by (simp add: delete_chatId_def check_chatId_def init_def send_def)

lemma stop_delete_chatId_2a:
  assumes "run_steps [check_chatId] rq (init s f) = Next rq' w'"
    and "fst (pool_query (SelectChat (chatId rq'))
            (reading (select_chat (chatId rq'))) w') = Inl e"
  shows "delete_chatId rq (init s f) =
       w'\<lparr>trace := trace w' @ [Query (SelectChat (chatId rq')), Send 400 (SqlError ''SQL Error'' e)]\<rparr>"
proof -
  have "(chat_exists) rq' w' =
      Done (w'\<lparr>trace := trace w' @ [Query (SelectChat (chatId rq')), Send 400 (SqlError ''SQL Error'' e)]\<rparr>)"
    using pool_query_rejected [OF assms(2)]
    by (simp add: chat_exists_def sql_error_def send_def)
  from run_chain_stops [where m = "chat_exists" and post = "[delete_chatId_3, delete_chatId_4, delete_chatId_5]", OF assms(1) this]
  show ?thesis
    by (simp add: delete_chatId_def del: run_chain.simps run_steps.simps)
qed

lemma stop_delete_chatId_2b:
  assumes "run_steps [check_chatId] rq (init s f) = Next rq' w'"
    and "fst (pool_query (SelectChat (chatId rq'))
            (reading (select_chat (chatId rq'))) w') = Inr []"
  shows "delete_chatId rq (init s f) =
       w'\<lparr>trace := trace w' @ [Query (SelectChat (chatId rq')), Send 404 (Message ''Chat ID not found'')]\<rparr>"
proof -
  have "(chat_exists) rq' w' =
      Done (w'\<lparr>trace := trace w' @ [Query (SelectChat (chatId rq')), Send 404 (Message ''Chat ID not found'')]\<rparr>)"
    using pool_query_read [OF assms(2)]
    by (simp add: chat_exists_def sql_error_def send_def)
  from run_chain_stops [where m = "chat_exists" and post = "[delete_chatId_3, delete_chatId_4, delete_chatId_5]", OF assms(1) this]
  show ?thesis
    by (simp add: delete_chatId_def del: run_chain.simps run_steps.simps)
qed

lemma stop_delete_chatId_3a:
  assumes "run_steps [check_chatId, chat_exists] rq (init s f) = Next rq' w'"
    and "fst (pool_query (DeleteChatMember (chatId rq') (Num (decoded_memberid rq')))
            (delete_chat_member (chatId rq') (Num (decoded_memberid rq'))) w') = Inl e"
  shows "delete_chatId rq (init s f) =
       w'\<lparr>trace := trace w' @ [Query (DeleteChatMember (chatId rq') (Num (decoded_memberid rq'))), Send 400 (SqlError ''SQL Error'' e)]\<rparr>"
proof -
  have "(delete_chatId_3) rq' w' =
      Done (w'\<lparr>trace := trace w' @ [Query (DeleteChatMember (chatId rq') (Num (decoded_memberid rq'))), Send 400 (SqlError ''SQL Error'' e)]\<rparr>)"
    using pool_query_rejected [OF assms(2)]
    by (simp add: delete_chatId_3_def sql_error_def send_def)
  from run_chain_stops [where m = "delete_chatId_3" and post = "[delete_chatId_4, delete_chatId_5]", OF assms(1) this]
  show ?thesis
    by (simp add: delete_chatId_def del: run_chain.simps run_steps.simps)
qed

lemma stop_delete_chatId_4a:
  assumes "run_steps [check_chatId, chat_exists, delete_chatId_3] rq (init s f) = Next rq' w'"
    and "fst (pool_query (CountChatMembers (chatId rq'))
            (reading (count_chat_members (chatId rq'))) w') = Inl e"
  shows "delete_chatId rq (init s f) =
       w'\<lparr>trace := trace w' @ [Query (CountChatMembers (chatId rq')), Send 400 (SqlError ''SQL Error'' e)]\<rparr>"
proof -
  have "(delete_chatId_4) rq' w' =
      Done (w'\<lparr>trace := trace w' @ [Query (CountChatMembers (chatId rq')), Send 400 (SqlError ''SQL Error'' e)]\<rparr>)"
    using pool_query_rejected [OF assms(2)]
    by (simp add: delete_chatId_4_def sql_error_def send_def)
  from run_chain_stops [where m = "delete_chatId_4" and post = "[delete_chatId_5]", OF assms(1) this]
  show ?thesis
    by (simp add: delete_chatId_def del: run_chain.simps run_steps.simps)
qed

lemma stop_delete_chatId_5a:
  assumes "run_steps [check_chatId, chat_exists, delete_chatId_3, delete_chatId_4] rq (init s f) = Next rq' w'"
    and "fst (pool_query (DeleteChat (chatId rq'))
            (delete_chat (chatId rq')) w') = Inl e"
  shows "delete_chatId rq (init s f) =
       w'\<lparr>trace := trace w' @ [Query (DeleteChat (chatId rq')), Send 400 (SqlError ''SQL Error'' e)]\<rparr>"
proof -
  have "(delete_chatId_5) rq' w' =
      Done (w'\<lparr>trace := trace w' @ [Query (DeleteChat (chatId rq')), Send 400 (SqlError ''SQL Error'' e)]\<rparr>)"
    using pool_query_rejected [OF assms(2)]
    by (simp add: delete_chatId_5_def sql_error_def send_def)
  from run_chain_stops [where m = "delete_chatId_5" and post = "[]", OF assms(1) this]
  show ?thesis
    by (simp add: delete_chatId_def del: run_chain.simps run_steps.simps)
qed

lemma stop_put_chatId_1a:
  assumes "falsy (chatId rq)"
  shows "put_chatId rq (init s f) =
       \<lparr>db = s, faults = f, trace = [Send 400 (Message ''Missing required information'')]\<rparr>"
  using assms by (simp add: put_chatId_def check_chatId_def init_def send_def)

lemma stop_put_chatId_1b:
  assumes "\<not> falsy (chatId rq) \<and> isNaN (chatId rq)"
  shows "put_chatId rq (init s f) =
       \<lparr>db = s, faults = f, trace = [Send 400 (Message ''Malformed parameter. chatId must be a number'')]\<rparr>"
  using assms by (simp add: put_chatId_def check_chatId_def init_def send_def)

lemma stop_put_chatId_2a:
  assumes "run_steps [check_chatId] rq (init s f) = Next rq' w'"
    and "fst (pool_query (SelectChat (chatId rq'))
            (reading (select_chat (chatId rq'))) w') = Inl e"
  shows "put_chatId rq (init s f) =
       w'\<lparr>trace := trace w' @ [Query (SelectChat (chatId rq')), Send 400 (SqlError ''SQL Error'' e)]\<rparr>"
proof -
  have "(chat_exists) rq' w' =
      Done (w'\<lparr>trace := trace w' @ [Query (SelectChat (chatId rq')), Send 400 (SqlError ''SQL Error'' e)]\<rparr>)"
    using pool_query_rejected [OF assms(2)]
    by (simp add: chat_exists_def sql_error_def send_def)
  from run_chain_stops [where m = "chat_exists" and post = "[put_chatId_3, not_joined (\<lambda>rq. Num (decoded_memberid rq)), put_chatId_5]", OF assms(1) this]
  show ?thesis
    by (simp add: put_chatId_def del: run_chain.simps run_steps.simps)
qed

lemma stop_put_chatId_2b:
  assumes "run_steps [check_chatId] rq (init s f) = Next rq' w'"
    and "fst (pool_query (SelectChat (chatId rq'))
            (reading (select_chat (chatId rq'))) w') = Inr []"
  shows "put_chatId rq (init s f) =
       w'\<lparr>trace := trace w' @ [Query (SelectChat (chatId rq')), Send 404 (Message ''Chat ID not found'')]\<rparr>"
proof -
  have "(chat_exists) rq' w' =
      Done (w'\<lparr>trace := trace w' @ [Query (SelectChat (chatId rq')), Send 404 (Message ''Chat ID not found'')]\<rparr>)"
    using pool_query_read [OF assms(2)]
    by (simp add: chat_exists_def sql_error_def send_def)
  from run_chain_stops [where m = "chat_exists" and post = "[put_chatId_3, not_joined (\<lambda>rq. Num (decoded_memberid rq)), put_chatId_5]", OF assms(1) this]
  show ?thesis
    by (simp add: put_chatId_def del: run_chain.simps run_steps.simps)
qed

lemma stop_put_chatId_3a:
  assumes "run_steps [check_chatId, chat_exists] rq (init s f) = Next rq' w'"
    and "fst (pool_query (SelectMemberById (Num (decoded_memberid rq')))
            (reading (select_member_by_id (Num (decoded_memberid rq')))) w') = Inl e"
  shows "put_chatId rq (init s f) =
       w'\<lparr>trace := trace w' @ [Query (SelectMemberById (Num (decoded_memberid rq'))), Send 400 (SqlError ''SQL Error'' e)]\<rparr>"
proof -
  have "(put_chatId_3) rq' w' =
      Done (w'\<lparr>trace := trace w' @ [Query (SelectMemberById (Num (decoded_memberid rq'))), Send 400 (SqlError ''SQL Error'' e)]\<rparr>)"
    using pool_query_rejected [OF assms(2)]
    by (simp add: put_chatId_3_def sql_error_def send_def)
  from run_chain_stops [where m = "put_chatId_3" and post = "[not_joined (\<lambda>rq. Num (decoded_memberid rq)), put_chatId_5]", OF assms(1) this]
  show ?thesis
    by (simp add: put_chatId_def del: run_chain.simps run_steps.simps)
qed

lemma stop_put_chatId_3b:
  assumes "run_steps [check_chatId, chat_exists] rq (init s f) = Next rq' w'"
    and "fst (pool_query (SelectMemberById (Num (decoded_memberid rq')))
            (reading (select_member_by_id (Num (decoded_memberid rq')))) w') = Inr []"
  shows "put_chatId rq (init s f) =
       w'\<lparr>trace := trace w' @ [Query (SelectMemberById (Num (decoded_memberid rq'))), Send 404 (Message ''email not found'')]\<rparr>"
proof -
  have "(put_chatId_3) rq' w' =
      Done (w'\<lparr>trace := trace w' @ [Query (SelectMemberById (Num (decoded_memberid rq'))), Send 404 (Message ''email not found'')]\<rparr>)"
    using pool_query_read [OF assms(2)]
    by (simp add: put_chatId_3_def sql_error_def send_def)
  from run_chain_stops [where m = "put_chatId_3" and post = "[not_joined (\<lambda>rq. Num (decoded_memberid rq)), put_chatId_5]", OF assms(1) this]
  show ?thesis
    by (simp add: put_chatId_def del: run_chain.simps run_steps.simps)
qed

lemma stop_put_chatId_4a:
  assumes "run_steps [check_chatId, chat_exists, put_chatId_3] rq (init s f) = Next rq' w'"
    and "fst (pool_query (SelectChatMember (chatId rq') (Num (decoded_memberid rq')))
            (reading (select_chat_member (chatId rq') (Num (decoded_memberid rq')))) w') = Inl e"
  shows "put_chatId rq (init s f) =
       w'\<lparr>trace := trace w' @ [Query (SelectChatMember (chatId rq') (Num (decoded_memberid rq'))), Send 400 (SqlError ''SQL Error'' e)]\<rparr>"
proof -
  have "(not_joined (\<lambda>rq. Num (decoded_memberid rq))) rq' w' =
      Done (w'\<lparr>trace := trace w' @ [Query (SelectChatMember (chatId rq') (Num (decoded_memberid rq'))), Send 400 (SqlError ''SQL Error'' e)]\<rparr>)"
    using pool_query_rejected [OF assms(2)]
    by (simp add: not_joined_def sql_error_def send_def)
  from run_chain_stops [where m = "not_joined (\<lambda>rq. Num (decoded_memberid rq))" and post = "[put_chatId_5]", OF assms(1) this]
  show ?thesis
    by (simp add: put_chatId_def del: run_chain.simps run_steps.simps)
qed

lemma stop_put_chatId_4b:
  assumes "run_steps [check_chatId, chat_exists, put_chatId_3] rq (init s f) = Next rq' w'"
    and "fst (pool_query (SelectChatMember (chatId rq') (Num (decoded_memberid rq')))
            (reading (select_chat_member (chatId rq') (Num (decoded_memberid rq')))) w') = Inr (r # rs)"
  shows "put_chatId rq (init s f) =
       w'\<lparr>trace := trace w' @ [Query (SelectChatMember (chatId rq') (Num (decoded_memberid rq'))), Send 400 (Message ''user already joined'')]\<rparr>"
proof -
  have "(not_joined (\<lambda>rq. Num (decoded_memberid rq))) rq' w' =
      Done (w'\<lparr>trace := trace w' @ [Query (SelectChatMember (chatId rq') (Num (decoded_memberid rq'))), Send 400 (Message ''user already joined'')]\<rparr>)"
    using pool_query_read [OF assms(2)]
    by (simp add: not_joined_def sql_error_def send_def)
  from run_chain_stops [where m = "not_joined (\<lambda>rq. Num (decoded_memberid rq))" and post = "[put_chatId_5]", OF assms(1) this]
  show ?thesis
    by (simp add: put_chatId_def del: run_chain.simps run_steps.simps)
qed

lemma stop_put_chatId_5a:
  assumes "run_steps [check_chatId, chat_exists, put_chatId_3, not_joined (\<lambda>rq. Num (decoded_memberid rq))] rq (init s f) = Next rq' w'"
    and "fst (pool_query (InsertChatMember (chatId rq') (Num (decoded_memberid rq')))
            (insert_chat_member (chatId rq') (Num (decoded_memberid rq'))) w') = Inl e"
  shows "put_chatId rq (init s f) =
       w'\<lparr>trace := trace w' @ [Query (InsertChatMember (chatId rq') (Num (decoded_memberid rq'))), Send 400 (SqlError ''SQL Error'' e)]\<rparr>"
proof -
  have "(put_chatId_5) rq' w' =
      Done (w'\<lparr>trace := trace w' @ [Query (InsertChatMember (chatId rq') (Num (decoded_memberid rq'))), Send 400 (SqlError ''SQL Error'' e)]\<rparr>)"
    using pool_query_rejected [OF assms(2)]
    by (simp add: put_chatId_5_def sql_error_def send_def)
  from run_chain_stops [where m = "put_chatId_5" and post = "[]", OF assms(1) this]
  show ?thesis
    by (simp add: put_chatId_def del: run_chain.simps run_steps.simps)
qed

lemma stop_put_chatId_email_1a:
  assumes "falsy (chatId rq) \<or> falsy (email rq)"
  shows "put_chatId_email rq (init s f) =
       \<lparr>db = s, faults = f, trace = [Send 400 (Message ''Missing required information'')]\<rparr>"
  using assms by (simp add: put_chatId_email_def check_chatId_email_def init_def send_def)

lemma stop_put_chatId_email_1b:
  assumes "\<not> (falsy (chatId rq) \<or> falsy (email rq)) \<and> isNaN (chatId rq)"
  shows "put_chatId_email rq (init s f) =
       \<lparr>db = s, faults = f, trace = [Send 400 (Message ''Malformed parameter. chatId must be a number'')]\<rparr>"
  using assms by (simp add: put_chatId_email_def check_chatId_email_def init_def send_def)

lemma stop_put_chatId_email_2a:
  assumes "run_steps [check_chatId_email] rq (init s f) = Next rq' w'"
    and "fst (pool_query (SelectChat (chatId rq'))
            (reading (select_chat (chatId rq'))) w') = Inl e"
  shows "put_chatId_email rq (init s f) =
       w'\<lparr>trace := trace w' @ [Query (SelectChat (chatId rq')), Send 400 (SqlError ''SQL Error'' e)]\<rparr>"
proof -
  have "(put_chatId_email_2) rq' w' =
      Done (w'\<lparr>trace := trace w' @ [Query (SelectChat (chatId rq')), Send 400 (SqlError ''SQL Error'' e)]\<rparr>)"
    using pool_query_rejected [OF assms(2)]
    by (simp add: put_chatId_email_2_def sql_error_def send_def)
  from run_chain_stops [where m = "put_chatId_email_2" and post = "[put_chatId_email_3, not_joined req_memberid, put_chatId_email_5, put_chatId_email_6]", OF assms(1) this]
  show ?thesis
    by (simp add: put_chatId_email_def del: run_chain.simps run_steps.simps)
qed

lemma stop_put_chatId_email_2b:
  assumes "run_steps [check_chatId_email] rq (init s f) = Next rq' w'"
    and "fst (pool_query (SelectChat (chatId rq'))
            (reading (select_chat (chatId rq'))) w') = Inr []"
  shows "put_chatId_email rq (init s f) =
       w'\<lparr>trace := trace w' @ [Query (SelectChat (chatId rq')), Send 404 (Message ''Chat ID not found'')]\<rparr>"
proof -
  have "(put_chatId_email_2) rq' w' =
      Done (w'\<lparr>trace := trace w' @ [Query (SelectChat (chatId rq')), Send 404 (Message ''Chat ID not found'')]\<rparr>)"
    using pool_query_read [OF assms(2)]
    by (simp add: put_chatId_email_2_def sql_error_def send_def)
  from run_chain_stops [where m = "put_chatId_email_2" and post = "[put_chatId_email_3, not_joined req_memberid, put_chatId_email_5, put_chatId_email_6]", OF assms(1) this]
  show ?thesis
    by (simp add: put_chatId_email_def del: run_chain.simps run_steps.simps)
qed

lemma stop_put_chatId_email_3a:
  assumes "run_steps [check_chatId_email, put_chatId_email_2] rq (init s f) = Next rq' w'"
    and "fst (pool_query (SelectMemberByEmail (email rq'))
            (reading (select_member_by_email (email rq'))) w') = Inl e"
  shows "put_chatId_email rq (init s f) =
       w'\<lparr>trace := trace w' @ [Query (SelectMemberByEmail (email rq')), Send 400 (SqlError ''SQL Error'' e)]\<rparr>"
proof -
  have "(put_chatId_email_3) rq' w' =
      Done (w'\<lparr>trace := trace w' @ [Query (SelectMemberByEmail (email rq')), Send 400 (SqlError ''SQL Error'' e)]\<rparr>)"
    using pool_query_rejected [OF assms(2)]
    by (simp add: put_chatId_email_3_def sql_error_def send_def)
  from run_chain_stops [where m = "put_chatId_email_3" and post = "[not_joined req_memberid, put_chatId_email_5, put_chatId_email_6]", OF assms(1) this]
  show ?thesis
    by (simp add: put_chatId_email_def del: run_chain.simps run_steps.simps)
qed

lemma stop_put_chatId_email_3b:
  assumes "run_steps [check_chatId_email, put_chatId_email_2] rq (init s f) = Next rq' w'"
    and "fst (pool_query (SelectMemberByEmail (email rq'))
            (reading (select_member_by_email (email rq'))) w') = Inr []"
  shows "put_chatId_email rq (init s f) =
       w'\<lparr>trace := trace w' @ [Query (SelectMemberByEmail (email rq')), Send 404 (Message ''User not found'')]\<rparr>"
proof -
  have "(put_chatId_email_3) rq' w' =
      Done (w'\<lparr>trace := trace w' @ [Query (SelectMemberByEmail (email rq')), Send 404 (Message ''User not found'')]\<rparr>)"
    using pool_query_read [OF assms(2)]
    by (simp add: put_chatId_email_3_def sql_error_def send_def)
  from run_chain_stops [where m = "put_chatId_email_3" and post = "[not_joined req_memberid, put_chatId_email_5, put_chatId_email_6]", OF assms(1) this]
  show ?thesis
    by (simp add: put_chatId_email_def del: run_chain.simps run_steps.simps)
qed

lemma stop_put_chatId_email_4a:
  assumes "run_steps [check_chatId_email, put_chatId_email_2, put_chatId_email_3] rq (init s f) = Next rq' w'"
    and "fst (pool_query (SelectChatMember (chatId rq') (req_memberid rq'))
            (reading (select_chat_member (chatId rq') (req_memberid rq'))) w') = Inl e"
  shows "put_chatId_email rq (init s f) =
       w'\<lparr>trace := trace w' @ [Query (SelectChatMember (chatId rq') (req_memberid rq')), Send 400 (SqlError ''SQL Error'' e)]\<rparr>"
proof -
  have "(not_joined req_memberid) rq' w' =
      Done (w'\<lparr>trace := trace w' @ [Query (SelectChatMember (chatId rq') (req_memberid rq')), Send 400 (SqlError ''SQL Error'' e)]\<rparr>)"
    using pool_query_rejected [OF assms(2)]
    by (simp add: not_joined_def sql_error_def send_def)
  from run_chain_stops [where m = "not_joined req_memberid" and post = "[put_chatId_email_5, put_chatId_email_6]", OF assms(1) this]
  show ?thesis
    by (simp add: put_chatId_email_def del: run_chain.simps run_steps.simps)
qed

lemma stop_put_chatId_email_4b:
  assumes "run_steps [check_chatId_email, put_chatId_email_2, put_chatId_email_3] rq (init s f) = Next rq' w'"
    and "fst (pool_query (SelectChatMember (chatId rq') (req_memberid rq'))
            (reading (select_chat_member (chatId rq') (req_memberid rq'))) w') = Inr (r # rs)"
  shows "put_chatId_email rq (init s f) =
       w'\<lparr>trace := trace w' @ [Query (SelectChatMember (chatId rq') (req_memberid rq')), Send 400 (Message ''user already joined'')]\<rparr>"
proof -
  have "(not_joined req_memberid) rq' w' =
      Done (w'\<lparr>trace := trace w' @ [Query (SelectChatMember (chatId rq') (req_memberid rq')), Send 400 (Message ''user already joined'')]\<rparr>)"
    using pool_query_read [OF assms(2)]
    by (simp add: not_joined_def sql_error_def send_def)
  from run_chain_stops [where m = "not_joined req_memberid" and post = "[put_chatId_email_5, put_chatId_email_6]", OF assms(1) this]
  show ?thesis
    by (simp add: put_chatId_email_def del: run_chain.simps run_steps.simps)
qed

lemma stop_put_chatId_email_5a:
  assumes "run_steps [check_chatId_email, put_chatId_email_2, put_chatId_email_3, not_joined req_memberid] rq (init s f) = Next rq' w'"
    and "fst (pool_query (InsertChatMember (chatId rq') (req_memberid rq'))
            (insert_chat_member (chatId rq') (req_memberid rq')) w') = Inl e"
  shows "put_chatId_email rq (init s f) =
       w'\<lparr>trace := trace w' @ [Query (InsertChatMember (chatId rq') (req_memberid rq')), Send 400 (SqlError ''SQL Error'' e)]\<rparr>"
proof -
  have "(put_chatId_email_5) rq' w' =
      Done (w'\<lparr>trace := trace w' @ [Query (InsertChatMember (chatId rq') (req_memberid rq')), Send 400 (SqlError ''SQL Error'' e)]\<rparr>)"
    using pool_query_rejected [OF assms(2)]
    by (simp add: put_chatId_email_5_def sql_error_def send_def)
  from run_chain_stops [where m = "put_chatId_email_5" and post = "[put_chatId_email_6]", OF assms(1) this]
  show ?thesis
    by (simp add: put_chatId_email_def del: run_chain.simps run_steps.simps)
qed

lemma stop_put_chatId_email_6a:
  assumes "run_steps [check_chatId_email, put_chatId_email_2, put_chatId_email_3, not_joined req_memberid, put_chatId_email_5] rq (init s f) = Next rq' w'"
    and "fst (pool_query (SelectPushTokens (req_memberid rq'))
            (reading (select_push_tokens (req_memberid rq'))) w') = Inl e"
  shows "put_chatId_email rq (init s f) =
       w'\<lparr>trace := trace w' @ [Query (SelectPushTokens (req_memberid rq')), Send 400 (SqlError ''SQL Error on select from push token'' e)]\<rparr>"
proof -
  have "(put_chatId_email_6) rq' w' =
      Done (w'\<lparr>trace := trace w' @ [Query (SelectPushTokens (req_memberid rq')), Send 400 (SqlError ''SQL Error on select from push token'' e)]\<rparr>)"
    using pool_query_rejected [OF assms(2)]
    by (simp add: put_chatId_email_6_def sql_error_def send_def)
  from run_chain_stops [where m = "put_chatId_email_6" and post = "[]", OF assms(1) this]
  show ?thesis
    by (simp add: put_chatId_email_def del: run_chain.simps run_steps.simps)
qed

lemma stop_get_chatId_1a:
  assumes "falsy (chatId rq)"
  shows "get_chatId rq (init s f) =
       \<lparr>db = s, faults = f, trace = [Send 400 (Message ''Missing required information'')]\<rparr>"
  using assms by (simp add: get_chatId_def check_chatId_def init_def send_def)

lemma stop_get_chatId_1b:
  assumes "\<not> falsy (chatId rq) \<and> isNaN (chatId rq)"
  shows "get_chatId rq (init s f) =
       \<lparr>db = s, faults = f, trace = [Send 400 (Message ''Malformed parameter. chatId must be a number'')]\<rparr>"
  using assms by (simp add: get_chatId_def check_chatId_def init_def send_def)

lemma stop_get_chatId_2a:
  assumes "run_steps [check_chatId] rq (init s f) = Next rq' w'"
    and "fst (pool_query (SelectChat (chatId rq'))
            (reading (select_chat (chatId rq'))) w') = Inl e"
  shows "get_chatId rq (init s f) =
       w'\<lparr>trace := trace w' @ [Query (SelectChat (chatId rq')), Send 400 (SqlError ''SQL Error'' e)]\<rparr>"
proof -
  have "(chat_exists) rq' w' =
      Done (w'\<lparr>trace := trace w' @ [Query (SelectChat (chatId rq')), Send 400 (SqlError ''SQL Error'' e)]\<rparr>)"
    using pool_query_rejected [OF assms(2)]
    by (simp add: chat_exists_def sql_error_def send_def)
  from run_chain_stops [where m = "chat_exists" and post = "[get_chatId_3]", OF assms(1) this]
  show ?thesis
    by (simp add: get_chatId_def del: run_chain.simps run_steps.simps)
qed

lemma stop_get_chatId_2b:
  assumes "run_steps [check_chatId] rq (init s f) = Next rq' w'"
    and "fst (pool_query (SelectChat (chatId rq'))
            (reading (select_chat (chatId rq'))) w') = Inr []"
  shows "get_chatId rq (init s f) =
       w'\<lparr>trace := trace w' @ [Query (SelectChat (chatId rq')), Send 404 (Message ''Chat ID not found'')]\<rparr>"
proof -
  have "(chat_exists) rq' w' =
      Done (w'\<lparr>trace := trace w' @ [Query (SelectChat (chatId rq')), Send 404 (Message ''Chat ID not found'')]\<rparr>)"
    using pool_query_read [OF assms(2)]
    by (simp add: chat_exists_def sql_error_def send_def)
  from run_chain_stops [where m = "chat_exists" and post = "[get_chatId_3]", OF assms(1) this]
  show ?thesis
    by (simp add: get_chatId_def del: run_chain.simps run_steps.simps)
qed

lemma stop_get_chatId_3a:
  assumes "run_steps [check_chatId, chat_exists] rq (init s f) = Next rq' w'"
    and "fst (pool_query (SelectMembersOfChat (chatId rq'))
            (reading (select_members_of_chat (chatId rq'))) w') = Inl e"
  shows "get_chatId rq (init s f) =
       w'\<lparr>trace := trace w' @ [Query (SelectMembersOfChat (chatId rq')), Send 400 (SqlError ''SQL Error'' e)]\<rparr>"
proof -
  have "(get_chatId_3) rq' w' =
      Done (w'\<lparr>trace := trace w' @ [Query (SelectMembersOfChat (chatId rq')), Send 400 (SqlError ''SQL Error'' e)]\<rparr>)"
    using pool_query_rejected [OF assms(2)]
    by (simp add: get_chatId_3_def sql_error_def send_def)
  from run_chain_stops [where m = "get_chatId_3" and post = "[]", OF assms(1) this]
  show ?thesis
    by (simp add: get_chatId_def del: run_chain.simps run_steps.simps)
qed

lemma stop_delete_chatId_email_1a:
  assumes "falsy (chatId rq) \<or> falsy (email rq)"
  shows "delete_chatId_email rq (init s f) =
       \<lparr>db = s, faults = f, trace = [Send 400 (Message ''Missing required information'')]\<rparr>"
  using assms by (simp add: delete_chatId_email_def check_chatId_email_def init_def send_def)

lemma stop_delete_chatId_email_1b:
  assumes "\<not> (falsy (chatId rq) \<or> falsy (email rq)) \<and> isNaN (chatId rq)"
  shows "delete_chatId_email rq (init s f) =
       \<lparr>db = s, faults = f, trace = [Send 400 (Message ''Malformed parameter. chatId must be a number'')]\<rparr>"
  using assms by (simp add: delete_chatId_email_def check_chatId_email_def init_def send_def)

lemma stop_delete_chatId_email_2a:
  assumes "run_steps [check_chatId_email] rq (init s f) = Next rq' w'"
    and "fst (pool_query (SelectChat (chatId rq'))
            (reading (select_chat (chatId rq'))) w') = Inl e"
  shows "delete_chatId_email rq (init s f) =
       w'\<lparr>trace := trace w' @ [Query (SelectChat (chatId rq')), Send 400 (SqlError ''SQL Error'' e)]\<rparr>"
proof -
  have "(chat_exists) rq' w' =
      Done (w'\<lparr>trace := trace w' @ [Query (SelectChat (chatId rq')), Send 400 (SqlError ''SQL Error'' e)]\<rparr>)"
    using pool_query_rejected [OF assms(2)]
    by (simp add: chat_exists_def sql_error_def send_def)
  from run_chain_stops [where m = "chat_exists" and post = "[delete_chatId_email_3, delete_chatId_email_4, delete_chatId_email_5]", OF assms(1) this]
  show ?thesis
    by (simp add: delete_chatId_email_def del: run_chain.simps run_steps.simps)
qed

lemma stop_delete_chatId_email_2b:
  assumes "run_steps [check_chatId_email] rq (init s f) = Next rq' w'"
    and "fst (pool_query (SelectChat (chatId rq'))
            (reading (select_chat (chatId rq'))) w') = Inr []"
  shows "delete_chatId_email rq (init s f) =
       w'\<lparr>trace := trace w' @ [Query (SelectChat (chatId rq')), Send 404 (Message ''Chat ID not found'')]\<rparr>"
proof -
  have "(chat_exists) rq' w' =
      Done (w'\<lparr>trace := trace w' @ [Query (SelectChat (chatId rq')), Send 404 (Message ''Chat ID not found'')]\<rparr>)"
    using pool_query_read [OF assms(2)]
    by (simp add: chat_exists_def sql_error_def send_def)
  from run_chain_stops [where m = "chat_exists" and post = "[delete_chatId_email_3, delete_chatId_email_4, delete_chatId_email_5]", OF assms(1) this]
  show ?thesis
    by (simp add: delete_chatId_email_def del: run_chain.simps run_steps.simps)
qed

lemma stop_delete_chatId_email_3a:
  assumes "run_steps [check_chatId_email, chat_exists] rq (init s f) = Next rq' w'"
    and "fst (pool_query (SelectMemberByEmail (email rq'))
            (reading (select_member_by_email (email rq'))) w') = Inl e"
  shows "delete_chatId_email rq (init s f) =
       w'\<lparr>trace := trace w' @ [Query (SelectMemberByEmail (email rq')), Send 400 (SqlError ''SQL Error'' e)]\<rparr>"
proof -
  have "(delete_chatId_email_3) rq' w' =
      Done (w'\<lparr>trace := trace w' @ [Query (SelectMemberByEmail (email rq')), Send 400 (SqlError ''SQL Error'' e)]\<rparr>)"
    using pool_query_rejected [OF assms(2)]
    by (simp add: delete_chatId_email_3_def sql_error_def send_def)
  from run_chain_stops [where m = "delete_chatId_email_3" and post = "[delete_chatId_email_4, delete_chatId_email_5]", OF assms(1) this]
  show ?thesis
    by (simp add: delete_chatId_email_def del: run_chain.simps run_steps.simps)
qed

lemma stop_delete_chatId_email_3b:
  assumes "run_steps [check_chatId_email, chat_exists] rq (init s f) = Next rq' w'"
    and "fst (pool_query (SelectMemberByEmail (email rq'))
            (reading (select_member_by_email (email rq'))) w') = Inr []"
  shows "delete_chatId_email rq (init s f) =
       w'\<lparr>trace := trace w' @ [Query (SelectMemberByEmail (email rq')), Send 404 (Message ''email not found'')]\<rparr>"
proof -
  have "(delete_chatId_email_3) rq' w' =
      Done (w'\<lparr>trace := trace w' @ [Query (SelectMemberByEmail (email rq')), Send 404 (Message ''email not found'')]\<rparr>)"
    using pool_query_read [OF assms(2)]
    by (simp add: delete_chatId_email_3_def sql_error_def send_def)
  from run_chain_stops [where m = "delete_chatId_email_3" and post = "[delete_chatId_email_4, delete_chatId_email_5]", OF assms(1) this]
  show ?thesis
    by (simp add: delete_chatId_email_def del: run_chain.simps run_steps.simps)
qed

lemma stop_delete_chatId_email_4a:
  assumes "run_steps [check_chatId_email, chat_exists, delete_chatId_email_3] rq (init s f) = Next rq' w'"
    and "fst (pool_query (SelectChatMember (chatId rq') (email rq'))
            (reading (select_chat_member (chatId rq') (email rq'))) w') = Inl e"
  shows "delete_chatId_email rq (init s f) =
       w'\<lparr>trace := trace w' @ [Query (SelectChatMember (chatId rq') (email rq')), Send 400 (SqlError ''SQL Error'' e)]\<rparr>"
proof -
  have "(delete_chatId_email_4) rq' w' =
      Done (w'\<lparr>trace := trace w' @ [Query (SelectChatMember (chatId rq') (email rq')), Send 400 (SqlError ''SQL Error'' e)]\<rparr>)"
    using pool_query_rejected [OF assms(2)]
    by (simp add: delete_chatId_email_4_def sql_error_def send_def)
  from run_chain_stops [where m = "delete_chatId_email_4" and post = "[delete_chatId_email_5]", OF assms(1) this]
  show ?thesis
    by (simp add: delete_chatId_email_def del: run_chain.simps run_steps.simps)
qed

lemma stop_delete_chatId_email_4b:
  assumes "run_steps [check_chatId_email, chat_exists, delete_chatId_email_3] rq (init s f) = Next rq' w'"
    and "fst (pool_query (SelectChatMember (chatId rq') (email rq'))
            (reading (select_chat_member (chatId rq') (email rq'))) w') = Inr []"
  shows "delete_chatId_email rq (init s f) =
       w'\<lparr>trace := trace w' @ [Query (SelectChatMember (chatId rq') (email rq')), Send 400 (Message ''user not in chat'')]\<rparr>"
proof -
  have "(delete_chatId_email_4) rq' w' =
      Done (w'\<lparr>trace := trace w' @ [Query (SelectChatMember (chatId rq') (email rq')), Send 400 (Message ''user not in chat'')]\<rparr>)"
    using pool_query_read [OF assms(2)]
    by (simp add: delete_chatId_email_4_def sql_error_def send_def)
  from run_chain_stops [where m = "delete_chatId_email_4" and post = "[delete_chatId_email_5]", OF assms(1) this]
  show ?thesis
    by (simp add: delete_chatId_email_def del: run_chain.simps run_steps.simps)
qed

lemma stop_delete_chatId_email_5a:
  assumes "run_steps [check_chatId_email, chat_exists, delete_chatId_email_3, delete_chatId_email_4] rq (init s f) = Next rq' w'"
    and "fst (pool_query (DeleteChatMember (chatId rq') (email rq'))
            (delete_chat_member (chatId rq') (email rq')) w') = Inl e"
  shows "delete_chatId_email rq (init s f) =
       w'\<lparr>trace := trace w' @ [Query (DeleteChatMember (chatId rq') (email rq')), Send 400 (SqlError ''SQL Error'' e)]\<rparr>"
proof -
  have "(delete_chatId_email_5) rq' w' =
      Done (w'\<lparr>trace := trace w' @ [Query (DeleteChatMember (chatId rq') (email rq')), Send 400 (SqlError ''SQL Error'' e)]\<rparr>)"
    using pool_query_rejected [OF assms(2)]
    by (simp add: delete_chatId_email_5_def sql_error_def send_def)
  from run_chain_stops [where m = "delete_chatId_email_5" and post = "[]", OF assms(1) this]
  show ?thesis
    by (simp add: delete_chatId_email_def del: run_chain.simps run_steps.simps)
qed

text \<open>
  Claim C8. For each of the seven routes, every request, every store and every pattern
  of driver failures: the trace of the request is not empty, its last event is a
  response and it is the only response; nothing follows it. And for each check of each
  route, in the order of the chain (the parameters, then each query with the answers
  that fail it): when the checks before it have passed and it fails, the route ends
  with the error response of that check sent directly after the check's own query (or
  as the only event, for the check of the parameters), in the store as the check found
  it. No later check, query or write of the chain is run.
\<close>

theorem C8_response_ends_the_request:
  "responds_last (trace (post_chats rq (init s f))) \<and>
   after_response (trace (post_chats rq (init s f))) = [] \<and>
   responds_last (trace (get_chats rq (init s f))) \<and>
   after_response (trace (get_chats rq (init s f))) = [] \<and>
   responds_last (trace (delete_chatId rq (init s f))) \<and>
   after_response (trace (delete_chatId rq (init s f))) = [] \<and>
   responds_last (trace (put_chatId rq (init s f))) \<and>
   after_response (trace (put_chatId rq (init s f))) = [] \<and>
   responds_last (trace (put_chatId_email rq (init s f))) \<and>
   after_response (trace (put_chatId_email rq (init s f))) = [] \<and>
   responds_last (trace (get_chatId rq (init s f))) \<and>
   after_response (trace (get_chatId rq (init s f))) = [] \<and>
   responds_last (trace (delete_chatId_email rq (init s f))) \<and>
   after_response (trace (delete_chatId_email rq (init s f))) = [] \<and>
   (\<not> isStringProvided (body_name rq) \<longrightarrow>
     post_chats rq (init s f) =
       \<lparr>db = s, faults = f, trace = [Send 400 (Message ''Missing required information'')]\<rparr>) \<and>
   (run_steps [post_chats_1] rq (init s f) = Next rq' w' \<longrightarrow>
     fst (pool_query (InsertChat (body_name rq'))
            (insert_chat (body_name rq')) w') = Inl e \<longrightarrow>
     post_chats rq (init s f) =
       w'\<lparr>trace := trace w' @ [Query (InsertChat (body_name rq')), Send 400 (SqlError ''SQL Error'' e)]\<rparr>) \<and>
   (fst (pool_query (SelectChatsOfMember (Num (decoded_memberid rq))) (reading (select_chats_of_member (Num (decoded_memberid rq)))) (init s f)) = Inl e \<longrightarrow>
     get_chats rq (init s f) =
       \<lparr>db = s, faults = f, trace = [Query (SelectChatsOfMember (Num (decoded_memberid rq))), Send 400 (SqlError ''SQL Error'' e)]\<rparr>) \<and>
   (falsy (chatId rq) \<longrightarrow>
     delete_chatId rq (init s f) =
       \<lparr>db = s, faults = f, trace = [Send 400 (Message ''Missing required information'')]\<rparr>) \<and>
   (\<not> falsy (chatId rq) \<and> isNaN (chatId rq) \<longrightarrow>
     delete_chatId rq (init s f) =
       \<lparr>db = s, faults = f, trace = [Send 400 (Message ''Malformed parameter. chatId must be a number'')]\<rparr>) \<and>
   (run_steps [check_chatId] rq (init s f) = Next rq' w' \<longrightarrow>
     fst (pool_query (SelectChat (chatId rq'))
            (reading (select_chat (chatId rq'))) w') = Inl e \<longrightarrow>
     delete_chatId rq (init s f) =
       w'\<lparr>trace := trace w' @ [Query (SelectChat (chatId rq')), Send 400 (SqlError ''SQL Error'' e)]\<rparr>) \<and>
   (run_steps [check_chatId] rq (init s f) = Next rq' w' \<longrightarrow>
     fst (pool_query (SelectChat (chatId rq'))
            (reading (select_chat (chatId rq'))) w') = Inr [] \<longrightarrow>
     delete_chatId rq (init s f) =
       w'\<lparr>trace := trace w' @ [Query (SelectChat (chatId rq')), Send 404 (Message ''Chat ID not found'')]\<rparr>) \<and>
   (run_steps [check_chatId, chat_exists] rq (init s f) = Next rq' w' \<longrightarrow>
     fst (pool_query (DeleteChatMember (chatId rq') (Num (decoded_memberid rq')))
            (delete_chat_member (chatId rq') (Num (decoded_memberid rq'))) w') = Inl e \<longrightarrow>
     delete_chatId rq (init s f) =
       w'\<lparr>trace := trace w' @ [Query (DeleteChatMember (chatId rq') (Num (decoded_memberid rq'))), Send 400 (SqlError ''SQL Error'' e)]\<rparr>) \<and>
   (run_steps [check_chatId, chat_exists, delete_chatId_3] rq (init s f) = Next rq' w' \<longrightarrow>
     fst (pool_query (CountChatMembers (chatId rq'))
            (reading (count_chat_members (chatId rq'))) w') = Inl e \<longrightarrow>
     delete_chatId rq (init s f) =
       w'\<lparr>trace := trace w' @ [Query (CountChatMembers (chatId rq')), Send 400 (SqlError ''SQL Error'' e)]\<rparr>) \<and>
   (run_steps [check_chatId, chat_exists, delete_chatId_3, delete_chatId_4] rq (init s f) = Next rq' w' \<longrightarrow>
     fst (pool_query (DeleteChat (chatId rq'))
            (delete_chat (chatId rq')) w') = Inl e \<longrightarrow>
     delete_chatId rq (init s f) =
       w'\<lparr>trace := trace w' @ [Query (DeleteChat (chatId rq')), Send 400 (SqlError ''SQL Error'' e)]\<rparr>) \<and>
   (falsy (chatId rq) \<longrightarrow>
     put_chatId rq (init s f) =
       \<lparr>db = s, faults = f, trace = [Send 400 (Message ''Missing required information'')]\<rparr>) \<and>
   (\<not> falsy (chatId rq) \<and> isNaN (chatId rq) \<longrightarrow>
     put_chatId rq (init s f) =
       \<lparr>db = s, faults = f, trace = [Send 400 (Message ''Malformed parameter. chatId must be a number'')]\<rparr>) \<and>
   (run_steps [check_chatId] rq (init s f) = Next rq' w' \<longrightarrow>
     fst (pool_query (SelectChat (chatId rq'))
            (reading (select_chat (chatId rq'))) w') = Inl e \<longrightarrow>
     put_chatId rq (init s f) =
       w'\<lparr>trace := trace w' @ [Query (SelectChat (chatId rq')), Send 400 (SqlError ''SQL Error'' e)]\<rparr>) \<and>
   (run_steps [check_chatId] rq (init s f) = Next rq' w' \<longrightarrow>
     fst (pool_query (SelectChat (chatId rq'))
            (reading (select_chat (chatId rq'))) w') = Inr [] \<longrightarrow>
     put_chatId rq (init s f) =
       w'\<lparr>trace := trace w' @ [Query (SelectChat (chatId rq')), Send 404 (Message ''Chat ID not found'')]\<rparr>) \<and>
   (run_steps [check_chatId, chat_exists] rq (init s f) = Next rq' w' \<longrightarrow>
     fst (pool_query (SelectMemberById (Num (decoded_memberid rq')))
            (reading (select_member_by_id (Num (decoded_memberid rq')))) w') = Inl e \<longrightarrow>
     put_chatId rq (init s f) =
       w'\<lparr>trace := trace w' @ [Query (SelectMemberById (Num (decoded_memberid rq'))), Send 400 (SqlError ''SQL Error'' e)]\<rparr>) \<and>
   (run_steps [check_chatId, chat_exists] rq (init s f) = Next rq' w' \<longrightarrow>
     fst (pool_query (SelectMemberById (Num (decoded_memberid rq')))
            (reading (select_member_by_id (Num (decoded_memberid rq')))) w') = Inr [] \<longrightarrow>
     put_chatId rq (init s f) =
       w'\<lparr>trace := trace w' @ [Query (SelectMemberById (Num (decoded_memberid rq'))), Send 404 (Message ''email not found'')]\<rparr>) \<and>
   (run_steps [check_chatId, chat_exists, put_chatId_3] rq (init s f) = Next rq' w' \<longrightarrow>
     fst (pool_query (SelectChatMember (chatId rq') (Num (decoded_memberid rq')))
            (reading (select_chat_member (chatId rq') (Num (decoded_memberid rq')))) w') = Inl e \<longrightarrow>
     put_chatId rq (init s f) =
       w'\<lparr>trace := trace w' @ [Query (SelectChatMember (chatId rq') (Num (decoded_memberid rq'))), Send 400 (SqlError ''SQL Error'' e)]\<rparr>) \<and>
   (run_steps [check_chatId, chat_exists, put_chatId_3] rq (init s f) = Next rq' w' \<longrightarrow>
     fst (pool_query (SelectChatMember (chatId rq') (Num (decoded_memberid rq')))
            (reading (select_chat_member (chatId rq') (Num (decoded_memberid rq')))) w') = Inr (r # rs) \<longrightarrow>
     put_chatId rq (init s f) =
       w'\<lparr>trace := trace w' @ [Query (SelectChatMember (chatId rq') (Num (decoded_memberid rq'))), Send 400 (Message ''user already joined'')]\<rparr>) \<and>
   (run_steps [check_chatId, chat_exists, put_chatId_3, not_joined (\<lambda>rq. Num (decoded_memberid rq))] rq (init s f) = Next rq' w' \<longrightarrow>
     fst (pool_query (InsertChatMember (chatId rq') (Num (decoded_memberid rq')))
            (insert_chat_member (chatId rq') (Num (decoded_memberid rq'))) w') = Inl e \<longrightarrow>
     put_chatId rq (init s f) =
       w'\<lparr>trace := trace w' @ [Query (InsertChatMember (chatId rq') (Num (decoded_memberid rq'))), Send 400 (SqlError ''SQL Error'' e)]\<rparr>) \<and>
   (falsy (chatId rq) \<or> falsy (email rq) \<longrightarrow>
     put_chatId_email rq (init s f) =
       \<lparr>db = s, faults = f, trace = [Send 400 (Message ''Missing required information'')]\<rparr>) \<and>
   (\<not> (falsy (chatId rq) \<or> falsy (email rq)) \<and> isNaN (chatId rq) \<longrightarrow>
     put_chatId_email rq (init s f) =
       \<lparr>db = s, faults = f, trace = [Send 400 (Message ''Malformed parameter. chatId must be a number'')]\<rparr>) \<and>
   (run_steps [check_chatId_email] rq (init s f) = Next rq' w' \<longrightarrow>
     fst (pool_query (SelectChat (chatId rq'))
            (reading (select_chat (chatId rq'))) w') = Inl e \<longrightarrow>
     put_chatId_email rq (init s f) =
       w'\<lparr>trace := trace w' @ [Query (SelectChat (chatId rq')), Send 400 (SqlError ''SQL Error'' e)]\<rparr>) \<and>
   (run_steps [check_chatId_email] rq (init s f) = Next rq' w' \<longrightarrow>
     fst (pool_query (SelectChat (chatId rq'))
            (reading (select_chat (chatId rq'))) w') = Inr [] \<longrightarrow>
     put_chatId_email rq (init s f) =
       w'\<lparr>trace := trace w' @ [Query (SelectChat (chatId rq')), Send 404 (Message ''Chat ID not found'')]\<rparr>) \<and>
   (run_steps [check_chatId_email, put_chatId_email_2] rq (init s f) = Next rq' w' \<longrightarrow>
     fst (pool_query (SelectMemberByEmail (email rq'))
            (reading (select_member_by_email (email rq'))) w') = Inl e \<longrightarrow>
     put_chatId_email rq (init s f) =
       w'\<lparr>trace := trace w' @ [Query (SelectMemberByEmail (email rq')), Send 400 (SqlError ''SQL Error'' e)]\<rparr>) \<and>
   (run_steps [check_chatId_email, put_chatId_email_2] rq (init s f) = Next rq' w' \<longrightarrow>
     fst (pool_query (SelectMemberByEmail (email rq'))
            (reading (select_member_by_email (email rq'))) w') = Inr [] \<longrightarrow>
     put_chatId_email rq (init s f) =
       w'\<lparr>trace := trace w' @ [Query (SelectMemberByEmail (email rq')), Send 404 (Message ''User not found'')]\<rparr>) \<and>
   (run_steps [check_chatId_email, put_chatId_email_2, put_chatId_email_3] rq (init s f) = Next rq' w' \<longrightarrow>
     fst (pool_query (SelectChatMember (chatId rq') (req_memberid rq'))
            (reading (select_chat_member (chatId rq') (req_memberid rq'))) w') = Inl e \<longrightarrow>
     put_chatId_email rq (init s f) =
       w'\<lparr>trace := trace w' @ [Query (SelectChatMember (chatId rq') (req_memberid rq')), Send 400 (SqlError ''SQL Error'' e)]\<rparr>) \<and>
   (run_steps [check_chatId_email, put_chatId_email_2, put_chatId_email_3] rq (init s f) = Next rq' w' \<longrightarrow>
     fst (pool_query (SelectChatMember (chatId rq') (req_memberid rq'))
            (reading (select_chat_member (chatId rq') (req_memberid rq'))) w') = Inr (r # rs) \<longrightarrow>
     put_chatId_email rq (init s f) =
       w'\<lparr>trace := trace w' @ [Query (SelectChatMember (chatId rq') (req_memberid rq')), Send 400 (Message ''user already joined'')]\<rparr>) \<and>
   (run_steps [check_chatId_email, put_chatId_email_2, put_chatId_email_3, not_joined req_memberid] rq (init s f) = Next rq' w' \<longrightarrow>
     fst (pool_query (InsertChatMember (chatId rq') (req_memberid rq'))
            (insert_chat_member (chatId rq') (req_memberid rq')) w') = Inl e \<longrightarrow>
     put_chatId_email rq (init s f) =
       w'\<lparr>trace := trace w' @ [Query (InsertChatMember (chatId rq') (req_memberid rq')), Send 400 (SqlError ''SQL Error'' e)]\<rparr>) \<and>
   (run_steps [check_chatId_email, put_chatId_email_2, put_chatId_email_3, not_joined req_memberid, put_chatId_email_5] rq (init s f) = Next rq' w' \<longrightarrow>
     fst (pool_query (SelectPushTokens (req_memberid rq'))
            (reading (select_push_tokens (req_memberid rq'))) w') = Inl e \<longrightarrow>
     put_chatId_email rq (init s f) =
       w'\<lparr>trace := trace w' @ [Query (SelectPushTokens (req_memberid rq')), Send 400 (SqlError ''SQL Error on select from push token'' e)]\<rparr>) \<and>
   (falsy (chatId rq) \<longrightarrow>
     get_chatId rq (init s f) =
       \<lparr>db = s, faults = f, trace = [Send 400 (Message ''Missing required information'')]\<rparr>) \<and>
   (\<not> falsy (chatId rq) \<and> isNaN (chatId rq) \<longrightarrow>
     get_chatId rq (init s f) =
       \<lparr>db = s, faults = f, trace = [Send 400 (Message ''Malformed parameter. chatId must be a number'')]\<rparr>) \<and>
   (run_steps [check_chatId] rq (init s f) = Next rq' w' \<longrightarrow>
     fst (pool_query (SelectChat (chatId rq'))
            (reading (select_chat (chatId rq'))) w') = Inl e \<longrightarrow>
     get_chatId rq (init s f) =
       w'\<lparr>trace := trace w' @ [Query (SelectChat (chatId rq')), Send 400 (SqlError ''SQL Error'' e)]\<rparr>) \<and>
   (run_steps [check_chatId] rq (init s f) = Next rq' w' \<longrightarrow>
     fst (pool_query (SelectChat (chatId rq'))
            (reading (select_chat (chatId rq'))) w') = Inr [] \<longrightarrow>
     get_chatId rq (init s f) =
       w'\<lparr>trace := trace w' @ [Query (SelectChat (chatId rq')), Send 404 (Message ''Chat ID not found'')]\<rparr>) \<and>
   (run_steps [check_chatId, chat_exists] rq (init s f) = Next rq' w' \<longrightarrow>
     fst (pool_query (SelectMembersOfChat (chatId rq'))
            (reading (select_members_of_chat (chatId rq'))) w') = Inl e \<longrightarrow>
     get_chatId rq (init s f) =
       w'\<lparr>trace := trace w' @ [Query (SelectMembersOfChat (chatId rq')), Send 400 (SqlError ''SQL Error'' e)]\<rparr>) \<and>
   (falsy (chatId rq) \<or> falsy (email rq) \<longrightarrow>
     delete_chatId_email rq (init s f) =
       \<lparr>db = s, faults = f, trace = [Send 400 (Message ''Missing required information'')]\<rparr>) \<and>
   (\<not> (falsy (chatId rq) \<or> falsy (email rq)) \<and> isNaN (chatId rq) \<longrightarrow>
     delete_chatId_email rq (init s f) =
       \<lparr>db = s, faults = f, trace = [Send 400 (Message ''Malformed parameter. chatId must be a number'')]\<rparr>) \<and>
   (run_steps [check_chatId_email] rq (init s f) = Next rq' w' \<longrightarrow>
     fst (pool_query (SelectChat (chatId rq'))
            (reading (select_chat (chatId rq'))) w') = Inl e \<longrightarrow>
     delete_chatId_email rq (init s f) =
       w'\<lparr>trace := trace w' @ [Query (SelectChat (chatId rq')), Send 400 (SqlError ''SQL Error'' e)]\<rparr>) \<and>
   (run_steps [check_chatId_email] rq (init s f) = Next rq' w' \<longrightarrow>
     fst (pool_query (SelectChat (chatId rq'))
            (reading (select_chat (chatId rq'))) w') = Inr [] \<longrightarrow>
     delete_chatId_email rq (init s f) =
       w'\<lparr>trace := trace w' @ [Query (SelectChat (chatId rq')), Send 404 (Message ''Chat ID not found'')]\<rparr>) \<and>
   (run_steps [check_chatId_email, chat_exists] rq (init s f) = Next rq' w' \<longrightarrow>
     fst (pool_query (SelectMemberByEmail (email rq'))
            (reading (select_member_by_email (email rq'))) w') = Inl e \<longrightarrow>
     delete_chatId_email rq (init s f) =
       w'\<lparr>trace := trace w' @ [Query (SelectMemberByEmail (email rq')), Send 400 (SqlError ''SQL Error'' e)]\<rparr>) \<and>
   (run_steps [check_chatId_email, chat_exists] rq (init s f) = Next rq' w' \<longrightarrow>
     fst (pool_query (SelectMemberByEmail (email rq'))
            (reading (select_member_by_email (email rq'))) w') = Inr [] \<longrightarrow>
     delete_chatId_email rq (init s f) =
       w'\<lparr>trace := trace w' @ [Query (SelectMemberByEmail (email rq')), Send 404 (Message ''email not found'')]\<rparr>) \<and>
   (run_steps [check_chatId_email, chat_exists, delete_chatId_email_3] rq (init s f) = Next rq' w' \<longrightarrow>
     fst (pool_query (SelectChatMember (chatId rq') (email rq'))
            (reading (select_chat_member (chatId rq') (email rq'))) w') = Inl e \<longrightarrow>
     delete_chatId_email rq (init s f) =
       w'\<lparr>trace := trace w' @ [Query (SelectChatMember (chatId rq') (email rq')), Send 400 (SqlError ''SQL Error'' e)]\<rparr>) \<and>
   (run_steps [check_chatId_email, chat_exists, delete_chatId_email_3] rq (init s f) = Next rq' w' \<longrightarrow>
     fst (pool_query (SelectChatMember (chatId rq') (email rq'))
            (reading (select_chat_member (chatId rq') (email rq'))) w') = Inr [] \<longrightarrow>
     delete_chatId_email rq (init s f) =
       w'\<lparr>trace := trace w' @ [Query (SelectChatMember (chatId rq') (email rq')), Send 400 (Message ''user not in chat'')]\<rparr>) \<and>
   (run_steps [check_chatId_email, chat_exists, delete_chatId_email_3, delete_chatId_email_4] rq (init s f) = Next rq' w' \<longrightarrow>
     fst (pool_query (DeleteChatMember (chatId rq') (email rq'))
            (delete_chat_member (chatId rq') (email rq')) w') = Inl e \<longrightarrow>
     delete_chatId_email rq (init s f) =
       w'\<lparr>trace := trace w' @ [Query (DeleteChatMember (chatId rq') (email rq')), Send 400 (SqlError ''SQL Error'' e)]\<rparr>)"
  apply (intro conjI impI)
  apply (rule responds_post_chats)
  apply (rule responds_last_after [OF responds_post_chats])
  apply (rule responds_get_chats)
  apply (rule responds_last_after [OF responds_get_chats])
  apply (rule responds_delete_chatId)
  apply (rule responds_last_after [OF responds_delete_chatId])
  apply (rule responds_put_chatId)
  apply (rule responds_last_after [OF responds_put_chatId])
  apply (rule responds_put_chatId_email)
  apply (rule responds_last_after [OF responds_put_chatId_email])
  apply (rule responds_get_chatId)
  apply (rule responds_last_after [OF responds_get_chatId])
  apply (rule responds_delete_chatId_email)
  apply (rule responds_last_after [OF responds_delete_chatId_email])
  apply (rule stop_post_chats_1a; assumption)
  apply (rule stop_post_chats_2a; assumption)
  apply (rule stop_get_chats_1a; assumption)
  apply (rule stop_delete_chatId_1a; assumption)
  apply (rule stop_delete_chatId_1b; assumption)
  apply (rule stop_delete_chatId_2a; assumption)
  apply (rule stop_delete_chatId_2b; assumption)
  apply (rule stop_delete_chatId_3a; assumption)
  apply (rule stop_delete_chatId_4a; assumption)
  apply (rule stop_delete_chatId_5a; assumption)
  apply (rule stop_put_chatId_1a; assumption)
  apply (rule stop_put_chatId_1b; assumption)
  apply (rule stop_put_chatId_2a; assumption)
  apply (rule stop_put_chatId_2b; assumption)
  apply (rule stop_put_chatId_3a; assumption)
  apply (rule stop_put_chatId_3b; assumption)
  apply (rule stop_put_chatId_4a; assumption)
  apply (rule stop_put_chatId_4b; assumption)
  apply (rule stop_put_chatId_5a; assumption)
  apply (rule stop_put_chatId_email_1a; assumption)
  apply (rule stop_put_chatId_email_1b; assumption)
  apply (rule stop_put_chatId_email_2a; assumption)
  apply (rule stop_put_chatId_email_2b; assumption)
  apply (rule stop_put_chatId_email_3a; assumption)
  apply (rule stop_put_chatId_email_3b; assumption)
  apply (rule stop_put_chatId_email_4a; assumption)
  apply (rule stop_put_chatId_email_4b; assumption)
  apply (rule stop_put_chatId_email_5a; assumption)
  apply (rule stop_put_chatId_email_6a; assumption)
  apply (rule stop_get_chatId_1a; assumption)
  apply (rule stop_get_chatId_1b; assumption)
  apply (rule stop_get_chatId_2a; assumption)
  apply (rule stop_get_chatId_2b; assumption)
  apply (rule stop_get_chatId_3a; assumption)
  apply (rule stop_delete_chatId_email_1a; assumption)
  apply (rule stop_delete_chatId_email_1b; assumption)
  apply (rule stop_delete_chatId_email_2a; assumption)
  apply (rule stop_delete_chatId_email_2b; assumption)
  apply (rule stop_delete_chatId_email_3a; assumption)
  apply (rule stop_delete_chatId_email_3b; assumption)
  apply (rule stop_delete_chatId_email_4a; assumption)
  apply (rule stop_delete_chatId_email_4b; assumption)
  by (rule stop_delete_chatId_email_5a; assumption)


theorem C8_witness:
  "put_chatId (req (Str ''1'') Undefined Undefined 10) (init demo_store no_faults) =
     \<lparr>db = demo_store, faults = no_faults,
      trace = [Query (SelectChat (Str ''1'')), Query (SelectMemberById (Num 10)),
               Query (SelectChatMember (Str ''1'') (Num 10)),
               Send 400 (Message ''user already joined'')]\<rparr> \<and>
   delete_chatId (req (Str ''abc'') Undefined Undefined 10) (init demo_store no_faults) =
     \<lparr>db = demo_store, faults = no_faults,
      trace = [Send 400 (Message ''Malformed parameter. chatId must be a number'')]\<rparr> \<and>
   get_chats (req Undefined Undefined Undefined 10) (init demo_store (fault_at 0)) =
     \<lparr>db = demo_store, faults = fault_at 0,
      trace = [Query (SelectChatsOfMember (Num 10)), Send 400 (SqlError ''SQL Error'' DriverFault)]\<rparr> \<and>
   responds_last (trace (put_chatId (req (Str ''1'') Undefined Undefined 10)
      (init demo_store no_faults)))"
proof -
  let ?rq = "req (Str ''1'') Undefined Undefined 10"
  let ?w = "\<lparr>db = demo_store, faults = no_faults,
      trace = [Query (SelectChat (Str ''1'')), Query (SelectMemberById (Num 10))]\<rparr>"
  note one = chatId_passes [OF int_of_text_1] where_int_Str [OF int_of_text_1]
  have pre: "run_steps [check_chatId, chat_exists, put_chatId_3] ?rq (init demo_store no_faults) =
      Next ?rq ?w"
    using one
    by (simp add: chain_defs put_chatId_3_def select_chat_def select_member_by_id_def
        where_int_Num demo_store_def no_faults_def)
  have ans: "fst (pool_query (SelectChatMember (chatId ?rq) (Num (decoded_memberid ?rq)))
      (reading (select_chat_member (chatId ?rq) (Num (decoded_memberid ?rq)))) ?w) =
      Inr ((1, 10) # [])"
    using one
    by (simp add: chain_defs select_chat_member_def where_int_Num demo_store_def no_faults_def)
  have "run_steps [check_chatId, chat_exists, put_chatId_3] ?rq (init demo_store no_faults) =
      Next ?rq ?w \<longrightarrow>
    fst (pool_query (SelectChatMember (chatId ?rq) (Num (decoded_memberid ?rq)))
      (reading (select_chat_member (chatId ?rq) (Num (decoded_memberid ?rq)))) ?w) =
      Inr ((1, 10) # []) \<longrightarrow>
    put_chatId ?rq (init demo_store no_faults) =
      ?w\<lparr>trace := trace ?w @ [Query (SelectChatMember (chatId ?rq) (Num (decoded_memberid ?rq))),
        Send 400 (Message ''user already joined'')]\<rparr>"
    using C8_response_ends_the_request [where rq = ?rq and s = demo_store and f = no_faults and rq' = ?rq and w' = ?w
        and r = "(1, 10)" and rs = "[]" and e = DriverFault]
    by - (elim conjE, assumption)
  with pre ans have a: "put_chatId ?rq (init demo_store no_faults) =
      ?w\<lparr>trace := trace ?w @ [Query (SelectChatMember (chatId ?rq) (Num (decoded_memberid ?rq))),
        Send 400 (Message ''user already joined'')]\<rparr>"
    by blast
  have last: "responds_last (trace (put_chatId ?rq (init demo_store no_faults)))"
    using C8_response_ends_the_request [where rq = ?rq and s = demo_store and f = no_faults and rq' = ?rq and w' = ?w
        and r = "(1, 10)" and rs = "[]" and e = DriverFault]
    by - (elim conjE, assumption)
  let ?rq2 = "req (Str ''abc'') Undefined Undefined 10"
  have nan: "\<not> falsy (chatId ?rq2) \<and> isNaN (chatId ?rq2)"
    using isNaN_abc isNaN_not_falsy [OF isNaN_abc] by (simp add: req_def)
  have "\<not> falsy (chatId ?rq2) \<and> isNaN (chatId ?rq2) \<longrightarrow>
    delete_chatId ?rq2 (init demo_store no_faults) =
     \<lparr>db = demo_store, faults = no_faults,
      trace = [Send 400 (Message ''Malformed parameter. chatId must be a number'')]\<rparr>"
    using C8_response_ends_the_request [where rq = ?rq2 and s = demo_store and f = no_faults and rq' = ?rq and w' = ?w
        and r = "(1, 10)" and rs = "[]" and e = DriverFault]
    by - (elim conjE, assumption)
  with nan have b: "delete_chatId ?rq2 (init demo_store no_faults) =
     \<lparr>db = demo_store, faults = no_faults,
      trace = [Send 400 (Message ''Malformed parameter. chatId must be a number'')]\<rparr>"
    by blast
  let ?rq3 = "req Undefined Undefined Undefined 10"
  have rej: "fst (pool_query (SelectChatsOfMember (Num (decoded_memberid ?rq3)))
      (reading (select_chats_of_member (Num (decoded_memberid ?rq3))))
      (init demo_store (fault_at 0))) = Inl DriverFault"
    by (simp add: chain_defs fault_at_def)
  have "fst (pool_query (SelectChatsOfMember (Num (decoded_memberid ?rq3)))
      (reading (select_chats_of_member (Num (decoded_memberid ?rq3))))
      (init demo_store (fault_at 0))) = Inl DriverFault \<longrightarrow>
    get_chats ?rq3 (init demo_store (fault_at 0)) =
     \<lparr>db = demo_store, faults = fault_at 0,
      trace = [Query (SelectChatsOfMember (Num (decoded_memberid ?rq3))),
        Send 400 (SqlError ''SQL Error'' DriverFault)]\<rparr>"
    using C8_response_ends_the_request [where rq = ?rq3 and s = demo_store and f = "fault_at 0" and rq' = ?rq
        and w' = ?w and r = "(1, 10)" and rs = "[]" and e = DriverFault]
    by - (elim conjE, assumption)
  with rej have c: "get_chats ?rq3 (init demo_store (fault_at 0)) =
     \<lparr>db = demo_store, faults = fault_at 0,
      trace = [Query (SelectChatsOfMember (Num (decoded_memberid ?rq3))),
        Send 400 (SqlError ''SQL Error'' DriverFault)]\<rparr>"
    by blast
  show ?thesis
    using a b c last by (simp add: req_def)
qed

section \<open>The decimal text of an id, and the runs of the listing routes\<close>

lemma digit_char_digit: "d < 10 \<Longrightarrow> is_digit (digit_char d)"
proof -
  assume "d < 10"
  then have "d \<in> {0, 1, 2, 3, 4, 5, 6, 7, 8, 9}" by auto
  then show ?thesis
    by (auto simp: is_digit_def digit_char_def)
qed

lemma digit_val_char: "d < 10 \<Longrightarrow> digit_val (digit_char d) = d"
proof -
  assume "d < 10"
  then have "d \<in> {0, 1, 2, 3, 4, 5, 6, 7, 8, 9}" by auto
  then show ?thesis
    by (auto simp: digit_val_def digit_char_def)
qed

lemma digits_val_snoc: "digits_val (xs @ [c]) = 10 * digits_val xs + digit_val c"
  by (simp add: digits_val_def)

lemma show_nat_digits: "all_digits (show_nat n)"
proof (induction n rule: show_nat.induct)
  case (1 n)
  show ?case
  proof (cases "n < 10")
    case True
    then show ?thesis by (simp add: show_nat.simps [of n] all_digits_def digit_char_digit)
  next
    case False
    with 1 have "all_digits (show_nat (n div 10))" by simp
    moreover have "is_digit (digit_char (n mod 10))" by (simp add: digit_char_digit)
    ultimately show ?thesis using False
      by (simp add: show_nat.simps [of n] all_digits_def)
  qed
qed

lemma show_nat_val: "digits_val (show_nat n) = n"
proof (induction n rule: show_nat.induct)
  case (1 n)
  show ?case
  proof (cases "n < 10")
    case True
    then show ?thesis
      by (simp add: show_nat.simps [of n] digits_val_def digit_val_char)
  next
    case False
    with 1 have "digits_val (show_nat (n div 10)) = n div 10" by simp
    then show ?thesis using False
      by (simp add: show_nat.simps [of n] digits_val_snoc digit_val_char)
  qed
qed

lemma digit_not_is_space: "is_digit c \<Longrightarrow> \<not> is_space c"
  using digit_not_space [of c] by (simp add: js_space_def)

lemma trim_id: "t \<noteq> [] \<Longrightarrow> \<not> P (hd t) \<Longrightarrow> \<not> P (last t) \<Longrightarrow> trim P t = t"
  using trim_unique [of "[]" P "[]" t] by simp

lemma digit_not_sign: "is_digit c \<Longrightarrow> c \<noteq> CHR ''-'' \<and> c \<noteq> CHR ''+''"
  by (auto simp: is_digit_def)

lemma int_of_text_show_int: "int_of_text (show_int n) = Some n"
proof (cases "n < 0")
  case True
  let ?r = "show_nat (nat (- n))"
  have r: "all_digits ?r" by (rule show_nat_digits)
  then have "?r \<noteq> []" "is_digit (last ?r)" using all_digits_ends [of ?r] all_digits_span [of ?r] by auto
  then have "trim is_space (CHR ''-'' # ?r) = CHR ''-'' # ?r"
    by (intro trim_id) (auto simp: digit_not_is_space is_space_def is_digit_def)
  then show ?thesis using True r
    by (simp add: int_of_text_def show_int_def show_nat_val)
next
  case False
  let ?r = "show_nat (nat n)"
  have r: "all_digits ?r" by (rule show_nat_digits)
  then have ne: "?r \<noteq> []" and d: "is_digit (hd ?r)" "is_digit (last ?r)"
    using all_digits_ends [of ?r] all_digits_span [of ?r] by auto
  then have t: "trim is_space ?r = ?r"
    by (intro trim_id) (auto simp: digit_not_is_space)
  obtain c r' where cr: "?r = c # r'" using ne by (cases ?r) auto
  then have "c \<noteq> CHR ''-''" "c \<noteq> CHR ''+''" using d(1) digit_not_sign [of c] by auto
  then show ?thesis using False r t cr show_nat_val [of "nat n"]
    by (simp add: int_of_text_def show_int_def)
qed

lemma seq_ahead_members:
  "seq_ahead s \<Longrightarrow> filter (\<lambda>cm. fst cm = ChatSeq s \<and> P cm) (ChatMembers s) = []"
  by (auto simp: seq_ahead_def list_all_iff filter_empty_conv)

lemma seq_ahead_members': "seq_ahead s \<Longrightarrow> filter (\<lambda>cm. fst cm = ChatSeq s) (ChatMembers s) = []"
  by (auto simp: seq_ahead_def list_all_iff filter_empty_conv)

lemma post_chats_run:
  assumes "nm \<noteq> []" "\<not> f 0"
  shows "post_chats (req c e (Str nm) m) (init s f) =
     \<lparr>db = s\<lparr>Chats := Chats s @ [(ChatSeq s, nm)], ChatSeq := ChatSeq s + 1\<rparr>, faults = f,
      trace = [Query (InsertChat (Str nm)), Send 201 (Created (ChatSeq s))]\<rparr>"
  using assms
  by (simp add: post_chats_def post_chats_1_def post_chats_2_def isStringProvided_def
      chain_defs insert_chat_def sql_text_def)

lemma get_chats_run:
  assumes "\<not> f 0"
  shows "get_chats (req c e n m) (init s f) =
     \<lparr>db = s, faults = f,
      trace = [Query (SelectChatsOfMember (Num m)),
               Send 200 (ChatRooms
                 (length (concat (map (\<lambda>ch. map (\<lambda>cm. ch)
                     (filter (\<lambda>cm. fst cm = fst ch \<and> snd cm = m) (ChatMembers s))) (Chats s))))
                 (concat (map (\<lambda>ch. map (\<lambda>cm. ch)
                     (filter (\<lambda>cm. fst cm = fst ch \<and> snd cm = m) (ChatMembers s))) (Chats s))))]\<rparr>"
  using assms
  by (simp add: get_chats_def get_chats_1_def chain_defs select_chats_of_member_def where_int_Num)

lemma get_chatId_run:
  assumes cid: "int_of_text cid = Some c"
    and chat: "filter (\<lambda>ch. fst ch = c) (Chats s) \<noteq> []"
    and f: "\<And>k. k < 2 \<Longrightarrow> \<not> f k"
  shows "get_chatId (req (Str cid) e n m) (init s f) =
     \<lparr>db = s, faults = f,
      trace = [Query (SelectChat (Str cid)), Query (SelectMembersOfChat (Str cid)),
               Send 200 (MemberRows
                 (length (concat (map (\<lambda>cm. map snd (filter (\<lambda>m. fst m = snd cm) (Members s)))
                         (filter (\<lambda>cm. fst cm = c) (ChatMembers s)))))
                 (concat (map (\<lambda>cm. map snd (filter (\<lambda>m. fst m = snd cm) (Members s)))
                         (filter (\<lambda>cm. fst cm = c) (ChatMembers s)))))]\<rparr>"
  using chat chatId_passes [OF cid]
  by (simp add: get_chatId_def get_chatId_3_def chain_defs select_chat_def
      select_members_of_chat_def where_int_Str [OF cid] f)

lemma chats_of_member_fresh:
  assumes "seq_ahead s"
  shows "concat (map (\<lambda>ch. map (\<lambda>cm. ch)
            (filter (\<lambda>cm. fst cm = fst ch \<and> snd cm = m) (ChatMembers s @ [(ChatSeq s, m)])))
          (Chats s @ [(ChatSeq s, nm)])) =
         concat (map (\<lambda>ch. map (\<lambda>cm. ch)
            (filter (\<lambda>cm. fst cm = fst ch \<and> snd cm = m) (ChatMembers s))) (Chats s)) @
         [(ChatSeq s, nm)]"
proof -
  define F :: "int \<times> string \<Rightarrow> (int \<times> string) list" where
    "F = (\<lambda>ch. map (\<lambda>cm. ch)
            (filter (\<lambda>cm. fst cm = fst ch \<and> snd cm = m) (ChatMembers s @ [(ChatSeq s, m)])))"
  define G :: "int \<times> string \<Rightarrow> (int \<times> string) list" where
    "G = (\<lambda>ch. map (\<lambda>cm. ch)
            (filter (\<lambda>cm. fst cm = fst ch \<and> snd cm = m) (ChatMembers s)))"
  have old: "map F (Chats s) = map G (Chats s)"
    unfolding F_def G_def using assms
    by (intro map_cong) (auto simp: seq_ahead_def list_all_iff)
  have new: "F (ChatSeq s, nm) = [(ChatSeq s, nm)]"
    unfolding F_def using seq_ahead_members [OF assms, of "\<lambda>cm. snd cm = m"] by simp
  have "concat (map F (Chats s @ [(ChatSeq s, nm)])) =
        concat (map G (Chats s)) @ [(ChatSeq s, nm)]"
    by (simp add: old new)
  then show ?thesis unfolding F_def G_def .
qed

lemma chats_of_member_no_new:
  assumes "seq_ahead s"
  shows "concat (map (\<lambda>ch. map (\<lambda>cm. ch)
            (filter (\<lambda>cm. fst cm = fst ch \<and> snd cm = m) (ChatMembers s)))
          (Chats s @ [(ChatSeq s, nm)])) =
         concat (map (\<lambda>ch. map (\<lambda>cm. ch)
            (filter (\<lambda>cm. fst cm = fst ch \<and> snd cm = m) (ChatMembers s))) (Chats s))"
  using seq_ahead_members [OF assms, of "\<lambda>cm. snd cm = m"] by simp

lemma chats_of_member_ids:
  "fst ` set (concat (map (\<lambda>ch. map (\<lambda>cm. ch)
            (filter (\<lambda>cm. fst cm = fst ch \<and> snd cm = m) cms)) chs)) \<subseteq> fst ` set cms"
  by (auto simp: image_iff) force

section \<open>The invariant of the generated ids\<close>

text \<open>
  Every route keeps \<open>seq_ahead\<close>, for every request and whatever the driver rejects: a
  membership row is only inserted for a chat that the existence check has found, and a
  new chat takes the next value of the sequence.
\<close>

lemma seq_ahead_filter:
  "seq_ahead s \<Longrightarrow> seq_ahead (s\<lparr>ChatMembers := filter P (ChatMembers s)\<rparr>)"
  "seq_ahead s \<Longrightarrow> seq_ahead (s\<lparr>Chats := filter Q (Chats s)\<rparr>)"
  "seq_ahead s \<Longrightarrow>
   seq_ahead (s\<lparr>ChatMembers := filter P (ChatMembers s), Chats := filter Q (Chats s)\<rparr>)"
  by (auto simp: seq_ahead_def list_all_iff)

lemma seq_ahead_insert_chat:
  "seq_ahead s \<Longrightarrow> seq_ahead (s\<lparr>Chats := Chats s @ [(ChatSeq s, nm)], ChatSeq := ChatSeq s + 1\<rparr>)"
  by (auto simp: seq_ahead_def list_all_iff)

lemma seq_ahead_insert_member:
  "seq_ahead s \<Longrightarrow> filter (\<lambda>ch. fst ch = c) (Chats s) \<noteq> [] \<Longrightarrow>
   seq_ahead (s\<lparr>ChatMembers := ChatMembers s @ [(c, m)]\<rparr>)"
  by (auto simp: seq_ahead_def list_all_iff filter_empty_conv)

lemma seq_ahead_post_chats:
  "seq_ahead s \<Longrightarrow> seq_ahead (db (post_chats rq (init s f)))"
  by (auto simp: post_chats_def post_chats_1_def post_chats_2_def chain_defs insert_chat_def
      seq_ahead_insert_chat split: option.splits)

lemma seq_ahead_get_chats:
  "seq_ahead s \<Longrightarrow> seq_ahead (db (get_chats rq (init s f)))"
  by (auto simp: get_chats_def get_chats_1_def chain_defs select_chats_of_member_def
      where_int_Num)

lemma where_int_cases:
  "(\<exists>e. sql_int v = Inl e \<and> where_int v = Inl e) \<or>
   (sql_int v = Inr None \<and> where_int v = Inr (\<lambda>x. False)) \<or>
   (\<exists>n. sql_int v = Inr (Some n) \<and> where_int v = Inr (\<lambda>x. x = n))"
  by (auto simp: where_int_def split: sum.splits option.splits)

lemma seq_ahead_get_chatId:
  "seq_ahead s \<Longrightarrow> seq_ahead (db (get_chatId rq (init s f)))"
  using where_int_cases [of "chatId rq"]
  by (auto simp: get_chatId_def get_chatId_3_def chain_defs select_chat_def
      select_members_of_chat_def)

lemma seq_ahead_delete_chatId:
  "seq_ahead s \<Longrightarrow> seq_ahead (db (delete_chatId rq (init s f)))"
  using where_int_cases [of "chatId rq"]
  by (auto simp: delete_chatId_def delete_chatId_3_def delete_chatId_4_def delete_chatId_5_def
      chain_defs select_chat_def delete_chat_member_def count_chat_members_def delete_chat_def
      where_int_Num seq_ahead_filter)

lemma seq_ahead_delete_chatId_email:
  "seq_ahead s \<Longrightarrow> seq_ahead (db (delete_chatId_email rq (init s f)))"
  using where_int_cases [of "chatId rq"]
  by (auto simp: delete_chatId_email_def delete_chatId_email_3_def delete_chatId_email_4_def
      delete_chatId_email_5_def chain_defs select_chat_def delete_chat_member_def
      select_member_by_email_def select_chat_member_def
      where_int_Num seq_ahead_filter split: option.splits list.splits)

lemma seq_ahead_put_chatId:
  "seq_ahead s \<Longrightarrow> seq_ahead (db (put_chatId rq (init s f)))"
  using where_int_cases [of "chatId rq"]
  by (auto simp: put_chatId_def put_chatId_3_def put_chatId_5_def
      chain_defs select_chat_def select_member_by_id_def select_chat_member_def
      insert_chat_member_def where_int_Num sql_int_def [of "Num n" for n]
      seq_ahead_insert_member split: option.splits list.splits)

lemma seq_ahead_put_chatId_email:
  "seq_ahead s \<Longrightarrow> seq_ahead (db (put_chatId_email rq (init s f)))"
  using where_int_cases [of "chatId rq"]
  by (auto simp: put_chatId_email_def put_chatId_email_2_def put_chatId_email_3_def
      put_chatId_email_5_def put_chatId_email_6_def notify_all_world
      chain_defs select_chat_def select_member_by_email_def select_chat_member_def
      select_push_tokens_def
      insert_chat_member_def where_int_Num sql_int_def [of "Num n" for n]
      seq_ahead_insert_member split: option.splits list.splits)

lemma seq_ahead_kept:
  assumes "seq_ahead s"
  shows "seq_ahead (db (post_chats rq (init s f)))"
    and "seq_ahead (db (get_chats rq (init s f)))"
    and "seq_ahead (db (delete_chatId rq (init s f)))"
    and "seq_ahead (db (put_chatId rq (init s f)))"
    and "seq_ahead (db (put_chatId_email rq (init s f)))"
    and "seq_ahead (db (get_chatId rq (init s f)))"
    and "seq_ahead (db (delete_chatId_email rq (init s f)))"
  using assms
  by (simp_all add: seq_ahead_post_chats seq_ahead_get_chats seq_ahead_delete_chatId
      seq_ahead_put_chatId seq_ahead_put_chatId_email seq_ahead_get_chatId
      seq_ahead_delete_chatId_email)

section \<open>Create, join, list\<close>

text \<open>
  Claim C9. The store satisfies the invariant of the generated ids and holds exactly
  one \<^verbatim>\<open>Members\<close> row for the caller \<open>m\<close>, with email \<open>em\<close> and username \<open>u\<close>; the
  driver rejects none of the queries. Then \<^verbatim>\<open>POST /chats {name: "Team"}\<close> answers
  \<^verbatim>\<open>201\<close> with the generated id \<open>n\<close>; \<^verbatim>\<open>PUT /chats/n\<close> (the id in decimal) by the
  caller answers \<^verbatim>\<open>200 {success: true}\<close>; \<^verbatim>\<open>GET /chats/n\<close> then returns one row,
  the caller's email and username; and \<^verbatim>\<open>GET /chats\<close> for the caller returns the rows
  it returned before the round trip followed by \<open>(n, "Team")\<close>.
\<close>

theorem C9_create_join_list:
  assumes inv: "seq_ahead s"
    and member: "filter (\<lambda>r. fst r = m) (Members s) = [(m, em, u)]"
    and f1: "\<not> f1 0" and f2: "\<forall>k<4. \<not> f2 k" and f3: "\<forall>k<2. \<not> f3 k" and f4: "\<not> f4 0"
  shows "let w1 = post_chats (req Undefined Undefined (Str ''Team'') m) (init s f1);
             cid = Str (show_int (ChatSeq s));
             w2 = put_chatId (req cid Undefined Undefined m) (init (db w1) f2);
             w3 = get_chatId (req cid Undefined Undefined m) (init (db w2) f3);
             w4 = get_chats (req Undefined Undefined Undefined m) (init (db w2) f4)
         in response w1 = [(201, Created (ChatSeq s))] \<and>
            response w2 = [(200, Success)] \<and>
            response w3 = [(200, MemberRows 1 [(em, u)])] \<and>
            (\<exists>rows.
               response (get_chats (req Undefined Undefined Undefined m) (init s f4)) =
                 [(200, ChatRooms (length rows) rows)] \<and>
               response w4 =
                 [(200, ChatRooms (Suc (length rows)) (rows @ [(ChatSeq s, ''Team'')]))])"
proof -
  let ?n = "ChatSeq s"
  let ?cid = "show_int ?n"
  let ?s1 = "s\<lparr>Chats := Chats s @ [(?n, ''Team'')], ChatSeq := ?n + 1\<rparr>"
  let ?s2 = "?s1\<lparr>ChatMembers := ChatMembers ?s1 @ [(?n, m)]\<rparr>"
  let ?rows = "concat (map (\<lambda>ch. map (\<lambda>cm. ch)
      (filter (\<lambda>cm. fst cm = fst ch \<and> snd cm = m) (ChatMembers s))) (Chats s))"
  note cid = int_of_text_show_int [of ?n]
  have w1: "post_chats (req Undefined Undefined (Str ''Team'') m) (init s f1) =
      \<lparr>db = ?s1, faults = f1,
       trace = [Query (InsertChat (Str ''Team'')), Send 201 (Created ?n)]\<rparr>"
    by (rule post_chats_run) (use f1 in simp_all)
  have w2: "put_chatId (req (Str ?cid) Undefined Undefined m) (init ?s1 f2) =
      \<lparr>db = ?s2, faults = f2,
       trace = [Query (SelectChat (Str ?cid)), Query (SelectMemberById (Num m)),
                Query (SelectChatMember (Str ?cid) (Num m)),
                Query (InsertChatMember (Str ?cid) (Num m)), Send 200 Success]\<rparr>"
    by (rule put_chatId_joins [OF cid])
      (use f2 member seq_ahead_members [OF inv, of "\<lambda>cm. snd cm = m"] in simp_all)
  have members: "concat (map (\<lambda>cm. map snd (filter (\<lambda>m. fst m = snd cm) (Members ?s2)))
        (filter (\<lambda>cm. fst cm = ?n) (ChatMembers ?s2))) = [(em, u)]"
    using member seq_ahead_members' [OF inv] by simp
  have w3: "get_chatId (req (Str ?cid) Undefined Undefined m) (init ?s2 f3) =
      \<lparr>db = ?s2, faults = f3,
       trace = [Query (SelectChat (Str ?cid)), Query (SelectMembersOfChat (Str ?cid)),
                Send 200 (MemberRows 1 [(em, u)])]\<rparr>"
    using get_chatId_run [OF cid, of ?s2 f3 Undefined Undefined m] f3
    unfolding members by simp
  have w0: "get_chats (req Undefined Undefined Undefined m) (init s f4) =
      \<lparr>db = s, faults = f4,
       trace = [Query (SelectChatsOfMember (Num m)), Send 200 (ChatRooms (length ?rows) ?rows)]\<rparr>"
    by (rule get_chats_run) (rule f4)
  let ?X = "concat (map (\<lambda>ch. map (\<lambda>cm. ch)
      (filter (\<lambda>cm. fst cm = fst ch \<and> snd cm = m) (ChatMembers ?s2))) (Chats ?s2))"
  have sel: "ChatMembers ?s2 = ChatMembers s @ [(?n, m)]" "Chats ?s2 = Chats s @ [(?n, ''Team'')]"
    by simp_all
  have X: "?X = ?rows @ [(?n, ''Team'')]"
    unfolding sel by (rule chats_of_member_fresh [OF inv])
  have "get_chats (req Undefined Undefined Undefined m) (init ?s2 f4) =
      \<lparr>db = ?s2, faults = f4,
       trace = [Query (SelectChatsOfMember (Num m)), Send 200 (ChatRooms (length ?X) ?X)]\<rparr>"
    by (rule get_chats_run) (rule f4)
  then have w4: "get_chats (req Undefined Undefined Undefined m) (init ?s2 f4) =
      \<lparr>db = ?s2, faults = f4,
       trace = [Query (SelectChatsOfMember (Num m)),
                Send 200 (ChatRooms (Suc (length ?rows)) (?rows @ [(?n, ''Team'')]))]\<rparr>"
    unfolding X by simp
  have "response (get_chats (req Undefined Undefined Undefined m) (init s f4)) =
          [(200, ChatRooms (length ?rows) ?rows)] \<and>
        response (get_chats (req Undefined Undefined Undefined m) (init ?s2 f4)) =
          [(200, ChatRooms (Suc (length ?rows)) (?rows @ [(?n, ''Team'')]))]"
    unfolding w0 w4 by (simp add: response_def)
  then have ex: "\<exists>rows.
      response (get_chats (req Undefined Undefined Undefined m) (init s f4)) =
        [(200, ChatRooms (length rows) rows)] \<and>
      response (get_chats (req Undefined Undefined Undefined m) (init ?s2 f4)) =
        [(200, ChatRooms (Suc (length rows)) (rows @ [(?n, ''Team'')]))]"
    by blast
  have r3: "response (get_chatId (req (Str ?cid) Undefined Undefined m) (init ?s2 f3)) =
      [(200, MemberRows 1 [(em, u)])]"
    unfolding w3 by (simp add: response_def)
  show ?thesis
    unfolding Let_def w1 world.simps w2 using r3 ex by (simp add: response_def)
qed

lemma show_int_3: "show_int 3 = ''3''"
  by (simp add: show_int_def show_nat.simps digit_char_def)

lemma seq_ahead_demo: "seq_ahead demo_store"
  by (simp add: seq_ahead_def demo_store_def)

theorem C9_witness:
  "response (post_chats (req Undefined Undefined (Str ''Team'') 10) (init demo_store no_faults)) =
     [(201, Created 3)] \<and>
   response (put_chatId (req (Str ''3'') Undefined Undefined 10)
     (init (db (post_chats (req Undefined Undefined (Str ''Team'') 10)
        (init demo_store no_faults))) no_faults)) = [(200, Success)] \<and>
   response (get_chatId (req (Str ''3'') Undefined Undefined 10)
     (init (db (put_chatId (req (Str ''3'') Undefined Undefined 10)
        (init (db (post_chats (req Undefined Undefined (Str ''Team'') 10)
           (init demo_store no_faults))) no_faults))) no_faults)) =
     [(200, MemberRows 1 [(''a@x.org'', ''alice'')])]"
proof -
  have h: "filter (\<lambda>r. fst r = 10) (Members demo_store) = [(10, ''a@x.org'', ''alice'')]"
      "\<not> no_faults 0" "\<forall>k<4. \<not> no_faults k" "\<forall>k<2. \<not> no_faults k"
    by (simp_all add: demo_store_def no_faults_def)
  have n: "ChatSeq demo_store = 3" by (simp add: demo_store_def)
  show ?thesis
    using C9_create_join_list [of demo_store 10 "''a@x.org''" "''alice''" no_faults no_faults
        no_faults no_faults] seq_ahead_demo h
    by (simp add: Let_def n show_int_3)
qed

section \<open>Creating a chat adds no member\<close>

lemma post_chats_created:
  assumes "response (post_chats (req c e nm m) (init s f)) = [(201, Created n)]"
  shows "\<exists>name. nm = Str name \<and> name \<noteq> [] \<and> \<not> f 0 \<and> n = ChatSeq s"
proof (cases nm)
  case Undefined
  with assms show ?thesis
    by (simp add: post_chats_def post_chats_1_def isStringProvided_def chain_defs response_def)
next
  case (Num k)
  with assms show ?thesis
    by (simp add: post_chats_def post_chats_1_def isStringProvided_def chain_defs response_def)
next
  case (Str name)
  with assms show ?thesis
    by (cases "name = []"; cases "f 0")
      (simp_all add: post_chats_def post_chats_1_def post_chats_2_def isStringProvided_def
        chain_defs response_def insert_chat_def sql_text_def)
qed

text \<open>
  Claim C10. The store satisfies the invariant of the generated ids and
  \<^verbatim>\<open>POST /chats\<close> answers \<^verbatim>\<open>201\<close> with the id \<open>n\<close>. Then \<^verbatim>\<open>ChatMembers\<close>,
  \<^verbatim>\<open>Members\<close> and \<^verbatim>\<open>Push_Token\<close> are as before, \<^verbatim>\<open>Chats\<close> has gained the one row
  of the new chat, no membership row mentions \<open>n\<close>, and for every member \<open>m'\<close> the
  answer of \<^verbatim>\<open>GET /chats\<close> is what it was before the creation, a list in which
  \<open>n\<close> does not occur.
\<close>

theorem C10_create_adds_no_member:
  assumes inv: "seq_ahead s"
    and created: "response (post_chats (req c e nm m) (init s f)) = [(201, Created n)]"
    and g: "\<not> g 0"
  shows "let w = post_chats (req c e nm m) (init s f) in
           ChatMembers (db w) = ChatMembers s \<and>
           Members (db w) = Members s \<and>
           Push_Token (db w) = Push_Token s \<and>
           (\<exists>name. Chats (db w) = Chats s @ [(n, name)]) \<and>
           filter (\<lambda>cm. fst cm = n) (ChatMembers (db w)) = [] \<and>
           response (get_chats (req c' e' nm' m') (init (db w) g)) =
             response (get_chats (req c' e' nm' m') (init s g)) \<and>
           (\<exists>rows. response (get_chats (req c' e' nm' m') (init (db w) g)) =
                     [(200, ChatRooms (length rows) rows)] \<and>
                   n \<notin> fst ` set rows)"
proof -
  from post_chats_created [OF created] obtain name
    where nm: "nm = Str name" "name \<noteq> []" and f: "\<not> f 0" and n: "n = ChatSeq s"
    by blast
  let ?s1 = "s\<lparr>Chats := Chats s @ [(ChatSeq s, name)], ChatSeq := ChatSeq s + 1\<rparr>"
  let ?rows = "concat (map (\<lambda>ch. map (\<lambda>cm. ch)
      (filter (\<lambda>cm. fst cm = fst ch \<and> snd cm = m') (ChatMembers s))) (Chats s))"
  let ?X = "concat (map (\<lambda>ch. map (\<lambda>cm. ch)
      (filter (\<lambda>cm. fst cm = fst ch \<and> snd cm = m') (ChatMembers ?s1))) (Chats ?s1))"
  have w: "post_chats (req c e nm m) (init s f) =
      \<lparr>db = ?s1, faults = f,
       trace = [Query (InsertChat (Str name)), Send 201 (Created (ChatSeq s))]\<rparr>"
    unfolding nm(1) by (rule post_chats_run) (use nm(2) f in simp_all)
  have sel: "ChatMembers ?s1 = ChatMembers s" "Chats ?s1 = Chats s @ [(ChatSeq s, name)]"
    by simp_all
  have X: "?X = ?rows"
    unfolding sel by (rule chats_of_member_no_new [OF inv])
  have w0: "get_chats (req c' e' nm' m') (init s g) =
      \<lparr>db = s, faults = g,
       trace = [Query (SelectChatsOfMember (Num m')), Send 200 (ChatRooms (length ?rows) ?rows)]\<rparr>"
    by (rule get_chats_run) (rule g)
  have "get_chats (req c' e' nm' m') (init ?s1 g) =
      \<lparr>db = ?s1, faults = g,
       trace = [Query (SelectChatsOfMember (Num m')), Send 200 (ChatRooms (length ?X) ?X)]\<rparr>"
    by (rule get_chats_run) (rule g)
  then have w1: "get_chats (req c' e' nm' m') (init ?s1 g) =
      \<lparr>db = ?s1, faults = g,
       trace = [Query (SelectChatsOfMember (Num m')), Send 200 (ChatRooms (length ?rows) ?rows)]\<rparr>"
    unfolding X .
  have same: "response (get_chats (req c' e' nm' m') (init ?s1 g)) =
      response (get_chats (req c' e' nm' m') (init s g))"
    unfolding w0 w1 by (simp add: response_def)
  have none: "filter (\<lambda>cm. fst cm = n) (ChatMembers s) = []"
    unfolding n by (rule seq_ahead_members' [OF inv])
  then have "n \<notin> fst ` set (ChatMembers s)"
    by (auto simp: filter_empty_conv)
  then have "n \<notin> fst ` set ?rows"
    using chats_of_member_ids [of m' "ChatMembers s" "Chats s"] by blast
  moreover have "response (get_chats (req c' e' nm' m') (init ?s1 g)) =
      [(200, ChatRooms (length ?rows) ?rows)]"
    unfolding w1 by (simp add: response_def)
  ultimately have ex: "\<exists>rows. response (get_chats (req c' e' nm' m') (init ?s1 g)) =
      [(200, ChatRooms (length rows) rows)] \<and> n \<notin> fst ` set rows"
    by blast
  have chats: "\<exists>name'. Chats ?s1 = Chats s @ [(n, name')]"
    unfolding n by simp
  show ?thesis
    unfolding Let_def w world.simps using same ex none chats by simp
qed

theorem C10_witness:
  "ChatMembers (db (post_chats (req Undefined Undefined (Str ''Team'') 10)
      (init demo_store no_faults))) = [(1, 10), (1, 11), (2, 10)] \<and>
   Chats (db (post_chats (req Undefined Undefined (Str ''Team'') 10)
      (init demo_store no_faults))) = [(1, ''General''), (2, ''Team''), (3, ''Team'')] \<and>
   response (get_chats (req Undefined Undefined Undefined 10)
      (init (db (post_chats (req Undefined Undefined (Str ''Team'') 10)
         (init demo_store no_faults))) no_faults)) =
     response (get_chats (req Undefined Undefined Undefined 10) (init demo_store no_faults))"
proof -
  have w: "post_chats (req Undefined Undefined (Str ''Team'') 10) (init demo_store no_faults) =
      \<lparr>db = demo_store\<lparr>Chats := Chats demo_store @ [(ChatSeq demo_store, ''Team'')],
                        ChatSeq := ChatSeq demo_store + 1\<rparr>, faults = no_faults,
       trace = [Query (InsertChat (Str ''Team'')), Send 201 (Created (ChatSeq demo_store))]\<rparr>"
    by (rule post_chats_run) (simp_all add: no_faults_def)
  have h: "response (post_chats (req Undefined Undefined (Str ''Team'') 10)
      (init demo_store no_faults)) = [(201, Created 3)]" "\<not> no_faults 0"
    unfolding w by (simp_all add: response_def demo_store_def no_faults_def)
  have "ChatMembers (db (post_chats (req Undefined Undefined (Str ''Team'') 10)
      (init demo_store no_faults))) = ChatMembers demo_store \<and>
   response (get_chats (req Undefined Undefined Undefined 10)
      (init (db (post_chats (req Undefined Undefined (Str ''Team'') 10)
         (init demo_store no_faults))) no_faults)) =
     response (get_chats (req Undefined Undefined Undefined 10) (init demo_store no_faults))"
    using C10_create_adds_no_member [of demo_store Undefined Undefined "Str ''Team''" 10
        no_faults 3 no_faults Undefined Undefined Undefined 10] seq_ahead_demo h
    by (simp add: Let_def)
  moreover have "Chats (db (post_chats (req Undefined Undefined (Str ''Team'') 10)
      (init demo_store no_faults))) = [(1, ''General''), (2, ''Team''), (3, ''Team'')]"
    unfolding w by (simp add: demo_store_def)
  moreover have "ChatMembers demo_store = [(1, 10), (1, 11), (2, 10)]"
    by (simp add: demo_store_def)
  ultimately show ?thesis by simp
qed

end
